theory Spec2Isabelle
  imports Complex_Main "HOL-Library.AList"
begin


section \<open>Python values\<close>

text \<open>
  The program builds its reports from dictionaries with string keys, lists, tuples
  (\<open>locale.getdefaultlocale()\<close>, \<open>time.tzname\<close>) and scalars. A dictionary is an
  association list in insertion order, as Python's \<open>dict\<close> iterates. A float is
  carried by its \<open>repr\<close> text: the program never computes with the floats it reports.
\<close>

datatype pyval =
    PNone
  | PBool bool
  | PInt int
  | PFloat string
  | PStr string
  | PList "pyval list"
  | PTuple "pyval list"
  | PDict "(string \<times> pyval) list"

text \<open>An exception: its class name and the message \<open>str(e)\<close> returns.\<close>

datatype exn = Exn (exn_class: string) (exn_msg: string)

subsection \<open>\<open>str\<close> and \<open>repr\<close>\<close>

definition digit_char :: "nat \<Rightarrow> char" where
  "digit_char d = char_of (48 + d)"

function str_nat :: "nat \<Rightarrow> string" where
  "str_nat n = (if n < 10 then [digit_char n] else str_nat (n div 10) @ [digit_char (n mod 10)])"
  by pat_completeness auto
termination
  by (relation "measure id") auto

declare str_nat.simps [simp del]

definition str_int :: "int \<Rightarrow> string" where
  "str_int i = (if i < 0 then CHR ''-'' # str_nat (nat (- i)) else str_nat (nat i))"

definition hex_char :: "nat \<Rightarrow> char" where
  "hex_char d = (if d < 10 then char_of (48 + d) else char_of (87 + d))"

text \<open>
  \<open>repr\<close> of a string of code points below 256: single quotes unless the string has a
  single quote and no double quote; backslash, the quote in use, tab, newline and
  carriage return are escaped, other unprintable characters are written \<open>\xhh\<close>.
\<close>

definition py_printable :: "char \<Rightarrow> bool" where
  "py_printable c = (let n = of_char c :: nat in (32 \<le> n \<and> n < 127) \<or> (161 \<le> n \<and> n \<noteq> 173))"

definition repr_char :: "char \<Rightarrow> char \<Rightarrow> string" where
  "repr_char q c =
     (if c = q \<or> c = CHR 0x5C then [CHR 0x5C, c]
      else if c = CHR 0x09 then [CHR 0x5C, CHR ''t'']
      else if c = CHR 0x0A then [CHR 0x5C, CHR ''n'']
      else if c = CHR 0x0D then [CHR 0x5C, CHR ''r'']
      else if py_printable c then [c]
      else [CHR 0x5C, CHR ''x'', hex_char (of_char c div 16), hex_char (of_char c mod 16)])"

definition repr_str :: "string \<Rightarrow> string" where
  "repr_str s =
     (let q = (if CHR 0x27 \<in> set s \<and> CHR 0x22 \<notin> set s then CHR 0x22 else CHR 0x27)
      in [q] @ concat (map (repr_char q) s) @ [q])"

fun join :: "string \<Rightarrow> string list \<Rightarrow> string" where
  "join sep [] = []"
| "join sep [x] = x"
| "join sep (x # y # ys) = x @ sep @ join sep (y # ys)"

fun py_repr :: "pyval \<Rightarrow> string" where
  "py_repr PNone = ''None''"
| "py_repr (PBool b) = (if b then ''True'' else ''False'')"
| "py_repr (PInt i) = str_int i"
| "py_repr (PFloat r) = r"
| "py_repr (PStr s) = repr_str s"
| "py_repr (PList xs) = ''['' @ join '', '' (map py_repr xs) @ '']''"
| "py_repr (PTuple xs) =
     (case xs of [x] \<Rightarrow> ''('' @ py_repr x @ '',)''
      | _ \<Rightarrow> ''('' @ join '', '' (map py_repr xs) @ '')'')"
| "py_repr (PDict kvs) =
     ''{'' @ join '', '' (map (\<lambda>(k, v). repr_str k @ '': '' @ py_repr v) kvs) @ ''}''"

definition py_str :: "pyval \<Rightarrow> string" where
  "py_str v = (case v of PStr s \<Rightarrow> s | _ \<Rightarrow> py_repr v)"

definition type_name :: "pyval \<Rightarrow> string" where
  "type_name v =
     (case v of PNone \<Rightarrow> ''NoneType'' | PBool _ \<Rightarrow> ''bool'' | PInt _ \<Rightarrow> ''int''
      | PFloat _ \<Rightarrow> ''float'' | PStr _ \<Rightarrow> ''str'' | PList _ \<Rightarrow> ''list''
      | PTuple _ \<Rightarrow> ''tuple'' | PDict _ \<Rightarrow> ''dict'')"

section \<open>The platform: oracles and mutable state\<close>

text \<open>
  Everything outside the program is an oracle. Platform calls are numbered in the order
  they are made: \<open>fault env n\<close> says whether the \<open>n\<close>-th call raises, \<open>clock env n\<close>
  is what \<open>time.time()\<close> returns when it is the \<open>n\<close>-th call (an idealised float),
  \<open>temp_name env n\<close> the name \<open>tempfile\<close> hands out there, and \<open>fmt_4f\<close> is the
  float formatting \<open>f"{x:.4f}"\<close>.
\<close>

record env =
  fault :: "nat \<Rightarrow> exn option"
  clock :: "nat \<Rightarrow> real"
  temp_name :: "nat \<Rightarrow> string"
  fmt_4f :: "real \<Rightarrow> string"

datatype actor = CpuProbe | MemoryProbe | DiskProbe | Exporter

datatype syscall =
    TimeTime
  | Alloc nat
  | ImportNumpy
  | NamedTemporaryFile
  | Mktemp
  | OpenFile string string
  | WriteFile string
  | ReadFile string
  | CloseFile string
  | RemoveFile string
  | WriteRow string

datatype event =
    Sys actor syscall
  | SetCurrentInfo pyval
  | After pyval

text \<open>
  A file holds what was written to it: the strings given to \<open>f.write\<close> and the rows
  given to \<open>writer.writerow\<close>.
\<close>

datatype chunk = Data string | Row "pyval list"

record state =
  files :: "(string \<times> chunk list) list"
  trace :: "event list"
  current_info :: pyval
  textbox :: string
  scheduled :: "pyval list"

type_synonym 'a io = "state \<Rightarrow> (exn + 'a) \<times> state"

definition io_bind :: "'a io \<Rightarrow> ('a \<Rightarrow> 'b io) \<Rightarrow> 'b io" where
  "io_bind m f s = (case m s of (Inl e, s') \<Rightarrow> (Inl e, s') | (Inr x, s') \<Rightarrow> f x s')"

definition io_return :: "'a \<Rightarrow> 'a io" where
  "io_return x s = (Inr x, s)"

definition io_raise :: "exn \<Rightarrow> 'a io" where
  "io_raise e s = (Inl e, s)"

text \<open>\<open>try: m  except Exception as e: h e\<close>\<close>

definition io_try :: "'a io \<Rightarrow> (exn \<Rightarrow> 'a io) \<Rightarrow> 'a io" where
  "io_try m h s = (case m s of (Inl e, s') \<Rightarrow> h e s' | (Inr x, s') \<Rightarrow> (Inr x, s'))"

definition perform :: "env \<Rightarrow> actor \<Rightarrow> syscall \<Rightarrow> unit io" where
  "perform env a c s =
     (let s' = s\<lparr>trace := trace s @ [Sys a c]\<rparr>
      in case fault env (length (trace s)) of Some e \<Rightarrow> (Inl e, s') | None \<Rightarrow> (Inr (), s'))"

definition time_time :: "env \<Rightarrow> actor \<Rightarrow> real io" where
  "time_time env a s =
     io_bind (perform env a TimeTime) (\<lambda>_. io_return (clock env (length (trace s)))) s"

definition file_exists :: "state \<Rightarrow> string \<Rightarrow> bool" where
  "file_exists s name = (map_of (files s) name \<noteq> None)"

definition file_content :: "state \<Rightarrow> string \<Rightarrow> chunk list" where
  "file_content s name = (case map_of (files s) name of None \<Rightarrow> [] | Some cs \<Rightarrow> cs)"

definition no_such_file :: "string \<Rightarrow> exn" where
  "no_such_file name =
     Exn ''FileNotFoundError'' (''[Errno 2] No such file or directory: '' @ repr_str name)"

text \<open>\<open>open(name, mode)\<close>: the writing modes create or truncate, the reading mode needs the file.\<close>

definition open_file :: "env \<Rightarrow> actor \<Rightarrow> string \<Rightarrow> string \<Rightarrow> unit io" where
  "open_file env a name mode =
     io_bind (perform env a (OpenFile name mode)) (\<lambda>_ s.
       if mode = ''w'' \<or> mode = ''wb'' then (Inr (), s\<lparr>files := AList.update name [] (files s)\<rparr>)
       else if file_exists s name then (Inr (), s)
       else (Inl (no_such_file name), s))"

definition write_file :: "env \<Rightarrow> actor \<Rightarrow> string \<Rightarrow> chunk \<Rightarrow> unit io" where
  "write_file env a name c =
     io_bind (perform env a (WriteFile name)) (\<lambda>_ s.
       (Inr (), s\<lparr>files := AList.update name (file_content s name @ [c]) (files s)\<rparr>))"

definition read_file :: "env \<Rightarrow> actor \<Rightarrow> string \<Rightarrow> (chunk list) io" where
  "read_file env a name =
     io_bind (perform env a (ReadFile name)) (\<lambda>_ s. (Inr (file_content s name), s))"

definition close_file :: "env \<Rightarrow> actor \<Rightarrow> string \<Rightarrow> unit io" where
  "close_file env a name = perform env a (CloseFile name)"

definition remove_file :: "env \<Rightarrow> actor \<Rightarrow> string \<Rightarrow> unit io" where
  "remove_file env a name =
     io_bind (perform env a (RemoveFile name)) (\<lambda>_ s.
       if file_exists s name then (Inr (), s\<lparr>files := AList.delete name (files s)\<rparr>)
       else (Inl (no_such_file name), s))"

text \<open>
  \<open>with open(name, mode) as f: body\<close>: the file is closed on every way out of the
  body, and an exception of \<open>close\<close> replaces the body's.
\<close>

definition io_finally :: "'a io \<Rightarrow> unit io \<Rightarrow> 'a io" where
  "io_finally body fin s =
     (case body s of (r, s1) \<Rightarrow>
        (case fin s1 of (Inl e, s2) \<Rightarrow> (Inl e, s2) | (Inr _, s2) \<Rightarrow> (r, s2)))"

definition with_open :: "env \<Rightarrow> actor \<Rightarrow> string \<Rightarrow> string \<Rightarrow> 'a io \<Rightarrow> 'a io" where
  "with_open env a name mode body =
     io_bind (open_file env a name mode) (\<lambda>_. io_finally body (close_file env a name))"

section \<open>Export functions\<close>

subsection \<open>\<open>export_csv\<close>\<close>

definition writerow :: "env \<Rightarrow> string \<Rightarrow> pyval list \<Rightarrow> unit io" where
  "writerow env name row =
     io_bind (perform env Exporter (WriteRow name)) (\<lambda>_ s.
       (Inr (), s\<lparr>files := AList.update name (file_content s name @ [Row row]) (files s)\<rparr>))"

lemma io_bind_cong [fundef_cong]:
  "m = m' \<Longrightarrow> s = s' \<Longrightarrow> (\<And>x t. f x t = f' x t) \<Longrightarrow> io_bind m f s = io_bind m' f' s'"
  by (auto simp: io_bind_def split: prod.splits sum.splits)

text \<open>
  \<open>write_dict(d, prefix)\<close> with its inner loop \<open>for i, item in enumerate(v, 1)\<close>
  (\<open>write_items\<close>, the counter \<open>i\<close> explicit).
\<close>

fun write_dict :: "env \<Rightarrow> string \<Rightarrow> (string \<times> pyval) list \<Rightarrow> string \<Rightarrow> unit io"
  and write_items :: "env \<Rightarrow> string \<Rightarrow> nat \<Rightarrow> pyval list \<Rightarrow> string \<Rightarrow> unit io" where
  "write_dict env f [] prefix s = (Inr (), s)"
| "write_dict env f ((k, PList v) # d) prefix s =
     io_bind (writerow env f [PStr (prefix @ k)]) (\<lambda>_.
     io_bind (write_items env f 1 v prefix) (\<lambda>_.
     write_dict env f d prefix)) s"
| "write_dict env f ((k, v) # d) prefix s =
     io_bind (writerow env f [PStr (prefix @ k), v]) (\<lambda>_.
     write_dict env f d prefix) s"
| "write_items env f i [] prefix s = (Inr (), s)"
| "write_items env f i (PDict item # v) prefix s =
     io_bind (writerow env f [PStr (''  Item '' @ str_nat i)]) (\<lambda>_.
     io_bind (write_dict env f item (prefix @ ''    '')) (\<lambda>_.
     write_items env f (i + 1) v prefix)) s"
| "write_items env f i (item # v) prefix s =
     io_bind (writerow env f [PStr (''  Item '' @ str_nat i @ '': '' @ py_str item)]) (\<lambda>_.
     write_items env f (i + 1) v prefix) s"

definition no_attribute :: "pyval \<Rightarrow> string \<Rightarrow> exn" where
  "no_attribute v a =
     Exn ''AttributeError''
       (repr_str (type_name v) @ '' object has no attribute '' @ repr_str a)"

definition export_csv :: "env \<Rightarrow> pyval \<Rightarrow> string \<Rightarrow> pyval io" where
  "export_csv env data filename =
     io_try
       (io_bind
          (with_open env Exporter filename ''w''
             (case data of PDict d \<Rightarrow> write_dict env filename d ''''
              | _ \<Rightarrow> io_raise (no_attribute data ''items'')))
          (\<lambda>_. io_return (PBool True)))
       (\<lambda>e. io_return (PStr (exn_msg e)))"


subsection \<open>The flat export as the specification words it\<close>

text \<open>
  The rows of the flat export, following the specification: a field at nesting level
  \<open>lvl\<close> is labelled with four spaces per level before its name; a scalar field is one
  row of label and value; a list-valued field is a header row of the label alone, then
  for the \<open>N\<close>-th element (from 1) either the row \<open>"  Item N"\<close> and the element's
  fields one level deeper, when the element is an object, or the single row
  \<open>"  Item N: <value>"\<close>.
\<close>

definition label_prefix :: "nat \<Rightarrow> string" where
  "label_prefix lvl = replicate (4 * lvl) CHR '' ''"

fun flat_rows :: "nat \<Rightarrow> (string \<times> pyval) list \<Rightarrow> pyval list list"
  and item_rows :: "nat \<Rightarrow> nat \<Rightarrow> pyval list \<Rightarrow> pyval list list" where
  "flat_rows lvl [] = []"
| "flat_rows lvl ((k, PList v) # d) =
     [PStr (label_prefix lvl @ k)] # item_rows lvl 1 v @ flat_rows lvl d"
| "flat_rows lvl ((k, v) # d) = [PStr (label_prefix lvl @ k), v] # flat_rows lvl d"
| "item_rows lvl n [] = []"
| "item_rows lvl n (PDict item # v) =
     [PStr (''  Item '' @ str_nat n)] # flat_rows (lvl + 1) item @ item_rows lvl (n + 1) v"
| "item_rows lvl n (item # v) =
     [PStr (''  Item '' @ str_nat n @ '': '' @ py_str item)] # item_rows lvl (n + 1) v"

text \<open>The state after \<open>rows\<close> have been written to \<open>name\<close> without a fault.\<close>

fun emit :: "string \<Rightarrow> pyval list list \<Rightarrow> state \<Rightarrow> state" where
  "emit name [] s = s"
| "emit name (r # rs) s =
     emit name rs
       (s\<lparr>trace := trace s @ [Sys Exporter (WriteRow name)],
          files := AList.update name (file_content s name @ [Row r]) (files s)\<rparr>)"

definition no_faults :: "env \<Rightarrow> bool" where
  "no_faults env = (\<forall>n. fault env n = None)"


subsection \<open>\<open>export_json\<close>\<close>

text \<open>
  \<open>json.dump(data, f, indent=4)\<close>, the encoder of the standard library with its
  defaults (\<open>ensure_ascii\<close>, separators \<open>","\<close> and \<open>": "\<close>): an empty container is
  \<open>[]\<close> or \<open>{}\<close>, any other puts each element on a line of its own, indented four
  spaces per level; a tuple is written as a list; the floats \<open>nan\<close>, \<open>inf\<close> and
  \<open>-inf\<close> are written \<open>NaN\<close>, \<open>Infinity\<close> and \<open>-Infinity\<close>.
\<close>

definition json_escape_char :: "char \<Rightarrow> string" where
  "json_escape_char c =
     (if c = CHR 0x22 then [CHR 0x5C, CHR 0x22]
      else if c = CHR 0x5C then [CHR 0x5C, CHR 0x5C]
      else if c = CHR 0x0A then [CHR 0x5C, CHR ''n'']
      else if c = CHR 0x0D then [CHR 0x5C, CHR ''r'']
      else if c = CHR 0x09 then [CHR 0x5C, CHR ''t'']
      else if c = CHR 0x0C then [CHR 0x5C, CHR ''f'']
      else if c = CHR 0x08 then [CHR 0x5C, CHR ''b'']
      else if 32 \<le> (of_char c :: nat) \<and> (of_char c :: nat) \<le> 126 then [c]
      else [CHR 0x5C, CHR ''u'', CHR ''0'', CHR ''0'',
            hex_char (of_char c div 16), hex_char (of_char c mod 16)])"

definition encode_basestring_ascii :: "string \<Rightarrow> string" where
  "encode_basestring_ascii s = [CHR 0x22] @ concat (map json_escape_char s) @ [CHR 0x22]"

definition floatstr :: "string \<Rightarrow> string" where
  "floatstr r =
     (if r = ''nan'' then ''NaN'' else if r = ''inf'' then ''Infinity''
      else if r = ''-inf'' then ''-Infinity'' else r)"

definition newline_indent :: "nat \<Rightarrow> string" where
  "newline_indent lvl = CHR 0x0A # replicate (4 * lvl) CHR '' ''"

fun iterencode :: "nat \<Rightarrow> pyval \<Rightarrow> string"
  and iterencode_list :: "nat \<Rightarrow> pyval list \<Rightarrow> string"
  and iterencode_dict :: "nat \<Rightarrow> (string \<times> pyval) list \<Rightarrow> string" where
  "iterencode lvl PNone = ''null''"
| "iterencode lvl (PBool b) = (if b then ''true'' else ''false'')"
| "iterencode lvl (PInt i) = str_int i"
| "iterencode lvl (PFloat r) = floatstr r"
| "iterencode lvl (PStr s) = encode_basestring_ascii s"
| "iterencode lvl (PList xs) =
     (if xs = [] then ''[]''
      else ''['' @ newline_indent (lvl + 1) @ iterencode_list (lvl + 1) xs
           @ newline_indent lvl @ '']'')"
| "iterencode lvl (PTuple xs) =
     (if xs = [] then ''[]''
      else ''['' @ newline_indent (lvl + 1) @ iterencode_list (lvl + 1) xs
           @ newline_indent lvl @ '']'')"
| "iterencode lvl (PDict kvs) =
     (if kvs = [] then ''{}''
      else ''{'' @ newline_indent (lvl + 1) @ iterencode_dict (lvl + 1) kvs
           @ newline_indent lvl @ ''}'')"
| "iterencode_list lvl [] = []"
| "iterencode_list lvl [x] = iterencode lvl x"
| "iterencode_list lvl (x # y # ys) =
     iterencode lvl x @ '','' @ newline_indent lvl @ iterencode_list lvl (y # ys)"
| "iterencode_dict lvl [] = []"
| "iterencode_dict lvl [(k, v)] = encode_basestring_ascii k @ '': '' @ iterencode lvl v"
| "iterencode_dict lvl ((k, v) # kv # kvs) =
     encode_basestring_ascii k @ '': '' @ iterencode lvl v @ '','' @ newline_indent lvl
     @ iterencode_dict lvl (kv # kvs)"

definition json_dumps :: "pyval \<Rightarrow> string" where
  "json_dumps data = iterencode 0 data"

definition export_json :: "env \<Rightarrow> pyval \<Rightarrow> string \<Rightarrow> pyval io" where
  "export_json env data filename =
     io_try
       (io_bind
          (with_open env Exporter filename ''w''
             (write_file env Exporter filename (Data (json_dumps data))))
          (\<lambda>_. io_return (PBool True)))
       (\<lambda>e. io_return (PStr (exn_msg e)))"

subsection \<open>A quiet platform and the application's first state\<close>

definition quiet_env :: env where
  "quiet_env = \<lparr>fault = (\<lambda>_. None), clock = (\<lambda>n. real n),
     temp_name = (\<lambda>n. ''tmp'' @ str_nat n), fmt_4f = (\<lambda>_. ''0.0000'')\<rparr>"

definition init_state :: state where
  "init_state = \<lparr>files = [], trace = [], current_info = PDict [], textbox = [], scheduled = []\<rparr>"

subsection \<open>Observing a run\<close>

text \<open>
  \<open>faults_between env s s'\<close>: the exceptions the platform raised at the calls made
  between the states \<open>s\<close> and \<open>s'\<close>, in order. \<open>outcome\<close> is what an exporter reports
  for them: \<open>True\<close> when there is none, else the message of the last one (an exception
  raised while the file is closed replaces the one that ended the \<open>with\<close> body).
  An action is \<open>io_exact\<close> for a set \<open>X\<close> of exceptions when it only extends the trace,
  returns only if no call faulted, and otherwise raises the last fault, or an exception of
  \<open>X\<close> if no call faulted.
\<close>

definition faults_between :: "env \<Rightarrow> state \<Rightarrow> state \<Rightarrow> exn list" where
  "faults_between env s s' =
     List.map_filter (fault env) [length (trace s) ..< length (trace s')]"

definition outcome :: "exn list \<Rightarrow> pyval" where
  "outcome fs = (if fs = [] then PBool True else PStr (exn_msg (last fs)))"

definition io_exact :: "env \<Rightarrow> exn set \<Rightarrow> 'a io \<Rightarrow> bool" where
  "io_exact env X m =
     (\<forall>s r s'. m s = (r, s') \<longrightarrow>
        length (trace s) \<le> length (trace s') \<and>
        (case r of
           Inr _ \<Rightarrow> faults_between env s s' = []
         | Inl e \<Rightarrow>
             if faults_between env s s' = [] then e \<in> X
             else e = last (faults_between env s s')))"

text \<open>A platform whose first call is refused.\<close>

definition denied_env :: env where
  "denied_env = quiet_env\<lparr>fault := (\<lambda>n. if n = 0
     then Some (Exn ''PermissionError'' ''[Errno 13] Permission denied'') else None)\<rparr>"


section \<open>Benchmark functions\<close>

type_synonym pydict = "(string \<times> pyval) list"

text \<open>
  The busy loops \<open>while time.time() < end\<close> of \<open>cpu_benchmark\<close> and
  \<open>extended_cpu_benchmark\<close>. A loop that never sees the clock reach \<open>end\<close> does not
  return: its value is \<open>None\<close>. \<open>work count\<close> is the exception, if any, of the loop
  body after \<open>count += 1\<close>.
\<close>

partial_function (option) cpu_loop ::
  "env \<Rightarrow> (int \<Rightarrow> exn option) \<Rightarrow> real \<Rightarrow> int \<Rightarrow> state \<Rightarrow> ((exn + int) \<times> state) option" where
  "cpu_loop env work end count s =
     (case time_time env CpuProbe s of
        (Inl e, s') \<Rightarrow> Some (Inl e, s')
      | (Inr t, s') \<Rightarrow>
          if t < end then
            (case work (count + 1) of
               Some e \<Rightarrow> Some (Inl e, s')
             | None \<Rightarrow> cpu_loop env work end (count + 1) s')
          else Some (Inr count, s'))"

text \<open>
  \<open>count ** 0.5\<close> converts the integer to a float, which raises \<open>OverflowError\<close> from
  \<open>2 ** 1024 - 2 ** 970\<close> on.
\<close>

definition sqrt_work :: "int \<Rightarrow> exn option" where
  "sqrt_work count =
     (if 2 ^ 1024 - 2 ^ 970 \<le> count
      then Some (Exn ''OverflowError'' ''int too large to convert to float'') else None)"

definition cpu_benchmark :: "env \<Rightarrow> int \<Rightarrow> state \<Rightarrow> ((exn + pydict) \<times> state) option" where
  "cpu_benchmark env duration s =
     (case time_time env CpuProbe s of
        (Inl e, s') \<Rightarrow> Some (Inl e, s')
      | (Inr t, s') \<Rightarrow>
          (case cpu_loop env sqrt_work (t + of_int duration) 0 s' of
             None \<Rightarrow> None
           | Some (Inl e, s'') \<Rightarrow> Some (Inl e, s'')
           | Some (Inr count, s'') \<Rightarrow>
               Some (Inr [(''CPU Benchmark (loops in '' @ str_int duration @ ''s)'', PInt count)],
                     s'')))"

definition memory_benchmark :: "env \<Rightarrow> pydict io" where
  "memory_benchmark env =
     io_bind (perform env MemoryProbe (Alloc 100000000)) (\<lambda>_.
     io_bind (time_time env MemoryProbe) (\<lambda>start.
     io_bind (time_time env MemoryProbe) (\<lambda>t.
     io_return [(''Memory Benchmark (sum bytes)'',
                 PStr (fmt_4f env (t - start) @ '' seconds''))])))"

text \<open>
  \<open>tempfile.NamedTemporaryFile(delete=False)\<close> creates the file it names;
  \<open>tempfile.mktemp()\<close> only returns a name.
\<close>

definition named_temporary_file :: "env \<Rightarrow> actor \<Rightarrow> string io" where
  "named_temporary_file env a s =
     io_bind (perform env a NamedTemporaryFile) (\<lambda>_ s'.
       (Inr (temp_name env (length (trace s))),
        s'\<lparr>files := AList.update (temp_name env (length (trace s))) [] (files s')\<rparr>)) s"

definition mktemp :: "env \<Rightarrow> actor \<Rightarrow> string io" where
  "mktemp env a s =
     io_bind (perform env a Mktemp) (\<lambda>_. io_return (temp_name env (length (trace s)))) s"

definition write_read :: "env \<Rightarrow> string \<Rightarrow> string \<Rightarrow> unit io" where
  "write_read env filename data =
     io_bind (with_open env DiskProbe filename ''wb''
                (write_file env DiskProbe filename (Data data))) (\<lambda>_.
     io_bind (with_open env DiskProbe filename ''rb''
                (read_file env DiskProbe filename)) (\<lambda>_.
     io_return ()))"

definition disk_benchmark :: "env \<Rightarrow> pydict io" where
  "disk_benchmark env =
     io_try
       (io_bind (named_temporary_file env DiskProbe) (\<lambda>filename.
        io_bind (close_file env DiskProbe filename) (\<lambda>_.
        io_bind (perform env DiskProbe (Alloc (10 ^ 7))) (\<lambda>_.
        io_bind (time_time env DiskProbe) (\<lambda>start.
        io_bind (write_read env filename (replicate (10 ^ 7) CHR ''x'')) (\<lambda>_.
        io_bind (time_time env DiskProbe) (\<lambda>t.
        io_bind (remove_file env DiskProbe filename) (\<lambda>_.
        io_return [(''Disk Benchmark (write/read 10MB)'',
                    PStr (fmt_4f env (t - start) @ '' seconds''))]))))))))
       (\<lambda>e. io_return [(''Disk Benchmark Error'', PStr (exn_msg e))])"

subsection \<open>Extended benchmarks\<close>

definition extended_cpu_benchmark ::
  "env \<Rightarrow> int \<Rightarrow> state \<Rightarrow> ((exn + pydict) \<times> state) option" where
  "extended_cpu_benchmark env duration s =
     (case time_time env CpuProbe s of
        (Inl e, s') \<Rightarrow> Some (Inl e, s')
      | (Inr t, s') \<Rightarrow>
          (case cpu_loop env (\<lambda>_. None) (t + of_int duration) 0 s' of
             None \<Rightarrow> None
           | Some (Inl e, s'') \<Rightarrow> Some (Inl e, s'')
           | Some (Inr count, s'') \<Rightarrow>
               Some (Inr [(''Extended CPU Benchmark loops'', PInt count)], s'')))"

text \<open>\<open>import numpy as np\<close> stands before the \<open>try\<close>.\<close>

definition extended_memory_benchmark :: "env \<Rightarrow> pydict io" where
  "extended_memory_benchmark env =
     io_bind (perform env MemoryProbe ImportNumpy) (\<lambda>_.
     io_try
       (io_bind (perform env MemoryProbe (Alloc (10 ^ 7))) (\<lambda>_.
        io_bind (time_time env MemoryProbe) (\<lambda>start.
        io_bind (time_time env MemoryProbe) (\<lambda>t.
        io_return [(''Extended Memory Benchmark (sum 10M floats)'',
                    PStr (fmt_4f env (t - start) @ '' seconds''))]))))
       (\<lambda>e. io_return [(''Error'', PStr (''Failed extended memory benchmark: '' @ exn_msg e))]))"

definition extended_disk_benchmark :: "env \<Rightarrow> pydict io" where
  "extended_disk_benchmark env =
     io_try
       (io_bind (mktemp env DiskProbe) (\<lambda>filename.
        io_bind (perform env DiskProbe (Alloc (5 * 10 ^ 7))) (\<lambda>_.
        io_bind (time_time env DiskProbe) (\<lambda>start.
        io_bind (write_read env filename (replicate (5 * 10 ^ 7) CHR ''x'')) (\<lambda>_.
        io_bind (write_read env filename (replicate (5 * 10 ^ 7) CHR ''x'')) (\<lambda>_.
        io_bind (write_read env filename (replicate (5 * 10 ^ 7) CHR ''x'')) (\<lambda>_.
        io_bind (time_time env DiskProbe) (\<lambda>t.
        io_bind (remove_file env DiskProbe filename) (\<lambda>_.
        io_return [(''Extended Disk Benchmark (3x 50MB write/read)'',
                    PStr (fmt_4f env (t - start) @ '' seconds''))])))))))))
       (\<lambda>e. io_return [(''Error'', PStr (''Failed extended disk benchmark: '' @ exn_msg e))])"

subsection \<open>The worker threads of the two benchmark tiers\<close>

text \<open>\<open>d[k] = v\<close> and \<open>d.update(other)\<close> on a dictionary in insertion order.\<close>

fun dict_setitem :: "string \<Rightarrow> pyval \<Rightarrow> pydict \<Rightarrow> pydict" where
  "dict_setitem k v [] = [(k, v)]"
| "dict_setitem k v ((k', v') # d) =
     (if k' = k then (k', v) # d else (k', v') # dict_setitem k v d)"

definition dict_update :: "pydict \<Rightarrow> pydict \<Rightarrow> pydict" where
  "dict_update d other = foldl (\<lambda>acc (k, v). dict_setitem k v acc) d other"

text \<open>
  \<open>self.current_info = results\<close> and \<open>self.textbox.after(0, ...)\<close>, which hands the
  display of \<open>results\<close> to the main thread.
\<close>

definition set_current_info :: "pyval \<Rightarrow> state \<Rightarrow> state" where
  "set_current_info v s = s\<lparr>current_info := v, trace := trace s @ [SetCurrentInfo v]\<rparr>"

definition textbox_after :: "pyval \<Rightarrow> state \<Rightarrow> state" where
  "textbox_after v s = s\<lparr>scheduled := scheduled s @ [v], trace := trace s @ [After v]\<rparr>"

definition finish_run :: "pydict \<Rightarrow> state \<Rightarrow> state" where
  "finish_run results s = textbox_after (PDict results) (set_current_info (PDict results) s)"

definition run_benchmarks :: "env \<Rightarrow> state \<Rightarrow> ((exn + unit) \<times> state) option" where
  "run_benchmarks env s =
     (case cpu_benchmark env 3 s of
        None \<Rightarrow> None
      | Some (Inl e, s1) \<Rightarrow> Some (Inl e, s1)
      | Some (Inr r1, s1) \<Rightarrow>
          (case memory_benchmark env s1 of
             (Inl e, s2) \<Rightarrow> Some (Inl e, s2)
           | (Inr r2, s2) \<Rightarrow>
               (case disk_benchmark env s2 of
                  (Inl e, s3) \<Rightarrow> Some (Inl e, s3)
                | (Inr r3, s3) \<Rightarrow>
                    Some (Inr (),
                      finish_run (dict_update (dict_update (dict_update [] r1) r2) r3) s3))))"

definition run_extended_benchmarks :: "env \<Rightarrow> state \<Rightarrow> ((exn + unit) \<times> state) option" where
  "run_extended_benchmarks env s =
     (case extended_cpu_benchmark env 5 s of
        None \<Rightarrow> None
      | Some (Inl e, s1) \<Rightarrow> Some (Inl e, s1)
      | Some (Inr r1, s1) \<Rightarrow>
          (case extended_memory_benchmark env s1 of
             (Inl e, s2) \<Rightarrow> Some (Inl e, s2)
           | (Inr r2, s2) \<Rightarrow>
               (case extended_disk_benchmark env s2 of
                  (Inl e, s3) \<Rightarrow> Some (Inl e, s3)
                | (Inr r3, s3) \<Rightarrow>
                    Some (Inr (),
                      finish_run (dict_update (dict_update (dict_update [] r1) r2) r3) s3))))"

subsection \<open>Observing a benchmark run\<close>

text \<open>
  \<open>io_steps a k m\<close>: the action \<open>m\<close> adds to the trace only platform calls made by
  \<open>a\<close>, at least \<open>k\<close> of them, and leaves \<open>current_info\<close> and the scheduled displays
  alone. \<open>writes\<close> counts the assignments to \<open>current_info\<close> in a trace.
  \<open>clock_advances\<close>: the clock passes every bound.
\<close>

definition by_actor :: "actor \<Rightarrow> event \<Rightarrow> bool" where
  "by_actor a e = (case e of Sys a' _ \<Rightarrow> a' = a | _ \<Rightarrow> False)"

definition writes :: "event list \<Rightarrow> nat" where
  "writes t = length (filter (\<lambda>e. case e of SetCurrentInfo _ \<Rightarrow> True | _ \<Rightarrow> False) t)"

definition steps :: "actor \<Rightarrow> nat \<Rightarrow> state \<Rightarrow> state \<Rightarrow> bool" where
  "steps a k s s' =
     ((\<exists>new. trace s' = trace s @ new \<and> list_all (by_actor a) new \<and> k \<le> length new) \<and>
      current_info s' = current_info s \<and> scheduled s' = scheduled s)"

definition io_steps :: "actor \<Rightarrow> nat \<Rightarrow> 'a io \<Rightarrow> bool" where
  "io_steps a k m = (\<forall>s r s'. m s = (r, s') \<longrightarrow> steps a k s s')"

definition clock_advances :: "env \<Rightarrow> bool" where
  "clock_advances env = (\<forall>t n. \<exists>m\<ge>n. t \<le> clock env m)"

text \<open>
  \<open>in_order s r s'\<close>: what a tier run from \<open>s\<close> to \<open>s'\<close> with outcome \<open>r\<close> added to
  the trace is the calls of the CPU probe, then those of the memory probe, then those of
  the disk probe, with no assignment to \<open>current_info\<close> among them; after a run that
  returned, each probe has made a call and the trace ends with the one assignment of the
  merged result and the scheduling of its display; after a run that raised, nothing was
  assigned.
\<close>

definition in_order :: "state \<Rightarrow> (exn + unit) \<Rightarrow> state \<Rightarrow> bool" where
  "in_order s r s' =
     (\<exists>tc tm td te.
        trace s' = trace s @ tc @ tm @ td @ te \<and>
        list_all (by_actor CpuProbe) tc \<and> list_all (by_actor MemoryProbe) tm \<and>
        list_all (by_actor DiskProbe) td \<and> writes (tc @ tm @ td) = 0 \<and>
        (case r of
           Inr _ \<Rightarrow> tc \<noteq> [] \<and> tm \<noteq> [] \<and> td \<noteq> [] \<and> writes te = 1 \<and>
             te = [SetCurrentInfo (current_info s'), After (current_info s')]
         | Inl _ \<Rightarrow> te = [] \<and> current_info s' = current_info s))"

subsection \<open>Platforms on which a probe fails\<close>

text \<open>
  On \<open>quiet_env\<close> the clock reads 0, 1, 2, ...: the baseline CPU probe makes the calls
  0 to 3 and the extended one the calls 0 to 5. \<open>oom_env\<close> refuses the allocation of the
  baseline memory probe (call 4); \<open>both_fail_env\<close> refuses the allocation of the extended
  memory probe (call 7) and the first \<open>open\<close> of the extended disk probe (call 11);
  \<open>disk_full_env n\<close> refuses call \<open>n\<close> with "No space left on device".
\<close>

definition oom_env :: env where
  "oom_env = quiet_env\<lparr>fault := (\<lambda>n. if n = 4 then Some (Exn ''MemoryError'' []) else None)\<rparr>"

definition no_space :: exn where
  "no_space = Exn ''OSError'' ''[Errno 28] No space left on device''"

definition both_fail_env :: env where
  "both_fail_env = quiet_env\<lparr>fault := (\<lambda>n.
     if n = 7 then Some (Exn ''MemoryError'' ''Unable to allocate array'')
     else if n = 11 then Some no_space else None)\<rparr>"

definition disk_full_env :: "nat \<Rightarrow> env" where
  "disk_full_env n = quiet_env\<lparr>fault := (\<lambda>k. if k = n then Some no_space else None)\<rparr>"

text \<open>The shape the two workers share, for reasoning about both at once.\<close>

definition run_tier ::
  "(state \<Rightarrow> ((exn + pydict) \<times> state) option) \<Rightarrow> pydict io \<Rightarrow> pydict io
     \<Rightarrow> state \<Rightarrow> ((exn + unit) \<times> state) option" where
  "run_tier cpu mem disk s =
     (case cpu s of
        None \<Rightarrow> None
      | Some (Inl e, s1) \<Rightarrow> Some (Inl e, s1)
      | Some (Inr r1, s1) \<Rightarrow>
          (case mem s1 of
             (Inl e, s2) \<Rightarrow> Some (Inl e, s2)
           | (Inr r2, s2) \<Rightarrow>
               (case disk s2 of
                  (Inl e, s3) \<Rightarrow> Some (Inl e, s3)
                | (Inr r3, s3) \<Rightarrow>
                    Some (Inr (),
                      finish_run (dict_update (dict_update (dict_update [] r1) r2) r3) s3))))"

text \<open>\<open>returns_only P m\<close>: every value the action \<open>m\<close> returns satisfies \<open>P\<close>.\<close>

definition returns_only :: "('a \<Rightarrow> bool) \<Rightarrow> 'a io \<Rightarrow> bool" where
  "returns_only P m = (\<forall>s r s'. m s = (Inr r, s') \<longrightarrow> P r)"


text \<open>
  \<open>sequential_run cpu mem disk s r s'\<close>: the run from \<open>s\<close> to \<open>s'\<close> with outcome \<open>r\<close> is
  the CPU probe run in \<open>s\<close>, then, if it returned, the memory probe run in the state the
  CPU probe left, then, if that returned, the disk probe run in the state the memory probe
  left; each probe adds only calls of its own to the trace, at least one, and leaves
  \<open>current_info\<close> alone. The exception of a probe ends the run in the state the probe
  left. When the three probes have returned \<open>d1\<close>, \<open>d2\<close> and \<open>d3\<close>, the run returns, and
  all it adds to the state the disk probe left is the assignment of their merge to
  \<open>current_info\<close> and the scheduling of its display.
\<close>

definition merged :: "pydict \<Rightarrow> pydict \<Rightarrow> pydict \<Rightarrow> pyval" where
  "merged d1 d2 d3 = PDict (dict_update (dict_update (dict_update [] d1) d2) d3)"

definition sequential_run ::
  "(state \<Rightarrow> ((exn + pydict) \<times> state) option) \<Rightarrow> pydict io \<Rightarrow> pydict io
     \<Rightarrow> state \<Rightarrow> (exn + unit) \<Rightarrow> state \<Rightarrow> bool" where
  "sequential_run cpu mem disk s r s' =
     (\<exists>r1 s1. cpu s = Some (r1, s1) \<and> steps CpuProbe (Suc 0) s s1 \<and>
        (case r1 of
           Inl e \<Rightarrow> r = Inl e \<and> s' = s1
         | Inr d1 \<Rightarrow>
             (\<exists>r2 s2. mem s1 = (r2, s2) \<and> steps MemoryProbe (Suc 0) s1 s2 \<and>
                (case r2 of
                   Inl e \<Rightarrow> r = Inl e \<and> s' = s2
                 | Inr d2 \<Rightarrow>
                     (\<exists>r3 s3. disk s2 = (r3, s3) \<and> steps DiskProbe (Suc 0) s2 s3 \<and>
                        (case r3 of
                           Inl e \<Rightarrow> r = Inl e \<and> s' = s3
                         | Inr d3 \<Rightarrow>
                             r = Inr () \<and>
                             s' = s3\<lparr>current_info := merged d1 d2 d3,
                                     scheduled := scheduled s3 @ [merged d1 d2 d3],
                                     trace := trace s3 @ [SetCurrentInfo (merged d1 d2 d3),
                                                          After (merged d1 d2 d3)]\<rparr>))))))"

text \<open>Who made a call of the trace; \<open>None\<close> for the worker's own two steps.\<close>

definition by_whom :: "event \<Rightarrow> actor option" where
  "by_whom e = (case e of Sys a _ \<Rightarrow> Some a | _ \<Rightarrow> None)"


section \<open>Hardware info collectors\<close>

text \<open>
  A collector reads the platform and computes no state: its result is the value it
  returns or the exception that leaves it.
\<close>

definition bind_res :: "exn + 'a \<Rightarrow> ('a \<Rightarrow> exn + 'b) \<Rightarrow> exn + 'b" where
  "bind_res m f = (case m of Inl e \<Rightarrow> Inl e | Inr x \<Rightarrow> f x)"

definition try_res :: "exn + 'a \<Rightarrow> (exn \<Rightarrow> exn + 'a) \<Rightarrow> exn + 'a" where
  "try_res m h = (case m of Inl e \<Rightarrow> h e | Inr x \<Rightarrow> Inr x)"

text \<open>
  A dictionary display \<open>{k1: e1, k2: e2, ...}\<close>: the values are computed in order and
  the first exception leaves the display.
\<close>

fun build_dict :: "(string \<times> (exn + pyval)) list \<Rightarrow> exn + pydict" where
  "build_dict [] = Inr []"
| "build_dict ((k, Inl e) # rest) = Inl e"
| "build_dict ((k, Inr v) # rest) =
     (case build_dict rest of Inl e \<Rightarrow> Inl e | Inr d \<Rightarrow> Inr ((k, v) # d))"

definition dict_of :: "(string \<times> (exn + pyval)) list \<Rightarrow> exn + pyval" where
  "dict_of entries = bind_res (build_dict entries) (\<lambda>d. Inr (PDict d))"

text \<open>
  \<open>for x in xs: items.append(...)\<close> inside a \<open>try\<close>: the list filled so far and the
  exception, if one ended the loop. \<open>f x\<close> is what the body appends for \<open>x\<close>.
\<close>

fun append_loop :: "('a \<Rightarrow> exn + pyval list) \<Rightarrow> 'a list \<Rightarrow> pyval list \<Rightarrow> exn option \<times> pyval list" where
  "append_loop f [] acc = (None, acc)"
| "append_loop f (x # xs) acc =
     (case f x of Inl e \<Rightarrow> (Some e, acc) | Inr vs \<Rightarrow> append_loop f xs (acc @ vs))"

text \<open>
  The shape shared by the collectors that return a list:
  \<open>items = []; try: for x in query(): items.append(...)  except Exception as e:
  items.append({"Error": f"<msg>{str(e)}"}); return items\<close>.
\<close>

definition list_collector :: "exn + 'a list \<Rightarrow> ('a \<Rightarrow> exn + pyval list) \<Rightarrow> string \<Rightarrow> exn + pyval" where
  "list_collector query f msg =
     (case (case query of Inl e \<Rightarrow> (Some e, []) | Inr xs \<Rightarrow> append_loop f xs []) of
        (None, items) \<Rightarrow> Inr (PList items)
      | (Some e, items) \<Rightarrow> Inr (PList (items @ [PDict [(''Error'', PStr (msg @ exn_msg e))]])))"

subsection \<open>Operations on values\<close>

definition getattr :: "pydict \<Rightarrow> string \<Rightarrow> exn + pyval" where
  "getattr obj a =
     (case map_of obj a of Some v \<Rightarrow> Inr v | None \<Rightarrow> Inl (Exn ''AttributeError'' a))"

definition hasattr :: "pydict \<Rightarrow> string \<Rightarrow> bool" where
  "hasattr obj a = (map_of obj a \<noteq> None)"

definition truthy :: "pyval \<Rightarrow> bool" where
  "truthy v =
     (case v of PNone \<Rightarrow> False | PBool b \<Rightarrow> b | PInt i \<Rightarrow> i \<noteq> 0
      | PFloat r \<Rightarrow> r \<noteq> ''0.0'' \<and> r \<noteq> ''-0.0'' | PStr s \<Rightarrow> s \<noteq> []
      | PList xs \<Rightarrow> xs \<noteq> [] | PTuple xs \<Rightarrow> xs \<noteq> [] | PDict d \<Rightarrow> d \<noteq> [])"

definition is_space :: "char \<Rightarrow> bool" where
  "is_space c = (let n = of_char c :: nat in
     (9 \<le> n \<and> n \<le> 13) \<or> (28 \<le> n \<and> n \<le> 32) \<or> n = 133 \<or> n = 160)"

definition strip_chars :: "(char \<Rightarrow> bool) \<Rightarrow> string \<Rightarrow> string" where
  "strip_chars P s = rev (dropWhile P (rev (dropWhile P s)))"

definition py_strip :: "pyval \<Rightarrow> exn + pyval" where
  "py_strip v =
     (case v of PStr s \<Rightarrow> Inr (PStr (strip_chars is_space s))
      | _ \<Rightarrow> Inl (no_attribute v ''strip''))"

fun split_on :: "char \<Rightarrow> string \<Rightarrow> string list" where
  "split_on sep [] = [[]]"
| "split_on sep (c # cs) =
     (if c = sep then [] # split_on sep cs
      else (case split_on sep cs of [] \<Rightarrow> [[c]] | w # ws \<Rightarrow> (c # w) # ws))"

text \<open>
  The float computations the collectors report are the platform's:
  \<open>round2_gib n\<close> is the \<open>repr\<close> of \<open>round(n / (1024 ** 3), 2)\<close>, and \<open>int_conv v\<close>
  is \<open>int(v)\<close> for a string or a float.
\<close>

record uname_result =
  u_system :: string
  u_node :: string
  u_release :: string
  u_version :: string
  u_machine :: string
  u_processor :: string

record svmem =
  vm_total :: int
  vm_available :: int
  vm_used :: int
  vm_percent :: string

record sswap =
  sw_total :: int
  sw_used :: int
  sw_percent :: string

record sdiskpart =
  dp_device :: string
  dp_mountpoint :: string
  dp_fstype :: string

record sdiskusage =
  du_total :: int
  du_used :: int
  du_free :: int
  du_percent :: string

datatype address_family = AF_INET | AF_LINK | AF_OTHER

record snicaddr =
  na_family :: address_family
  na_address :: string

record sbattery =
  bt_percent :: pyval
  bt_power_plugged :: pyval
  bt_secsleft :: pyval

record platform =
  platform_uname :: "exn + uname_result"
  python_version :: "exn + string"
  wmi_query :: "string \<Rightarrow> exn + pydict list"
  virtual_memory :: "exn + svmem"
  swap_memory :: "exn + sswap"
  disk_partitions :: "exn + sdiskpart list"
  disk_usage :: "string \<Rightarrow> exn + sdiskusage"
  net_if_addrs :: "exn + (string \<times> snicaddr list) list"
  net_if_stats :: "exn + (string \<times> bool) list"
  sensors_battery :: "exn + sbattery option"
  pids :: "exn + int list"
  boot_time :: "exn + real"
  strftime_local :: "real \<Rightarrow> exn + string"
  powercfg_output :: "exn + string"
  getdefaultlocale :: "exn + pyval"
  tzname :: pyval
  time_now :: real
  round2_gib :: "int \<Rightarrow> string"
  int_conv :: "pyval \<Rightarrow> exn + int"

definition py_int :: "platform \<Rightarrow> pyval \<Rightarrow> exn + int" where
  "py_int p v =
     (case v of PInt i \<Rightarrow> Inr i | PBool b \<Rightarrow> Inr (if b then 1 else 0)
      | PStr _ \<Rightarrow> int_conv p v | PFloat _ \<Rightarrow> int_conv p v
      | _ \<Rightarrow> Inl (Exn ''TypeError''
          (''int() argument must be a string, a bytes-like object or a real number, not ''
           @ repr_str (type_name v))))"

definition error_dict :: "string \<Rightarrow> exn \<Rightarrow> pyval" where
  "error_dict msg e = PDict [(''Error'', PStr (msg @ exn_msg e))]"

subsection \<open>The baseline collectors\<close>

text \<open>\<open>get_system_info\<close> has no \<open>try\<close>.\<close>

definition get_system_info :: "platform \<Rightarrow> exn + pyval" where
  "get_system_info p =
     bind_res (platform_uname p) (\<lambda>uname.
     dict_of [
       (''System'', Inr (PStr (u_system uname))),
       (''Node Name'', Inr (PStr (u_node uname))),
       (''Release'', Inr (PStr (u_release uname))),
       (''Version'', Inr (PStr (u_version uname))),
       (''Machine'', Inr (PStr (u_machine uname))),
       (''Processor'', Inr (PStr (u_processor uname))),
       (''Python Version'', bind_res (python_version p) (\<lambda>v. Inr (PStr v)))])"

text \<open>
  \<open>for cpu in c.Win32_Processor(): cpu_data = {...}; break\<close>: the first object, if there
  is one. The handler stores \<open>"Error"\<close> in \<open>cpu_data\<close>, which is still empty when an
  exception arrives.
\<close>

definition get_cpu_info :: "platform \<Rightarrow> exn + pyval" where
  "get_cpu_info p =
     try_res
       (bind_res (wmi_query p ''Win32_Processor'') (\<lambda>cpus.
          case cpus of [] \<Rightarrow> Inr (PDict [])
          | cpu # _ \<Rightarrow> dict_of [
              (''Name'', bind_res (getattr cpu ''Name'') py_strip),
              (''Manufacturer'', getattr cpu ''Manufacturer''),
              (''Cores (Physical)'', getattr cpu ''NumberOfCores''),
              (''Threads (Logical)'', getattr cpu ''NumberOfLogicalProcessors''),
              (''Max Clock Speed (MHz)'', getattr cpu ''MaxClockSpeed''),
              (''Current Clock Speed (MHz)'', getattr cpu ''CurrentClockSpeed''),
              (''Architecture'', getattr cpu ''Architecture''),
              (''Processor ID'', getattr cpu ''ProcessorId''),
              (''L2 Cache Size (KB)'', getattr cpu ''L2CacheSize''),
              (''L3 Cache Size (KB)'', getattr cpu ''L3CacheSize'')]))
       (\<lambda>e. Inr (error_dict ''Failed to get CPU info: '' e))"

definition gpu_entry :: "platform \<Rightarrow> pydict \<Rightarrow> exn + pyval list" where
  "gpu_entry p gpu =
     bind_res (dict_of [
       (''Name'', getattr gpu ''Name''),
       (''Driver Version'', getattr gpu ''DriverVersion''),
       (''Video Processor'', getattr gpu ''VideoProcessor''),
       (''RAM (MB)'',
          bind_res (getattr gpu ''AdapterRAM'') (\<lambda>ram.
            if truthy ram
            then bind_res (getattr gpu ''AdapterRAM'') (\<lambda>ram'.
                 bind_res (py_int p ram') (\<lambda>n. Inr (PInt (n div (1024 * 1024)))))
            else Inr (PStr ''Unknown''))),
       (''Video Mode'', getattr gpu ''VideoModeDescription''),
       (''Status'', getattr gpu ''Status'')]) (\<lambda>d. Inr [d])"

definition get_gpu_info :: "platform \<Rightarrow> exn + pyval" where
  "get_gpu_info p =
     list_collector (wmi_query p ''Win32_VideoController'') (gpu_entry p)
       ''Failed to get GPU info: ''"

definition get_ram_info :: "platform \<Rightarrow> exn + pyval" where
  "get_ram_info p =
     try_res
       (bind_res (virtual_memory p) (\<lambda>vm.
        bind_res (swap_memory p) (\<lambda>swap.
        dict_of [
          (''Total RAM (GB)'', Inr (PFloat (round2_gib p (vm_total vm)))),
          (''Available RAM (GB)'', Inr (PFloat (round2_gib p (vm_available vm)))),
          (''Used RAM (GB)'', Inr (PFloat (round2_gib p (vm_used vm)))),
          (''RAM Usage (%)'', Inr (PFloat (vm_percent vm))),
          (''Total Swap (GB)'', Inr (PFloat (round2_gib p (sw_total swap)))),
          (''Used Swap (GB)'', Inr (PFloat (round2_gib p (sw_used swap)))),
          (''Swap Usage (%)'', Inr (PFloat (sw_percent swap)))])))
       (\<lambda>e. Inr (error_dict ''Failed to get RAM info: '' e))"

definition disk_entry :: "platform \<Rightarrow> sdiskpart \<Rightarrow> exn + pyval list" where
  "disk_entry p part =
     bind_res (disk_usage p (dp_mountpoint part)) (\<lambda>usage.
     bind_res (dict_of [
       (''Device'', Inr (PStr (dp_device part))),
       (''Mountpoint'', Inr (PStr (dp_mountpoint part))),
       (''File System'', Inr (PStr (dp_fstype part))),
       (''Total Size (GB)'', Inr (PFloat (round2_gib p (du_total usage)))),
       (''Used (GB)'', Inr (PFloat (round2_gib p (du_used usage)))),
       (''Free (GB)'', Inr (PFloat (round2_gib p (du_free usage)))),
       (''Usage (%)'', Inr (PFloat (du_percent usage)))]) (\<lambda>d. Inr [d]))"

definition get_disk_info :: "platform \<Rightarrow> exn + pyval" where
  "get_disk_info p =
     list_collector (disk_partitions p) (disk_entry p) ''Failed to get disk info: ''"

definition addresses_of :: "address_family \<Rightarrow> snicaddr list \<Rightarrow> pyval" where
  "addresses_of fam addrs =
     (let found = map (\<lambda>a. PStr (na_address a)) (filter (\<lambda>a. na_family a = fam) addrs)
      in PList (if found \<noteq> [] then found else [PStr ''None'']))"

definition adapter_entry :: "(string \<times> bool) list \<Rightarrow> string \<times> snicaddr list \<Rightarrow> exn + pyval list" where
  "adapter_entry stats iface =
     (case iface of (iface_name, iface_addrs) \<Rightarrow>
        let is_up = (case map_of stats iface_name of Some up \<Rightarrow> up | None \<Rightarrow> False)
        in Inr [PDict [
             (''Interface'', PStr iface_name),
             (''Status'', PStr (if is_up then ''Up'' else ''Down'')),
             (''IPv4 Addresses'', addresses_of AF_INET iface_addrs),
             (''MAC Addresses'', addresses_of AF_LINK iface_addrs)]])"

definition get_network_info :: "platform \<Rightarrow> exn + pyval" where
  "get_network_info p =
     list_collector
       (bind_res (net_if_addrs p) (\<lambda>addrs. bind_res (net_if_stats p) (\<lambda>_. Inr addrs)))
       (adapter_entry (case net_if_stats p of Inr stats \<Rightarrow> stats | Inl _ \<Rightarrow> []))
       ''Failed to get network info: ''"

definition get_bios_info :: "platform \<Rightarrow> exn + pyval" where
  "get_bios_info p =
     try_res
       (bind_res (wmi_query p ''Win32_BIOS'') (\<lambda>objs.
          case objs of [] \<Rightarrow> Inr (PDict [])
          | bios # _ \<Rightarrow> dict_of [
              (''Manufacturer'', getattr bios ''Manufacturer''),
              (''Version'', getattr bios ''SMBIOSBIOSVersion''),
              (''Release Date'', getattr bios ''ReleaseDate''),
              (''Serial Number'', getattr bios ''SerialNumber''),
              (''BIOS Language'',
                 if hasattr bios ''BIOSLanguage'' then getattr bios ''BIOSLanguage''
                 else Inr (PStr ''N/A''))]))
       (\<lambda>e. Inr (error_dict ''Failed to get BIOS info: '' e))"

definition get_motherboard_info :: "platform \<Rightarrow> exn + pyval" where
  "get_motherboard_info p =
     try_res
       (bind_res (wmi_query p ''Win32_BaseBoard'') (\<lambda>objs.
          case objs of [] \<Rightarrow> Inr (PDict [])
          | board # _ \<Rightarrow> dict_of [
              (''Manufacturer'', getattr board ''Manufacturer''),
              (''Product'', getattr board ''Product''),
              (''Serial Number'', getattr board ''SerialNumber''),
              (''Version'', getattr board ''Version''),
              (''Model'',
                 if hasattr board ''Model'' then getattr board ''Model''
                 else Inr (PStr ''N/A''))]))
       (\<lambda>e. Inr (error_dict ''Failed to get Motherboard info: '' e))"

definition sound_entry :: "pydict \<Rightarrow> exn + pyval list" where
  "sound_entry sound =
     bind_res (dict_of [
       (''Name'', getattr sound ''Name''),
       (''Status'', getattr sound ''Status''),
       (''Manufacturer'', getattr sound ''Manufacturer'')]) (\<lambda>d. Inr [d])"

definition get_sound_devices :: "platform \<Rightarrow> exn + pyval" where
  "get_sound_devices p =
     list_collector (wmi_query p ''Win32_SoundDevice'') sound_entry
       ''Failed to get Sound Devices info: ''"

definition get_battery_info :: "platform \<Rightarrow> exn + pyval" where
  "get_battery_info p =
     try_res
       (bind_res (sensors_battery p) (\<lambda>battery.
          case battery of
            Some b \<Rightarrow> dict_of [
              (''Percent'', Inr (PStr (py_str (bt_percent b) @ ''%''))),
              (''Plugged In'', Inr (bt_power_plugged b)),
              (''Secs Left'', Inr (bt_secsleft b))]
          | None \<Rightarrow> Inr (PDict [(''Info'', PStr ''No battery detected'')])))
       (\<lambda>e. Inr (error_dict ''Failed to get battery info: '' e))"

definition get_process_count :: "platform \<Rightarrow> exn + pyval" where
  "get_process_count p =
     try_res
       (bind_res (pids p) (\<lambda>ps. Inr (PDict [(''Running Processes'', PInt (int (length ps)))])))
       (\<lambda>e. Inr (error_dict ''Failed to get process count: '' e))"

definition get_boot_time :: "platform \<Rightarrow> exn + pyval" where
  "get_boot_time p =
     try_res
       (bind_res (boot_time p) (\<lambda>boot_timestamp.
        bind_res (strftime_local p boot_timestamp) (\<lambda>boot.
        Inr (PDict [(''Boot Time'', PStr boot)]))))
       (\<lambda>e. Inr (error_dict ''Failed to get boot time: '' e))"

subsection \<open>The extended collectors\<close>

text \<open>
  \<open>dependent.split('=')[1].strip('"')\<close> for a \<open>Dependent\<close> that is true: a value that
  is no string has no \<open>split\<close>, and a string without \<open>=\<close> has no second part.
\<close>

definition usb_entry :: "pydict \<Rightarrow> exn + pyval list" where
  "usb_entry usb =
     bind_res (getattr usb ''Dependent'') (\<lambda>dependent.
       if truthy dependent then
         (case dependent of
            PStr s \<Rightarrow>
              (case split_on CHR ''='' s of
                 _ # part # _ \<Rightarrow> Inr [PStr (strip_chars (\<lambda>c. c = CHR 0x22) part)]
               | _ \<Rightarrow> Inl (Exn ''IndexError'' ''list index out of range''))
          | _ \<Rightarrow> Inl (no_attribute dependent ''split''))
       else Inr [])"

definition get_usb_devices :: "platform \<Rightarrow> exn + pyval" where
  "get_usb_devices p =
     list_collector (wmi_query p ''Win32_USBControllerDevice'') usb_entry
       ''Failed to get USB devices: ''"

definition monitor_entry :: "pydict \<Rightarrow> exn + pyval list" where
  "monitor_entry monitor =
     bind_res (dict_of [
       (''Name'', getattr monitor ''Name''),
       (''Screen Height'', getattr monitor ''ScreenHeight''),
       (''Screen Width'', getattr monitor ''ScreenWidth''),
       (''Status'', getattr monitor ''Status'')]) (\<lambda>d. Inr [d])"

definition get_display_monitors :: "platform \<Rightarrow> exn + pyval" where
  "get_display_monitors p =
     list_collector (wmi_query p ''Win32_DesktopMonitor'') monitor_entry
       ''Failed to get monitor info: ''"

definition printer_entry :: "pydict \<Rightarrow> exn + pyval list" where
  "printer_entry printer =
     bind_res (dict_of [
       (''Name'', getattr printer ''Name''),
       (''Status'', getattr printer ''Status''),
       (''Default'', getattr printer ''Default''),
       (''Network'', getattr printer ''Network''),
       (''Shared'', getattr printer ''Shared'')]) (\<lambda>d. Inr [d])"

definition get_printers :: "platform \<Rightarrow> exn + pyval" where
  "get_printers p =
     list_collector (wmi_query p ''Win32_Printer'') printer_entry
       ''Failed to get printers info: ''"

definition software_entry :: "pydict \<Rightarrow> exn + pyval list" where
  "software_entry software =
     bind_res (dict_of [
       (''Name'', getattr software ''Name''),
       (''Version'', getattr software ''Version''),
       (''Vendor'', getattr software ''Vendor''),
       (''Install Date'', getattr software ''InstallDate'')]) (\<lambda>d. Inr [d])"

definition get_installed_software :: "platform \<Rightarrow> exn + pyval" where
  "get_installed_software p =
     list_collector (wmi_query p ''Win32_Product'') software_entry
       ''Failed to get software list: ''"

definition get_power_plan :: "platform \<Rightarrow> exn + pyval" where
  "get_power_plan p =
     try_res
       (bind_res (powercfg_output p) (\<lambda>output.
        Inr (PDict [(''Power Plan'', PStr (strip_chars is_space output))])))
       (\<lambda>e. Inr (error_dict ''Failed to get power plan: '' e))"

definition get_system_locale :: "platform \<Rightarrow> exn + pyval" where
  "get_system_locale p =
     try_res
       (bind_res (getdefaultlocale p) (\<lambda>loc.
        Inr (PDict [(''Locale'', loc), (''Timezone'', tzname p)])))
       (\<lambda>e. Inr (error_dict ''Failed to get locale info: '' e))"

text \<open>\<open>x // d\<close> and \<open>x % d\<close> on idealised floats, and \<open>int\<close> of the quotient.\<close>

definition floordiv :: "real \<Rightarrow> real \<Rightarrow> int" where
  "floordiv x d = \<lfloor>x / d\<rfloor>"

definition fmod :: "real \<Rightarrow> real \<Rightarrow> real" where
  "fmod x d = x - d * of_int \<lfloor>x / d\<rfloor>"

definition get_system_uptime :: "platform \<Rightarrow> exn + pyval" where
  "get_system_uptime p =
     try_res
       (bind_res (boot_time p) (\<lambda>boot.
          let uptime_seconds = time_now p - boot;
              days = floordiv uptime_seconds 86400;
              hours = floordiv (fmod uptime_seconds 86400) 3600;
              minutes = floordiv (fmod uptime_seconds 3600) 60;
              seconds = \<lfloor>fmod uptime_seconds 60\<rfloor>
          in Inr (PDict [(''Uptime'',
               PStr (str_int days @ ''d '' @ str_int hours @ ''h '' @ str_int minutes @ ''m ''
                     @ str_int seconds @ ''s''))])))
       (\<lambda>e. Inr (error_dict ''Failed to get uptime: '' e))"

section \<open>The application\<close>

subsection \<open>\<open>display_info\<close>\<close>

definition indent_str :: "nat \<Rightarrow> string" where
  "indent_str indent = replicate (indent * 4) CHR '' ''"

fun recursive_display :: "pyval \<Rightarrow> nat \<Rightarrow> string"
  and display_fields :: "(string \<times> pyval) list \<Rightarrow> nat \<Rightarrow> string"
  and display_elements :: "nat \<Rightarrow> pyval list \<Rightarrow> nat \<Rightarrow> string" where
  "recursive_display (PDict d) indent = display_fields d indent"
| "recursive_display (PList xs) indent = display_elements 1 xs indent"
| "recursive_display v indent = indent_str indent @ py_str v @ [CHR 0x0A]"
| "display_fields [] indent = []"
| "display_fields ((k, PDict x) # d) indent =
     indent_str indent @ k @ '':'' @ [CHR 0x0A] @ recursive_display (PDict x) (indent + 1)
     @ display_fields d indent"
| "display_fields ((k, PList x) # d) indent =
     indent_str indent @ k @ '':'' @ [CHR 0x0A] @ recursive_display (PList x) (indent + 1)
     @ display_fields d indent"
| "display_fields ((k, v) # d) indent =
     indent_str indent @ k @ '': '' @ py_str v @ [CHR 0x0A] @ display_fields d indent"
| "display_elements i [] indent = []"
| "display_elements i (x # xs) indent =
     indent_str indent @ ''- Item '' @ str_nat i @ '':'' @ [CHR 0x0A]
     @ recursive_display x (indent + 1) @ display_elements (i + 1) xs indent"

definition display_info :: "pyval \<Rightarrow> state \<Rightarrow> state" where
  "display_info info s = s\<lparr>textbox := recursive_display info 0\<rparr>"

subsection \<open>\<open>show_info\<close>\<close>

definition category_options :: "string list" where
  "category_options =
     [''System Info'', ''CPU Info'', ''GPU Info'', ''RAM Info'', ''Disk Info'', ''Network Info'',
      ''BIOS Info'', ''Motherboard Info'', ''Sound Devices'', ''Battery Info'', ''Process Count'',
      ''Boot Time'', ''Benchmarks'']"

definition extended_category_options :: "string list" where
  "extended_category_options =
     category_options @
     [''USB Devices'', ''Display Monitors'', ''Printers'', ''Installed Software'', ''Power Plan'',
      ''Locale & Timezone'', ''System Uptime'', ''Extended Benchmarks'']"

text \<open>
  What \<open>show_info\<close> leaves behind: the exception of the collector, or the record stored
  in \<open>current_info\<close> and displayed, or the tier whose worker thread it started.
\<close>

datatype thread = BaselineTier | ExtendedTier

definition keyed :: "string \<Rightarrow> exn + pyval \<Rightarrow> exn + pyval" where
  "keyed k r = bind_res r (\<lambda>v. Inr (PDict [(k, v)]))"

definition store_and_display :: "exn + pyval \<Rightarrow> state \<Rightarrow> (exn + thread option) \<times> state" where
  "store_and_display r s =
     (case r of
        Inl e \<Rightarrow> (Inl e, s)
      | Inr info \<Rightarrow> (Inr None, display_info info (set_current_info info s)))"

definition unknown_category :: pyval where
  "unknown_category = PDict [(''Error'', PStr ''Unknown category'')]"

definition show_info :: "platform \<Rightarrow> string \<Rightarrow> state \<Rightarrow> (exn + thread option) \<times> state" where
  "show_info p cat s =
     (let s0 = s\<lparr>textbox := []\<rparr> in
      if cat = ''System Info'' then store_and_display (get_system_info p) s0
      else if cat = ''CPU Info'' then store_and_display (get_cpu_info p) s0
      else if cat = ''GPU Info'' then store_and_display (keyed ''GPUs'' (get_gpu_info p)) s0
      else if cat = ''RAM Info'' then store_and_display (get_ram_info p) s0
      else if cat = ''Disk Info'' then store_and_display (keyed ''Disks'' (get_disk_info p)) s0
      else if cat = ''Network Info''
        then store_and_display (keyed ''Network Adapters'' (get_network_info p)) s0
      else if cat = ''BIOS Info'' then store_and_display (get_bios_info p) s0
      else if cat = ''Motherboard Info'' then store_and_display (get_motherboard_info p) s0
      else if cat = ''Sound Devices''
        then store_and_display (keyed ''Sound Devices'' (get_sound_devices p)) s0
      else if cat = ''Battery Info'' then store_and_display (get_battery_info p) s0
      else if cat = ''Process Count'' then store_and_display (get_process_count p) s0
      else if cat = ''Boot Time'' then store_and_display (get_boot_time p) s0
      else if cat = ''Benchmarks''
        then (Inr (Some BaselineTier), s0\<lparr>textbox := ''Running CPU benchmark...'' @ [CHR 0x0A]\<rparr>)
      else store_and_display (Inr unknown_category) s0)"

definition extended_show_info ::
  "platform \<Rightarrow> string \<Rightarrow> state \<Rightarrow> (exn + thread option) \<times> state" where
  "extended_show_info p cat s =
     (let s0 = s\<lparr>textbox := []\<rparr> in
      if cat = ''USB Devices'' then store_and_display (keyed ''USB Devices'' (get_usb_devices p)) s0
      else if cat = ''Display Monitors''
        then store_and_display (keyed ''Display Monitors'' (get_display_monitors p)) s0
      else if cat = ''Printers'' then store_and_display (keyed ''Printers'' (get_printers p)) s0
      else if cat = ''Installed Software''
        then store_and_display (keyed ''Installed Software'' (get_installed_software p)) s0
      else if cat = ''Power Plan'' then store_and_display (get_power_plan p) s0
      else if cat = ''Locale & Timezone'' then store_and_display (get_system_locale p) s0
      else if cat = ''System Uptime'' then store_and_display (get_system_uptime p) s0
      else if cat = ''Extended Benchmarks''
        then (Inr (Some ExtendedTier),
              s0\<lparr>textbox := ''Running extended benchmarks...'' @ [CHR 0x0A]\<rparr>)
      else show_info p cat s0)"

text \<open>What the started worker thread runs.\<close>

definition run_thread :: "env \<Rightarrow> thread \<Rightarrow> state \<Rightarrow> ((exn + unit) \<times> state) option" where
  "run_thread env t s =
     (case t of BaselineTier \<Rightarrow> run_benchmarks env s | ExtendedTier \<Rightarrow> run_extended_benchmarks env s)"

subsection \<open>A platform whose queries answer, and one whose \<open>platform.uname()\<close> raises\<close>

definition quiet_platform :: platform where
  "quiet_platform = \<lparr>
     platform_uname = Inr \<lparr>u_system = ''Windows'', u_node = ''PC'', u_release = ''10'',
       u_version = ''10.0.19045'', u_machine = ''AMD64'', u_processor = ''Intel64''\<rparr>,
     python_version = Inr ''3.11.4'',
     wmi_query = (\<lambda>_. Inr []),
     virtual_memory = Inr \<lparr>vm_total = 0, vm_available = 0, vm_used = 0, vm_percent = ''0.0''\<rparr>,
     swap_memory = Inr \<lparr>sw_total = 0, sw_used = 0, sw_percent = ''0.0''\<rparr>,
     disk_partitions = Inr [],
     disk_usage = (\<lambda>_. Inl (Exn ''FileNotFoundError'' [])),
     net_if_addrs = Inr [],
     net_if_stats = Inr [],
     sensors_battery = Inr None,
     pids = Inr [],
     boot_time = Inr 0,
     strftime_local = (\<lambda>_. Inr ''1970-01-01 00:00:00''),
     powercfg_output = Inr [],
     getdefaultlocale = Inr (PTuple [PStr ''en_US'', PStr ''cp1252'']),
     tzname = PTuple [PStr ''UTC'', PStr ''UTC''],
     time_now = 0,
     round2_gib = (\<lambda>_. ''0.0''),
     int_conv = (\<lambda>_. Inr 0)\<rparr>"




section \<open>Reading the structured export back\<close>

text \<open>
  \<open>json.loads\<close>, the decoder of the standard library with its defaults, on strings of
  code points below 256. \<open>None\<close> is a \<open>JSONDecodeError\<close>. A float literal is read as
  the float it writes: on the literals \<open>float.__repr__\<close> produces, \<open>float\<close> of the
  literal is that float.
\<close>

definition is_ws :: "char \<Rightarrow> bool" where
  "is_ws c = (c = CHR '' '' \<or> c = CHR 0x09 \<or> c = CHR 0x0A \<or> c = CHR 0x0D)"

definition skip_ws :: "string \<Rightarrow> string" where
  "skip_ws cs = dropWhile is_ws cs"

definition is_digit :: "char \<Rightarrow> bool" where
  "is_digit c = (48 \<le> (of_char c :: nat) \<and> (of_char c :: nat) \<le> 57)"

definition digit_val :: "char \<Rightarrow> nat" where
  "digit_val c = of_char c - 48"

definition nat_of_digits :: "string \<Rightarrow> nat" where
  "nat_of_digits ds = foldl (\<lambda>n c. 10 * n + digit_val c) 0 ds"

definition hex_val :: "char \<Rightarrow> nat option" where
  "hex_val c =
     (let n = of_char c :: nat in
      if 48 \<le> n \<and> n \<le> 57 then Some (n - 48)
      else if 97 \<le> n \<and> n \<le> 102 then Some (n - 87)
      else if 65 \<le> n \<and> n \<le> 70 then Some (n - 55)
      else None)"

text \<open>The escapes after a backslash, other than \<open>\uXXXX\<close>.\<close>

definition unescape :: "char \<Rightarrow> char option" where
  "unescape c =
     (if c = CHR 0x22 then Some (CHR 0x22)
      else if c = CHR 0x5C then Some (CHR 0x5C)
      else if c = CHR ''/'' then Some (CHR ''/'')
      else if c = CHR ''b'' then Some (CHR 0x08)
      else if c = CHR ''f'' then Some (CHR 0x0C)
      else if c = CHR ''n'' then Some (CHR 0x0A)
      else if c = CHR ''r'' then Some (CHR 0x0D)
      else if c = CHR ''t'' then Some (CHR 0x09)
      else None)"

text \<open>
  \<open>scanstring\<close>, after the opening quote: up to the closing quote; a control character
  is refused (\<open>strict\<close>), and so is an escape \<open>\uXXXX\<close> of a code point from 256 on,
  which a string of this model cannot hold.
\<close>

fun scanstring :: "string \<Rightarrow> string \<Rightarrow> (string \<times> string) option" where
  "scanstring acc [] = None"
| "scanstring acc (c # cs) =
     (if c = CHR 0x22 then Some (acc, cs)
      else if c = CHR 0x5C then
        (case cs of
           [] \<Rightarrow> None
         | e # cs' \<Rightarrow>
             if e = CHR ''u'' then
               (case cs' of
                  h1 # h2 # h3 # h4 # cs'' \<Rightarrow>
                    (case (hex_val h1, hex_val h2, hex_val h3, hex_val h4) of
                       (Some a, Some b, Some c, Some d) \<Rightarrow>
                         if ((a * 16 + b) * 16 + c) * 16 + d < 256
                         then scanstring (acc @ [char_of (((a * 16 + b) * 16 + c) * 16 + d)]) cs''
                         else None
                     | _ \<Rightarrow> None)
                | _ \<Rightarrow> None)
             else
               (case unescape e of
                  Some ch \<Rightarrow> scanstring (acc @ [ch]) cs'
                | None \<Rightarrow> None))
      else if (of_char c :: nat) < 32 then None
      else scanstring (acc @ [c]) cs)"

text \<open>
  A number: \<open>-?(0|[1-9]\d*)\<close>, then \<open>(\.\d+)?\<close>, then \<open>([eE][-+]?\d+)?\<close>, each part as
  long as it can be. With neither fraction nor exponent it is an integer.
\<close>

definition scan_int_part :: "string \<Rightarrow> (string \<times> string) option" where
  "scan_int_part cs =
     (case cs of
        [] \<Rightarrow> None
      | c # r \<Rightarrow>
          if c = CHR ''0'' then Some ([c], r)
          else if is_digit c then Some (takeWhile is_digit cs, dropWhile is_digit cs)
          else None)"

definition scan_frac :: "string \<Rightarrow> string \<times> string" where
  "scan_frac cs =
     (case cs of
        c # d # r \<Rightarrow>
          if c = CHR ''.'' \<and> is_digit d
          then (c # takeWhile is_digit (d # r), dropWhile is_digit (d # r))
          else ([], cs)
      | _ \<Rightarrow> ([], cs))"

definition scan_exp :: "string \<Rightarrow> string \<times> string" where
  "scan_exp cs =
     (case cs of
        e # r \<Rightarrow>
          if e = CHR ''e'' \<or> e = CHR ''E'' then
            (case r of
               g # d # r' \<Rightarrow>
                 if (g = CHR ''+'' \<or> g = CHR ''-'') \<and> is_digit d
                 then (e # g # takeWhile is_digit (d # r'), dropWhile is_digit (d # r'))
                 else if is_digit g
                 then (e # takeWhile is_digit r, dropWhile is_digit r)
                 else ([], cs)
             | [g] \<Rightarrow> if is_digit g then ([e, g], []) else ([], cs)
             | [] \<Rightarrow> ([], cs))
          else ([], cs)
      | [] \<Rightarrow> ([], cs))"

definition scan_number :: "string \<Rightarrow> (pyval \<times> string) option" where
  "scan_number cs =
     (let neg = (case cs of c # _ \<Rightarrow> c = CHR ''-'' | [] \<Rightarrow> False);
          cs1 = (if neg then tl cs else cs)
      in case scan_int_part cs1 of
           None \<Rightarrow> None
         | Some (ds, r1) \<Rightarrow>
             (case scan_frac r1 of (fpart, r2) \<Rightarrow>
                (case scan_exp r2 of (epart, r3) \<Rightarrow>
                   if fpart = [] \<and> epart = []
                   then Some (PInt (if neg then - int (nat_of_digits ds) else int (nat_of_digits ds)),
                              r3)
                   else Some (PFloat ((if neg then ''-'' else []) @ ds @ fpart @ epart), r3))))"

definition starts_with :: "string \<Rightarrow> string \<Rightarrow> bool" where
  "starts_with p cs = (take (length p) cs = p)"

text \<open>
  \<open>dict(pairs)\<close>: a repeated key keeps its first place and takes the last value.
\<close>

definition dict_of_pairs :: "(string \<times> pyval) list \<Rightarrow> pydict" where
  "dict_of_pairs pairs = foldl (\<lambda>d (k, v). dict_setitem k v d) [] pairs"

text \<open>
  \<open>scan_once\<close> with \<open>JSONArray\<close> and \<open>JSONObject\<close>. The first argument bounds the depth
  of the calls; \<open>json_loads\<close> gives it the length of the text, which is enough for every
  text.
\<close>

fun scan_once :: "nat \<Rightarrow> string \<Rightarrow> (pyval \<times> string) option"
  and json_array :: "nat \<Rightarrow> pyval list \<Rightarrow> string \<Rightarrow> (pyval list \<times> string) option"
  and json_object :: "nat \<Rightarrow> (string \<times> pyval) list \<Rightarrow> string
        \<Rightarrow> ((string \<times> pyval) list \<times> string) option" where
  "scan_once 0 cs = None"
| "scan_once (Suc n) [] = None"
| "scan_once (Suc n) (c # r) =
     (if c = CHR 0x22 then
        (case scanstring [] r of None \<Rightarrow> None | Some (s, r') \<Rightarrow> Some (PStr s, r'))
      else if c = CHR ''{'' then
        (case skip_ws r of
           [] \<Rightarrow> None
         | d # r' \<Rightarrow>
             if d = CHR ''}'' then Some (PDict [], r')
             else (case json_object n [] (d # r') of
                     None \<Rightarrow> None
                   | Some (pairs, r'') \<Rightarrow> Some (PDict (dict_of_pairs pairs), r'')))
      else if c = CHR ''['' then
        (case skip_ws r of
           [] \<Rightarrow> None
         | d # r' \<Rightarrow>
             if d = CHR '']'' then Some (PList [], r')
             else (case json_array n [] (d # r') of
                     None \<Rightarrow> None
                   | Some (values, r'') \<Rightarrow> Some (PList values, r'')))
      else if starts_with ''null'' (c # r) then Some (PNone, drop 4 (c # r))
      else if starts_with ''true'' (c # r) then Some (PBool True, drop 4 (c # r))
      else if starts_with ''false'' (c # r) then Some (PBool False, drop 5 (c # r))
      else (case scan_number (c # r) of
              Some res \<Rightarrow> Some res
            | None \<Rightarrow>
                if starts_with ''NaN'' (c # r) then Some (PFloat ''nan'', drop 3 (c # r))
                else if starts_with ''Infinity'' (c # r) then Some (PFloat ''inf'', drop 8 (c # r))
                else if starts_with ''-Infinity'' (c # r)
                  then Some (PFloat ''-inf'', drop 9 (c # r))
                else None))"
| "json_array 0 values cs = None"
| "json_array (Suc n) values cs =
     (case scan_once n cs of
        None \<Rightarrow> None
      | Some (v, r) \<Rightarrow>
          (case skip_ws r of
             [] \<Rightarrow> None
           | d # r' \<Rightarrow>
               if d = CHR '']'' then Some (values @ [v], r')
               else if d = CHR '','' then json_array n (values @ [v]) (skip_ws r')
               else None))"
| "json_object 0 pairs cs = None"
| "json_object (Suc n) pairs cs =
     (case cs of
        [] \<Rightarrow> None
      | q # r \<Rightarrow>
          if q \<noteq> CHR 0x22 then None
          else (case scanstring [] r of
                  None \<Rightarrow> None
                | Some (k, r1) \<Rightarrow>
                    (case skip_ws r1 of
                       [] \<Rightarrow> None
                     | c # r2 \<Rightarrow>
                         if c \<noteq> CHR '':'' then None
                         else (case scan_once n (skip_ws r2) of
                                 None \<Rightarrow> None
                               | Some (v, r3) \<Rightarrow>
                                   (case skip_ws r3 of
                                      [] \<Rightarrow> None
                                    | d # r4 \<Rightarrow>
                                        if d = CHR ''}'' then Some (pairs @ [(k, v)], r4)
                                        else if d = CHR '',''
                                          then json_object n (pairs @ [(k, v)]) (skip_ws r4)
                                        else None)))))"

definition json_loads :: "string \<Rightarrow> pyval option" where
  "json_loads s =
     (case scan_once (Suc (length s)) (skip_ws s) of
        None \<Rightarrow> None
      | Some (v, r) \<Rightarrow> if skip_ws r = [] then Some v else None)"

text \<open>
  The records the round trip is claimed for: objects with distinct field names, lists and
  scalars; no tuple. A float is one of \<open>nan\<close>, \<open>inf\<close>, \<open>-inf\<close> or a literal with a
  fraction or an exponent, as \<open>float.__repr__\<close> writes it.
\<close>

definition float_repr :: "string \<Rightarrow> bool" where
  "float_repr r =
     (r = ''nan'' \<or> r = ''inf'' \<or> r = ''-inf'' \<or> scan_number r = Some (PFloat r, []))"

fun fact_record :: "pyval \<Rightarrow> bool"
  and fact_records :: "pyval list \<Rightarrow> bool"
  and fact_fields :: "(string \<times> pyval) list \<Rightarrow> bool" where
  "fact_record PNone = True"
| "fact_record (PBool b) = True"
| "fact_record (PInt i) = True"
| "fact_record (PFloat r) = float_repr r"
| "fact_record (PStr s) = True"
| "fact_record (PList xs) = fact_records xs"
| "fact_record (PTuple xs) = False"
| "fact_record (PDict d) = (distinct (map fst d) \<and> fact_fields d)"
| "fact_records [] = True"
| "fact_records (x # xs) = (fact_record x \<and> fact_records xs)"
| "fact_fields [] = True"
| "fact_fields ((k, v) # d) = (fact_record v \<and> fact_fields d)"

text \<open>
  \<open>json.load\<close> on the file \<open>name\<close>: the text that one \<open>json.dump\<close> has left there is
  decoded. A file holding anything else is not the output of the structured exporter.
\<close>

definition json_load :: "state \<Rightarrow> string \<Rightarrow> pyval option" where
  "json_load s name = (case file_content s name of [Data t] \<Rightarrow> json_loads t | _ \<Rightarrow> None)"

text \<open>
  What follows a value in the encoder's text: the end of the text, a comma or a line
  break.
\<close>

definition value_end :: "string \<Rightarrow> bool" where
  "value_end cs = (case cs of [] \<Rightarrow> True | c # _ \<Rightarrow> c = CHR '','' \<or> c = CHR 0x0A)"

section \<open>Properties of the flat export\<close>

lemma digit_char_table:
  "digit_char 0 = CHR ''0''" "digit_char 1 = CHR ''1''" "digit_char 2 = CHR ''2''"
  "digit_char 3 = CHR ''3''" "digit_char 4 = CHR ''4''" "digit_char 5 = CHR ''5''"
  "digit_char 6 = CHR ''6''" "digit_char 7 = CHR ''7''" "digit_char 8 = CHR ''8''"
  "digit_char 9 = CHR ''9''" "digit_char (Suc 0) = CHR ''1''" "digit_char (Suc (Suc 0)) = CHR ''2''"
  by code_simp+

lemma str_nat_digit: "n < 10 \<Longrightarrow> str_nat n = [digit_char n]"
  by (simp add: str_nat.simps)

lemma label_prefix_simps: "label_prefix 0 = []" "label_prefix (Suc 0) = ''    ''"
  by (simp_all add: label_prefix_def eval_nat_numeral)

lemma emit_append: "emit f (a @ b) s = emit f b (emit f a s)"
  by (induction a arbitrary: s) auto

lemma writerow_ok:
  "no_faults env \<Longrightarrow> writerow env f r s = (Inr (), emit f [r] s)"
  by (simp add: writerow_def perform_def io_bind_def no_faults_def Let_def file_content_def)

lemma label_prefix_Suc: "label_prefix lvl @ ''    '' = label_prefix (lvl + 1)"
proof -
  have "''    '' = replicate 4 (CHR '' '')"
    by (simp add: eval_nat_numeral)
  then show ?thesis
    by (simp add: label_prefix_def replicate_add [symmetric] add.commute del: replicate_add)
qed

lemma write_dict_rows_aux:
  "no_faults env \<Longrightarrow> (\<forall>lvl. prefix = label_prefix lvl \<longrightarrow>
     write_dict env f d prefix s = (Inr (), emit f (flat_rows lvl d) s))"
  "no_faults env \<Longrightarrow> (\<forall>lvl. prefix = label_prefix lvl \<longrightarrow>
     write_items env f i v prefix s = (Inr (), emit f (item_rows lvl i v) s))"
proof (induction env f d prefix s and env f i v prefix s rule: write_dict_write_items.induct)
qed (simp_all add: writerow_ok io_bind_def emit_append label_prefix_Suc)

lemma write_dict_rows:
  "no_faults env \<Longrightarrow> write_dict env f d (label_prefix lvl) s = (Inr (), emit f (flat_rows lvl d) s)"
  using write_dict_rows_aux(1) by blast

lemma file_content_emit:
  "file_content (emit f rows s) g = (if g = f then file_content s f @ map Row rows else file_content s g)"
  by (induction rows arbitrary: s) (auto simp: file_content_def update_conv')

lemma flat_rows_append: "flat_rows lvl (d1 @ d2) = flat_rows lvl d1 @ flat_rows lvl d2"
  by (induction lvl d1 rule: flat_rows_item_rows.induct(1) [where Q = "\<lambda>_ _ _. True"]) auto

lemma file_content_trace_upd [simp]: "file_content (s\<lparr>trace := t\<rparr>) g = file_content s g"
  by (simp add: file_content_def)

lemma file_content_files_upd [simp]:
  "file_content (s\<lparr>files := AList.update f c fs\<rparr>) g = (if g = f then c else file_content (s\<lparr>files := fs\<rparr>) g)"
  by (simp add: file_content_def update_conv')

lemma export_csv_ok:
  "no_faults env \<Longrightarrow>
     fst (export_csv env (PDict d) f s) = Inr (PBool True) \<and>
     file_content (snd (export_csv env (PDict d) f s)) f = map Row (flat_rows 0 d)"
  using write_dict_rows [of env f d 0]
  by (simp add: export_csv_def io_try_def io_bind_def with_open_def io_finally_def open_file_def perform_def
      close_file_def no_faults_def io_return_def Let_def label_prefix_def file_content_emit)

text \<open>
  Claim C4. Without a platform fault, \<open>export_csv\<close> returns \<open>True\<close> and the rows it
  has written are those of the specification's depth-first traversal: label and value for
  a scalar field, a header row for a list-valued field, then per element \<open>"  Item N"\<close>
  and the element's fields four spaces deeper, or \<open>"  Item N: <value>"\<close>. For
  \<open>{"A": 1, "B": [{"C": 2}, {"C": 3}]}\<close> the rows are \<open>A,1\<close>, \<open>B\<close>, \<open>  Item 1\<close>,
  \<open>    C,2\<close>, \<open>  Item 2\<close>, \<open>    C,3\<close>.
\<close>

theorem export_csv_flat_rows:
  "no_faults env \<Longrightarrow>
     fst (export_csv env (PDict d) f s) = Inr (PBool True) \<and>
     file_content (snd (export_csv env (PDict d) f s)) f = map Row (flat_rows 0 d) \<and>
     file_content (snd (export_csv env
        (PDict [(''A'', PInt 1), (''B'', PList [PDict [(''C'', PInt 2)], PDict [(''C'', PInt 3)]])])
        f s)) f =
       [Row [PStr ''A'', PInt 1], Row [PStr ''B''],
        Row [PStr ''  Item 1''], Row [PStr ''    C'', PInt 2],
        Row [PStr ''  Item 2''], Row [PStr ''    C'', PInt 3]]"
  by (simp add: export_csv_ok label_prefix_simps str_nat_digit digit_char_table)

theorem export_csv_flat_rows_witness:
  "no_faults quiet_env \<and>
   fst (export_csv quiet_env
     (PDict [(''Interface'', PStr ''eth0''), (''IPv4 Addresses'', PList [PStr ''10.0.0.1'', PInt 7])])
     ''hardware_report.csv'' init_state) = Inr (PBool True) \<and>
   file_content (snd (export_csv quiet_env
     (PDict [(''Interface'', PStr ''eth0''), (''IPv4 Addresses'', PList [PStr ''10.0.0.1'', PInt 7])])
     ''hardware_report.csv'' init_state)) ''hardware_report.csv'' =
     [Row [PStr ''Interface'', PStr ''eth0''], Row [PStr ''IPv4 Addresses''],
      Row [PStr ''  Item 1: 10.0.0.1''], Row [PStr ''  Item 2: 7'']]"
proof -
  have q: "no_faults quiet_env"
    by (simp add: no_faults_def quiet_env_def)
  show ?thesis
    using export_csv_flat_rows [OF q, of
        "[(''Interface'', PStr ''eth0''), (''IPv4 Addresses'', PList [PStr ''10.0.0.1'', PInt 7])]"
        "''hardware_report.csv''" init_state] q
    by (simp add: label_prefix_simps str_nat_digit digit_char_table py_str_def str_int_def)
qed

lemma write_dict_nested:
  "no_faults env \<Longrightarrow>
     snd (write_dict env f (d1 @ (k, PDict inner) # d2) (label_prefix lvl) s) =
       emit f (flat_rows lvl d1 @ [[PStr (label_prefix lvl @ k), PDict inner]] @ flat_rows lvl d2) s"
  by (simp add: write_dict_rows flat_rows_append)

text \<open>
  Claim C9. A dictionary that is the value of a field (not an element of a list) is not
  flattened: the field is one row, its label and the whole dictionary as the value cell.
  This holds for the exported file and at every nesting level of \<open>write_dict\<close>.
\<close>

theorem nested_object_single_row:
  "no_faults env \<Longrightarrow>
     file_content (snd (export_csv env (PDict (d1 @ (k, PDict inner) # d2)) f s)) f =
       map Row (flat_rows 0 d1) @ [Row [PStr k, PDict inner]] @ map Row (flat_rows 0 d2) \<and>
     snd (write_dict env f (d1 @ (k, PDict inner) # d2) (label_prefix lvl) s) =
       emit f (flat_rows lvl d1 @ [[PStr (label_prefix lvl @ k), PDict inner]] @ flat_rows lvl d2) s"
  using export_csv_ok [of env "d1 @ (k, PDict inner) # d2" f s]
  by (simp add: write_dict_rows flat_rows_append) (simp add: label_prefix_def)

theorem nested_object_single_row_witness:
  "no_faults quiet_env \<and>
   file_content (snd (export_csv quiet_env
     (PDict [(''A'', PInt 1), (''Inner'', PDict [(''X'', PList [PInt 1]), (''Y'', PDict [])]), (''B'', PInt 2)])
     ''hardware_report.csv'' init_state)) ''hardware_report.csv'' =
     [Row [PStr ''A'', PInt 1],
      Row [PStr ''Inner'', PDict [(''X'', PList [PInt 1]), (''Y'', PDict [])]],
      Row [PStr ''B'', PInt 2]]"
proof -
  have q: "no_faults quiet_env"
    by (simp add: no_faults_def quiet_env_def)
  show ?thesis
    using nested_object_single_row [OF q, of "[(''A'', PInt 1)]" "''Inner''"
        "[(''X'', PList [PInt 1]), (''Y'', PDict [])]" "[(''B'', PInt 2)]"
        "''hardware_report.csv''" init_state 0] q
    by (simp add: label_prefix_def)
qed

section \<open>The exporters never raise\<close>

lemma write_dict_fun_eqs:
  "write_dict env f [] prefix = io_return ()"
  "write_dict env f ((k, PList xs) # d) prefix =
     io_bind (writerow env f [PStr (prefix @ k)]) (\<lambda>_.
     io_bind (write_items env f 1 xs prefix) (\<lambda>_. write_dict env f d prefix))"
  "(\<And>xs. v \<noteq> PList xs) \<Longrightarrow> write_dict env f ((k, v) # d) prefix =
     io_bind (writerow env f [PStr (prefix @ k), v]) (\<lambda>_. write_dict env f d prefix)"
  "write_items env f i [] prefix = io_return ()"
  "write_items env f i (PDict item # xs) prefix =
     io_bind (writerow env f [PStr (''  Item '' @ str_nat i)]) (\<lambda>_.
     io_bind (write_dict env f item (prefix @ ''    '')) (\<lambda>_.
     write_items env f (i + 1) xs prefix))"
  "(\<And>item. x \<noteq> PDict item) \<Longrightarrow> write_items env f i (x # xs) prefix =
     io_bind (writerow env f [PStr (''  Item '' @ str_nat i @ '': '' @ py_str x)]) (\<lambda>_.
     write_items env f (i + 1) xs prefix)"
  subgoal by (rule ext) (simp add: io_return_def)
  subgoal by (rule ext) simp
  subgoal by (cases v; rule ext; auto)
  subgoal by (rule ext) (simp add: io_return_def)
  subgoal by (rule ext) simp
  subgoal by (cases x; rule ext; auto)
  done

lemma export_json_ok:
  "no_faults env \<Longrightarrow>
     fst (export_json env data f s) = Inr (PBool True) \<and>
     file_content (snd (export_json env data f s)) f = [Data (json_dumps data)]"
  by (simp add: export_json_def io_try_def io_bind_def with_open_def io_finally_def open_file_def
      perform_def close_file_def write_file_def no_faults_def io_return_def Let_def)

lemma faults_between_refl [simp]: "faults_between env s s = []"
  by (simp add: faults_between_def map_filter_def)

lemma faults_between_same:
  "length (trace s1) = length (trace s2) \<Longrightarrow> faults_between env s s1 = faults_between env s s2"
  "length (trace s1) = length (trace s2) \<Longrightarrow> faults_between env s1 s = faults_between env s2 s"
  by (simp_all add: faults_between_def)

lemma faults_between_trans:
  assumes "length (trace s) \<le> length (trace s1)" and "length (trace s1) \<le> length (trace s2)"
  shows "faults_between env s s2 = faults_between env s s1 @ faults_between env s1 s2"
proof -
  have "[length (trace s) ..< length (trace s2)] =
      [length (trace s) ..< length (trace s1)] @ [length (trace s1) ..< length (trace s2)]"
    using assms by (metis le_Suc_ex upt_add_eq_append)
  then show ?thesis
    by (simp add: faults_between_def map_filter_def)
qed

lemma exactI:
  assumes "\<And>s r s'. m s = (r, s') \<Longrightarrow> length (trace s) \<le> length (trace s')"
    and "\<And>s x s'. m s = (Inr x, s') \<Longrightarrow> faults_between env s s' = []"
    and "\<And>s e s'. m s = (Inl e, s') \<Longrightarrow> faults_between env s s' = [] \<Longrightarrow> e \<in> X"
    and "\<And>s e s'. m s = (Inl e, s') \<Longrightarrow> faults_between env s s' \<noteq> [] \<Longrightarrow>
           e = last (faults_between env s s')"
  shows "io_exact env X m"
  unfolding io_exact_def using assms by (auto split: sum.splits)

lemma exact_len: "io_exact env X m \<Longrightarrow> m s = (r, s') \<Longrightarrow> length (trace s) \<le> length (trace s')"
  unfolding io_exact_def by fast

lemma exact_Inr: "io_exact env X m \<Longrightarrow> m s = (Inr x, s') \<Longrightarrow> faults_between env s s' = []"
  unfolding io_exact_def by fastforce

lemma exact_Inl_none:
  "io_exact env X m \<Longrightarrow> m s = (Inl e, s') \<Longrightarrow> faults_between env s s' = [] \<Longrightarrow> e \<in> X"
  unfolding io_exact_def by fastforce

lemma exact_Inl_some:
  "io_exact env X m \<Longrightarrow> m s = (Inl e, s') \<Longrightarrow> faults_between env s s' \<noteq> [] \<Longrightarrow>
     e = last (faults_between env s s')"
  unfolding io_exact_def by fastforce

lemma exact_perform: "io_exact env X (perform env a c)"
  by (rule exactI)
     (auto simp: perform_def Let_def faults_between_def map_filter_def split: option.splits)

lemma exact_return: "io_exact env X (io_return x)"
  by (rule exactI) (auto simp: io_return_def)

lemma exact_raise: "e \<in> X \<Longrightarrow> io_exact env X (io_raise e)"
  by (rule exactI) (auto simp: io_raise_def)

lemma exact_pure:
  assumes "\<And>s. trace (snd (g s)) = trace s" and "\<And>s e. fst (g s) = Inl e \<Longrightarrow> e \<in> X"
  shows "io_exact env X g"
proof (rule exactI)
  fix s r s' assume "g s = (r, s')"
  with assms(1) [of s] show "length (trace s) \<le> length (trace s')" by simp
next
  fix s x s' assume "g s = (Inr x, s')"
  with assms(1) [of s] show "faults_between env s s' = []"
    by (simp add: faults_between_def map_filter_def)
next
  fix s e s' assume "g s = (Inl e, s')"
  with assms(2) [of s e] show "e \<in> X" by simp
next
  fix s e s' assume "g s = (Inl e, s')" "faults_between env s s' \<noteq> []"
  with assms(1) [of s] show "e = last (faults_between env s s')"
    by (simp add: faults_between_def map_filter_def)
qed

lemma exact_bind:
  assumes m: "io_exact env X m" and f: "\<And>x. io_exact env X (f x)"
  shows "io_exact env X (io_bind m f)"
proof -
  have split: "\<And>s r s'. io_bind m f s = (r, s') \<Longrightarrow>
      (\<exists>e. m s = (Inl e, s') \<and> r = Inl e) \<or> (\<exists>x s1. m s = (Inr x, s1) \<and> f x s1 = (r, s'))"
    by (auto simp: io_bind_def split: prod.splits sum.splits)
  have compose: "\<And>s x s1 r s'. m s = (Inr x, s1) \<Longrightarrow> f x s1 = (r, s') \<Longrightarrow>
      length (trace s) \<le> length (trace s') \<and> faults_between env s s' = faults_between env s1 s'"
  proof -
    fix s x s1 r s'
    assume a: "m s = (Inr x, s1)" and b: "f x s1 = (r, s')"
    have l1: "length (trace s) \<le> length (trace s1)" by (rule exact_len [OF m a])
    have l2: "length (trace s1) \<le> length (trace s')" by (rule exact_len [OF f b])
    have "faults_between env s s1 = []" by (rule exact_Inr [OF m a])
    with faults_between_trans [OF l1 l2, of env] l1 l2
    show "length (trace s) \<le> length (trace s') \<and>
        faults_between env s s' = faults_between env s1 s'" by simp
  qed
  show ?thesis
  proof (rule exactI)
    fix s r s' assume h: "io_bind m f s = (r, s')"
    from split [OF h] show "length (trace s) \<le> length (trace s')"
      using exact_len [OF m] compose by blast
  next
    fix s y s' assume h: "io_bind m f s = (Inr y, s')"
    from split [OF h] obtain x s1 where a: "m s = (Inr x, s1)" and b: "f x s1 = (Inr y, s')"
      by auto
    from compose [OF a b] exact_Inr [OF f b] show "faults_between env s s' = []" by simp
  next
    fix s e s' assume h: "io_bind m f s = (Inl e, s')" and n: "faults_between env s s' = []"
    from split [OF h] show "e \<in> X"
    proof (elim disjE exE conjE)
      fix e' assume "m s = (Inl e', s')" "Inl e = Inl e'"
      with n exact_Inl_none [OF m] show ?thesis by auto
    next
      fix x s1 assume a: "m s = (Inr x, s1)" and b: "f x s1 = (Inl e, s')"
      from compose [OF a b] n exact_Inl_none [OF f b] show ?thesis by simp
    qed
  next
    fix s e s' assume h: "io_bind m f s = (Inl e, s')" and n: "faults_between env s s' \<noteq> []"
    from split [OF h] show "e = last (faults_between env s s')"
    proof (elim disjE exE conjE)
      fix e' assume "m s = (Inl e', s')" "Inl e = Inl e'"
      with n exact_Inl_some [OF m] show ?thesis by auto
    next
      fix x s1 assume a: "m s = (Inr x, s1)" and b: "f x s1 = (Inl e, s')"
      from compose [OF a b] n exact_Inl_some [OF f b] show ?thesis by simp
    qed
  qed
qed

lemma finally_cases:
  assumes "io_finally body fin s = (r, s')"
  obtains (raised) e r1 s1 where "body s = (r1, s1)" and "fin s1 = (Inl e, s')" and "r = Inl e"
    | (closed) s1 where "body s = (r, s1)" and "fin s1 = (Inr (), s')"
  using assms by (auto simp: io_finally_def split: prod.splits sum.splits)

lemma exact_finally:
  assumes m: "io_exact env X body" and f: "io_exact env {} fin"
  shows "io_exact env X (io_finally body fin)"
proof (rule exactI)
  fix s r s' assume h: "io_finally body fin s = (r, s')"
  then show "length (trace s) \<le> length (trace s')"
    by (cases rule: finally_cases) (meson exact_len [OF m] exact_len [OF f] order_trans)+
next
  fix s y s' assume h: "io_finally body fin s = (Inr y, s')"
  then show "faults_between env s s' = []"
  proof (cases rule: finally_cases)
    case (raised e r1 s1)
    then show ?thesis by simp
  next
    case (closed s1)
    from faults_between_trans [OF exact_len [OF m closed(1)] exact_len [OF f closed(2)], of env]
      exact_Inr [OF m closed(1)] exact_Inr [OF f closed(2)]
    show ?thesis by simp
  qed
next
  fix s e s' assume h: "io_finally body fin s = (Inl e, s')" and n: "faults_between env s s' = []"
  from h show "e \<in> X"
  proof (cases rule: finally_cases)
    case (raised e' r1 s1)
    from faults_between_trans [OF exact_len [OF m raised(1)] exact_len [OF f raised(2)], of env] n
    have "faults_between env s1 s' = []" by simp
    with exact_Inl_none [OF f raised(2)] show ?thesis by simp
  next
    case (closed s1)
    from faults_between_trans [OF exact_len [OF m closed(1)] exact_len [OF f closed(2)], of env] n
    have "faults_between env s s1 = []" by simp
    with exact_Inl_none [OF m closed(1)] show ?thesis by simp
  qed
next
  fix s e s' assume h: "io_finally body fin s = (Inl e, s')" and n: "faults_between env s s' \<noteq> []"
  from h show "e = last (faults_between env s s')"
  proof (cases rule: finally_cases)
    case (raised e' r1 s1)
    note t = faults_between_trans [OF exact_len [OF m raised(1)] exact_len [OF f raised(2)], of env]
    have ne: "faults_between env s1 s' \<noteq> []"
      using exact_Inl_none [OF f raised(2)] by auto
    with t exact_Inl_some [OF f raised(2)] raised(3) show ?thesis by simp
  next
    case (closed s1)
    note t = faults_between_trans [OF exact_len [OF m closed(1)] exact_len [OF f closed(2)], of env]
    have "faults_between env s1 s' = []" by (rule exact_Inr [OF f closed(2)])
    with t n exact_Inl_some [OF m closed(1)] show ?thesis by simp
  qed
qed

lemma exact_writerow: "io_exact env X (writerow env f r)"
  unfolding writerow_def by (intro exact_bind exact_perform exact_pure) simp_all

lemma exact_write_file: "io_exact env X (write_file env a f c)"
  unfolding write_file_def by (intro exact_bind exact_perform exact_pure) simp_all

lemma exact_close_file: "io_exact env X (close_file env a f)"
  unfolding close_file_def by (rule exact_perform)

lemma exact_open_w: "io_exact env X (open_file env a name ''w'')"
  unfolding open_file_def by (intro exact_bind exact_perform exact_pure) simp_all

lemma exact_write_dict:
  "io_exact env X (write_dict env f d prefix)"
  "io_exact env X (write_items env f i v prefix)"
proof -
  have "io_exact env X (write_dict env f d prefix)"
    by (rule write_dict_write_items.induct(1)
        [where P = "\<lambda>env f d prefix s. io_exact env X (write_dict env f d prefix)"
           and Q = "\<lambda>env f i v prefix s. io_exact env X (write_items env f i v prefix)"])
       (simp_all add: write_dict_fun_eqs exact_bind exact_writerow exact_return)
  moreover have "io_exact env X (write_items env f i v prefix)"
    by (rule write_dict_write_items.induct(2)
        [where P = "\<lambda>env f d prefix s. io_exact env X (write_dict env f d prefix)"
           and Q = "\<lambda>env f i v prefix s. io_exact env X (write_items env f i v prefix)"])
       (simp_all add: write_dict_fun_eqs exact_bind exact_writerow exact_return)
  ultimately show "io_exact env X (write_dict env f d prefix)"
    "io_exact env X (write_items env f i v prefix)" by blast+
qed

lemma exact_export_json_body:
  "io_exact env {}
     (with_open env Exporter filename ''w'' (write_file env Exporter filename (Data txt)))"
  unfolding with_open_def
  by (intro exact_bind exact_open_w exact_finally exact_close_file exact_write_file)

lemma exact_export_csv_dict_body:
  "io_exact env {} (with_open env Exporter filename ''w'' (write_dict env filename d prefix))"
  unfolding with_open_def
  by (intro exact_bind exact_open_w exact_finally exact_close_file exact_write_dict)

lemma exact_export_csv_other_body:
  "io_exact env {e} (with_open env Exporter filename ''w'' (io_raise e))"
  unfolding with_open_def
  by (intro exact_bind exact_open_w exact_finally exact_close_file exact_raise) simp

lemma try_outcome:
  assumes "io_exact env {} body"
  shows "\<exists>s'. io_try (io_bind body (\<lambda>_. io_return (PBool True)))
            (\<lambda>e. io_return (PStr (exn_msg e))) s =
          (Inr (outcome (faults_between env s s')), s')"
proof -
  obtain r s1 where b: "body s = (r, s1)" by (cases "body s")
  show ?thesis
  proof (cases r)
    case (Inl e)
    with b have b': "body s = (Inl e, s1)" by simp
    have ne: "faults_between env s s1 \<noteq> []"
      using exact_Inl_none [OF assms b'] by auto
    with exact_Inl_some [OF assms b'] have "outcome (faults_between env s s1) = PStr (exn_msg e)"
      by (simp add: outcome_def)
    with b' show ?thesis
      by (intro exI [of _ s1]) (simp add: io_try_def io_bind_def io_return_def)
  next
    case (Inr x)
    with b have b': "body s = (Inr x, s1)" by simp
    from exact_Inr [OF assms b'] have "outcome (faults_between env s s1) = PBool True"
      by (simp add: outcome_def)
    with b' show ?thesis
      by (intro exI [of _ s1]) (simp add: io_try_def io_bind_def io_return_def)
  qed
qed

lemma try_outcome_raising:
  assumes "io_exact env {x} body" and "\<And>s r s'. body s = (r, s') \<Longrightarrow> \<exists>e. r = Inl e"
  shows "\<exists>s'. io_try (io_bind body (\<lambda>_. io_return (PBool True)))
            (\<lambda>e. io_return (PStr (exn_msg e))) s =
          (Inr (PStr (exn_msg (last (x # faults_between env s s')))), s')"
proof -
  obtain r s1 where b: "body s = (r, s1)" by (cases "body s")
  with assms(2) obtain e where b': "body s = (Inl e, s1)" by blast
  have "e = last (x # faults_between env s s1)"
    using exact_Inl_none [OF assms(1) b'] exact_Inl_some [OF assms(1) b']
    by (cases "faults_between env s s1 = []") simp_all
  with b' show ?thesis
    by (intro exI [of _ s1]) (simp add: io_try_def io_bind_def io_return_def)
qed

lemma with_open_raise_raises:
  "with_open env a name mode (io_raise e) s = (r, s') \<Longrightarrow> \<exists>e'. r = Inl e'"
  by (auto simp: with_open_def io_bind_def io_finally_def io_raise_def
      split: prod.splits sum.splits)

text \<open>
  Claim C8. Neither exporter raises: \<open>export_json\<close> and \<open>export_csv\<close> always return a
  value. It is \<open>True\<close> exactly when no platform call of the export raised, and otherwise
  the message of the exception that left the \<open>try\<close> block, which is the last one the
  platform raised during the export; \<open>export_csv\<close> of a value that is no dictionary
  returns the message of the \<open>AttributeError\<close> of \<open>d.items()\<close>, unless closing the file
  raised after it. Without a platform fault both return \<open>True\<close> and the file holds what
  was to be written.
\<close>

theorem exporters_never_raise:
  "(\<exists>s'. export_json env data f s = (Inr (outcome (faults_between env s s')), s')) \<and>
   (\<exists>s'. export_csv env (PDict d) f s = (Inr (outcome (faults_between env s s')), s')) \<and>
   ((\<forall>d. data \<noteq> PDict d) \<longrightarrow>
      (\<exists>s'. export_csv env data f s =
         (Inr (PStr (exn_msg (last (no_attribute data ''items'' # faults_between env s s')))),
          s'))) \<and>
   (no_faults env \<longrightarrow>
      fst (export_json env data f s) = Inr (PBool True) \<and>
      file_content (snd (export_json env data f s)) f = [Data (json_dumps data)]) \<and>
   (no_faults env \<longrightarrow>
      fst (export_csv env (PDict d) f s) = Inr (PBool True) \<and>
      file_content (snd (export_csv env (PDict d) f s)) f = map Row (flat_rows 0 d))"
proof (intro conjI impI)
  show "\<exists>s'. export_json env data f s = (Inr (outcome (faults_between env s s')), s')"
    unfolding export_json_def by (rule try_outcome [OF exact_export_json_body])
next
  show "\<exists>s'. export_csv env (PDict d) f s = (Inr (outcome (faults_between env s s')), s')"
    unfolding export_csv_def pyval.case by (rule try_outcome [OF exact_export_csv_dict_body])
next
  assume n: "\<forall>d. data \<noteq> PDict d"
  have c: "(case data of PDict d \<Rightarrow> write_dict env f d [] | _ \<Rightarrow> io_raise (no_attribute data ''items''))
      = io_raise (no_attribute data ''items'')"
    using n by (cases data) simp_all
  show "\<exists>s'. export_csv env data f s =
         (Inr (PStr (exn_msg (last (no_attribute data ''items'' # faults_between env s s')))), s')"
    unfolding export_csv_def c
    by (rule try_outcome_raising [OF exact_export_csv_other_body with_open_raise_raises])
next
  assume "no_faults env"
  then show "fst (export_json env data f s) = Inr (PBool True)"
    "file_content (snd (export_json env data f s)) f = [Data (json_dumps data)]"
    by (simp_all add: export_json_ok)
next
  assume "no_faults env"
  then show "fst (export_csv env (PDict d) f s) = Inr (PBool True)"
    "file_content (snd (export_csv env (PDict d) f s)) f = map Row (flat_rows 0 d)"
    by (simp_all add: export_csv_ok)
qed

lemmas export_eval =
  export_json_def export_csv_def io_try_def io_bind_def io_finally_def io_raise_def with_open_def
  open_file_def write_file_def close_file_def perform_def io_return_def Let_def
  quiet_env_def init_state_def file_content_def

theorem exporters_never_raise_witness:
  "no_faults quiet_env \<and> (\<forall>d. PList [] \<noteq> PDict d) \<and>
   fst (export_json quiet_env (PDict [(''A'', PInt 1)]) ''hardware_report.json'' init_state)
     = Inr (PBool True) \<and>
   fst (export_csv quiet_env (PDict [(''A'', PInt 1)]) ''hardware_report.csv'' init_state)
     = Inr (PBool True) \<and>
   fst (export_json denied_env (PDict [(''A'', PInt 1)]) ''hardware_report.json'' init_state)
     = Inr (PStr ''[Errno 13] Permission denied'') \<and>
   fst (export_json (disk_full_env 1) (PDict [(''A'', PInt 1)]) ''hardware_report.json'' init_state)
     = Inr (PStr ''[Errno 28] No space left on device'') \<and>
   fst (export_json (disk_full_env 2) (PDict [(''A'', PInt 1)]) ''hardware_report.json'' init_state)
     = Inr (PStr ''[Errno 28] No space left on device'') \<and>
   fst (export_csv (disk_full_env 1) (PDict [(''A'', PInt 1)]) ''hardware_report.csv'' init_state)
     = Inr (PStr ''[Errno 28] No space left on device'') \<and>
   (\<exists>s'. export_csv quiet_env (PList []) ''hardware_report.csv'' init_state =
      (Inr (PStr (exn_msg (no_attribute (PList []) ''items''))), s'))"
proof -
  have q: "no_faults quiet_env"
    by (simp add: no_faults_def quiet_env_def)
  have l: "\<forall>d. PList [] \<noteq> PDict d" by simp
  have e: "fst (export_json denied_env (PDict [(''A'', PInt 1)]) ''hardware_report.json'' init_state)
      = Inr (PStr ''[Errno 13] Permission denied'')"
    "fst (export_json (disk_full_env 1) (PDict [(''A'', PInt 1)]) ''hardware_report.json'' init_state)
      = Inr (PStr ''[Errno 28] No space left on device'')"
    "fst (export_json (disk_full_env 2) (PDict [(''A'', PInt 1)]) ''hardware_report.json'' init_state)
      = Inr (PStr ''[Errno 28] No space left on device'')"
    "fst (export_csv (disk_full_env 1) (PDict [(''A'', PInt 1)]) ''hardware_report.csv'' init_state)
      = Inr (PStr ''[Errno 28] No space left on device'')"
    by (simp_all add: export_eval denied_env_def disk_full_env_def no_space_def writerow_def)
  have a: "\<exists>s'. export_csv quiet_env (PList []) ''hardware_report.csv'' init_state =
      (Inr (PStr (exn_msg (no_attribute (PList []) ''items''))), s')"
    by (simp add: export_eval)
  show ?thesis
    using exporters_never_raise [of quiet_env "PDict [(''A'', PInt 1)]" "''hardware_report.json''"
        init_state "[(''A'', PInt 1)]"]
      exporters_never_raise [of quiet_env "PList []" "''hardware_report.csv''"
        init_state "[(''A'', PInt 1)]"] q l e a
    by simp
qed


section \<open>Properties of the benchmark tiers\<close>

lemma steps_refl: "steps a 0 s s"
  by (simp add: steps_def)

lemma steps_trans: "steps a k s s1 \<Longrightarrow> steps a j s1 s2 \<Longrightarrow> steps a (k + j) s s2"
  unfolding steps_def by (elim conjE exE) (auto intro!: exI [of _ "_ @ _"])

lemma steps_weaken: "steps a k s s' \<Longrightarrow> j \<le> k \<Longrightarrow> steps a j s s'"
  unfolding steps_def by auto

lemma steps_trans0: "steps a k s s1 \<Longrightarrow> steps a 0 s1 s2 \<Longrightarrow> steps a k s s2"
  using steps_trans [of a k s s1 0 s2] by simp

lemma io_steps_weaken: "io_steps a k m \<Longrightarrow> io_steps a 0 m"
  unfolding io_steps_def using steps_weaken by blast

lemma steps_perform: "io_steps a (Suc 0) (perform env a c)"
  by (auto simp: io_steps_def steps_def perform_def Let_def by_actor_def split: option.splits)

lemma steps_return: "io_steps a 0 (io_return x)"
  by (simp add: io_steps_def io_return_def steps_refl)

lemma steps_raise: "io_steps a 0 (io_raise e)"
  by (simp add: io_steps_def io_raise_def steps_refl)

lemma steps_pure:
  "(\<And>s. trace (snd (g s)) = trace s \<and> current_info (snd (g s)) = current_info s
      \<and> scheduled (snd (g s)) = scheduled s) \<Longrightarrow> io_steps a 0 g"
  unfolding io_steps_def steps_def by (metis append_Nil2 le0 list.pred_inject(1) list.size(3) snd_conv)

lemma steps_bind:
  assumes "io_steps a k m" and "\<And>x. io_steps a 0 (f x)"
  shows "io_steps a k (io_bind m f)"
  unfolding io_steps_def
proof (intro allI impI)
  fix s r s'
  assume h: "io_bind m f s = (r, s')"
  obtain r1 s1 where m: "m s = (r1, s1)" by (cases "m s")
  with assms(1) have 1: "steps a k s s1" by (simp add: io_steps_def)
  show "steps a k s s'"
  proof (cases r1)
    case (Inl e)
    with h m 1 show ?thesis by (simp add: io_bind_def)
  next
    case (Inr x)
    with h m have "f x s1 = (r, s')" by (simp add: io_bind_def)
    with assms(2) have "steps a 0 s1 s'" by (simp add: io_steps_def)
    with 1 show ?thesis by (rule steps_trans0)
  qed
qed

lemma steps_try:
  assumes "io_steps a k m" and "\<And>e. io_steps a 0 (h e)"
  shows "io_steps a k (io_try m h)"
  unfolding io_steps_def
proof (intro allI impI)
  fix s r s'
  assume t: "io_try m h s = (r, s')"
  obtain r1 s1 where m: "m s = (r1, s1)" by (cases "m s")
  with assms(1) have 1: "steps a k s s1" by (simp add: io_steps_def)
  show "steps a k s s'"
  proof (cases r1)
    case (Inl e)
    with t m have "h e s1 = (r, s')" by (simp add: io_try_def)
    with assms(2) have "steps a 0 s1 s'" by (simp add: io_steps_def)
    with 1 show ?thesis by (rule steps_trans0)
  next
    case (Inr x)
    with t m 1 show ?thesis by (simp add: io_try_def)
  qed
qed

lemma steps_finally:
  assumes "io_steps a k m" and "io_steps a 0 fin"
  shows "io_steps a k (io_finally m fin)"
  unfolding io_steps_def
proof (intro allI impI)
  fix s r s'
  assume t: "io_finally m fin s = (r, s')"
  obtain r1 s1 where m: "m s = (r1, s1)" by (cases "m s")
  obtain r2 s2 where c: "fin s1 = (r2, s2)" by (cases "fin s1")
  from assms(1) m have 1: "steps a k s s1" by (simp add: io_steps_def)
  from assms(2) c have 2: "steps a 0 s1 s2" by (simp add: io_steps_def)
  from t m c have "s' = s2" by (auto simp: io_finally_def split: sum.splits)
  with 1 2 show "steps a k s s'" using steps_trans0 by blast
qed

lemma steps_time_time: "io_steps a (Suc 0) (time_time env a)"
proof -
  have "time_time env a = (\<lambda>s. io_bind (perform env a TimeTime)
      (\<lambda>_. io_return (clock env (length (trace s)))) s)"
    by (rule ext) (simp add: time_time_def)
  then show ?thesis
    by (auto simp: io_steps_def steps_def time_time_def perform_def io_bind_def io_return_def Let_def
        by_actor_def split: option.splits)
qed

lemma steps_open_file: "io_steps a (Suc 0) (open_file env a name mode)"
  unfolding open_file_def by (intro steps_bind steps_perform steps_pure) simp

lemma steps_write_file: "io_steps a (Suc 0) (write_file env a name c)"
  unfolding write_file_def by (intro steps_bind steps_perform steps_pure) simp

lemma steps_read_file: "io_steps a (Suc 0) (read_file env a name)"
  unfolding read_file_def by (intro steps_bind steps_perform steps_pure) simp

lemma steps_close_file: "io_steps a (Suc 0) (close_file env a name)"
  unfolding close_file_def by (rule steps_perform)

lemma steps_remove_file: "io_steps a (Suc 0) (remove_file env a name)"
  unfolding remove_file_def by (intro steps_bind steps_perform steps_pure) simp

lemma steps_with_open:
  "io_steps a 0 body \<Longrightarrow> io_steps a (Suc 0) (with_open env a name mode body)"
  unfolding with_open_def
  by (intro steps_bind steps_open_file steps_finally io_steps_weaken [OF steps_close_file])

lemma steps_write_read: "io_steps DiskProbe (Suc 0) (write_read env name data)"
  unfolding write_read_def
  by (intro steps_bind steps_with_open io_steps_weaken [OF steps_write_file]
      io_steps_weaken [OF steps_read_file] steps_return io_steps_weaken [OF steps_with_open])

lemmas steps0 =
  io_steps_weaken [OF steps_perform] io_steps_weaken [OF steps_time_time]
  io_steps_weaken [OF steps_write_read] io_steps_weaken [OF steps_remove_file]
  io_steps_weaken [OF steps_close_file] steps_return

lemma steps_memory_benchmark: "io_steps MemoryProbe (Suc 0) (memory_benchmark env)"
  unfolding memory_benchmark_def by (intro steps_bind steps_perform steps0)

lemma steps_named_temporary_file: "io_steps a (Suc 0) (named_temporary_file env a)"
  by (auto simp: io_steps_def steps_def named_temporary_file_def perform_def io_bind_def Let_def
      by_actor_def split: option.splits)

lemma steps_mktemp: "io_steps a (Suc 0) (mktemp env a)"
  by (auto simp: io_steps_def steps_def mktemp_def perform_def io_bind_def io_return_def Let_def
      by_actor_def split: option.splits)

lemma steps_disk_benchmark: "io_steps DiskProbe (Suc 0) (disk_benchmark env)"
  unfolding disk_benchmark_def
  by (intro steps_try steps_bind steps_named_temporary_file steps0)

lemma steps_extended_memory_benchmark: "io_steps MemoryProbe (Suc 0) (extended_memory_benchmark env)"
  unfolding extended_memory_benchmark_def
  by (intro steps_bind steps_perform steps_try steps0)

lemma steps_extended_disk_benchmark: "io_steps DiskProbe (Suc 0) (extended_disk_benchmark env)"
  unfolding extended_disk_benchmark_def
  by (intro steps_try steps_bind steps_mktemp steps0)

lemma time_time_steps: "time_time env a s = (r, s') \<Longrightarrow> steps a (Suc 0) s s'"
  using steps_time_time by (simp add: io_steps_def)

lemma time_time_length:
  "time_time env a s = (r, s') \<Longrightarrow> length (trace s') = Suc (length (trace s))"
  by (auto simp: time_time_def perform_def io_bind_def io_return_def Let_def split: option.splits)

lemma time_time_value:
  "time_time env a s = (Inr t, s') \<Longrightarrow> t = clock env (length (trace s))"
  by (auto simp: time_time_def perform_def io_bind_def io_return_def Let_def split: option.splits)

lemma cpu_loop_steps_aux:
  assumes "cpu_loop env work e c s = Some y"
  shows "steps CpuProbe (Suc 0) s (snd y)"
proof (rule cpu_loop.raw_induct
    [where P = "\<lambda>env work e c s y. steps CpuProbe (Suc 0) s (snd y)", OF _ assms])
  fix loop :: "env \<Rightarrow> (int \<Rightarrow> exn option) \<Rightarrow> real \<Rightarrow> int \<Rightarrow> state
      \<Rightarrow> ((exn + int) \<times> state) option"
  fix env work e c s y
  assume ih: "\<And>env work e c s y. loop env work e c s = Some y \<Longrightarrow> steps CpuProbe (Suc 0) s (snd y)"
  assume h: "(case time_time env CpuProbe s of
      (Inl e, s') \<Rightarrow> Some (Inl e, s')
    | (Inr t, s') \<Rightarrow>
        if t < e then (case work (c + 1) of None \<Rightarrow> loop env work e (c + 1) s'
                       | Some e \<Rightarrow> Some (Inl e, s'))
        else Some (Inr c, s')) = Some y"
  obtain r1 s1 where t: "time_time env CpuProbe s = (r1, s1)"
    by (cases "time_time env CpuProbe s")
  then have a: "steps CpuProbe (Suc 0) s s1" by (rule time_time_steps)
  show "steps CpuProbe (Suc 0) s (snd y)"
  proof (cases r1)
    case (Inl x)
    with h t a show ?thesis by auto
  next
    case (Inr x)
    show ?thesis
    proof (cases "x < e \<and> work (c + 1) = None")
      case True
      with h t Inr have "loop env work e (c + 1) s1 = Some y" by simp
      then have "steps CpuProbe (Suc 0) s1 (snd y)" by (rule ih)
      with a show ?thesis using steps_trans steps_weaken by (metis le_add1)
    next
      case False
      with h t Inr a show ?thesis by (auto split: if_splits option.splits)
    qed
  qed
qed

lemma cpu_loop_steps:
  "cpu_loop env work e c s = Some (r, s') \<Longrightarrow> steps CpuProbe (Suc 0) s s'"
  using cpu_loop_steps_aux by fastforce

lemma cpu_loop_returns:
  "length (trace s) \<le> m \<Longrightarrow> e \<le> clock env m \<Longrightarrow> \<exists>y. cpu_loop env work e c s = Some y"
proof (induction "m - length (trace s)" arbitrary: s c)
  case 0
  then have m: "m = length (trace s)" by simp
  obtain r1 s1 where t: "time_time env CpuProbe s = (r1, s1)"
    by (cases "time_time env CpuProbe s")
  show ?case
  proof (cases r1)
    case (Inl x)
    with t show ?thesis by (subst cpu_loop.simps) simp
  next
    case (Inr x)
    with t have "x = clock env (length (trace s))" by (simp add: time_time_value)
    with 0 m have "\<not> x < e" by simp
    with t Inr show ?thesis by (subst cpu_loop.simps) simp
  qed
next
  case (Suc k)
  obtain r1 s1 where t: "time_time env CpuProbe s = (r1, s1)"
    by (cases "time_time env CpuProbe s")
  then have l: "length (trace s1) = Suc (length (trace s))" by (rule time_time_length)
  with Suc have "k = m - length (trace s1)" "length (trace s1) \<le> m" by simp_all
  then have "\<exists>y. cpu_loop env work e (c + 1) s1 = Some y"
    using Suc(1) Suc(4) by blast
  with t show ?case
    by (subst cpu_loop.simps) (auto split: sum.splits option.splits)
qed

lemma cpu_loop_total:
  "clock_advances env \<Longrightarrow> \<exists>y. cpu_loop env work e c s = Some y"
  unfolding clock_advances_def using cpu_loop_returns by blast

lemma cpu_benchmark_steps:
  "cpu_benchmark env d s = Some (r, s') \<Longrightarrow> steps CpuProbe (Suc 0) s s'"
proof -
  assume h: "cpu_benchmark env d s = Some (r, s')"
  obtain r1 s1 where t: "time_time env CpuProbe s = (r1, s1)"
    by (cases "time_time env CpuProbe s")
  then have 1: "steps CpuProbe (Suc 0) s s1" by (rule time_time_steps)
  show ?thesis
  proof (cases r1)
    case (Inl x)
    with h t 1 show ?thesis by (simp add: cpu_benchmark_def)
  next
    case (Inr x)
    with h t obtain r2 where "cpu_loop env sqrt_work (x + of_int d) 0 s1 = Some (r2, s')"
      by (auto simp: cpu_benchmark_def split: option.splits sum.splits)
    then have "steps CpuProbe (Suc 0) s1 s'" by (rule cpu_loop_steps)
    with 1 show ?thesis using steps_trans0 steps_weaken by (metis le0)
  qed
qed

lemma extended_cpu_benchmark_steps:
  "extended_cpu_benchmark env d s = Some (r, s') \<Longrightarrow> steps CpuProbe (Suc 0) s s'"
proof -
  assume h: "extended_cpu_benchmark env d s = Some (r, s')"
  obtain r1 s1 where t: "time_time env CpuProbe s = (r1, s1)"
    by (cases "time_time env CpuProbe s")
  then have 1: "steps CpuProbe (Suc 0) s s1" by (rule time_time_steps)
  show ?thesis
  proof (cases r1)
    case (Inl x)
    with h t 1 show ?thesis by (simp add: extended_cpu_benchmark_def)
  next
    case (Inr x)
    with h t obtain r2 where "cpu_loop env (\<lambda>_. None) (x + of_int d) 0 s1 = Some (r2, s')"
      by (auto simp: extended_cpu_benchmark_def split: option.splits sum.splits)
    then have "steps CpuProbe (Suc 0) s1 s'" by (rule cpu_loop_steps)
    with 1 show ?thesis using steps_trans0 steps_weaken by (metis le0)
  qed
qed

lemma cpu_benchmark_total:
  "clock_advances env \<Longrightarrow> \<exists>y. cpu_benchmark env d s = Some y"
  using cpu_loop_total [of env sqrt_work]
  by (auto simp: cpu_benchmark_def split: prod.splits sum.splits option.splits) (metis option.distinct(1))

lemma extended_cpu_benchmark_total:
  "clock_advances env \<Longrightarrow> \<exists>y. extended_cpu_benchmark env d s = Some y"
  using cpu_loop_total [of env "\<lambda>_. None"]
  by (auto simp: extended_cpu_benchmark_def split: prod.splits sum.splits option.splits)
     (metis option.distinct(1))

lemma run_benchmarks_tier:
  "run_benchmarks env = run_tier (cpu_benchmark env 3) (memory_benchmark env) (disk_benchmark env)"
  by (rule ext) (simp add: run_benchmarks_def run_tier_def)

lemma run_extended_benchmarks_tier:
  "run_extended_benchmarks env =
     run_tier (extended_cpu_benchmark env 5) (extended_memory_benchmark env)
       (extended_disk_benchmark env)"
  by (rule ext) (simp add: run_extended_benchmarks_def run_tier_def)

lemma writes_by_actor: "list_all (by_actor a) t \<Longrightarrow> writes t = 0"
  by (induction t) (auto simp: writes_def by_actor_def split: event.splits)

lemma writes_append: "writes (a @ b) = writes a + writes b"
  by (simp add: writes_def)

lemma writes_final: "writes [SetCurrentInfo a, After b] = 1"
  by (simp add: writes_def)

lemma in_orderI:
  "trace s' = trace s @ tc @ tm @ td @ te \<Longrightarrow> list_all (by_actor CpuProbe) tc \<Longrightarrow>
   list_all (by_actor MemoryProbe) tm \<Longrightarrow> list_all (by_actor DiskProbe) td \<Longrightarrow>
   (case r of
      Inr _ \<Rightarrow> tc \<noteq> [] \<and> tm \<noteq> [] \<and> td \<noteq> [] \<and>
        te = [SetCurrentInfo (current_info s'), After (current_info s')]
    | Inl _ \<Rightarrow> te = [] \<and> current_info s' = current_info s) \<Longrightarrow>
   in_order s r s'"
  unfolding in_order_def
  by (rule exI [of _ tc], rule exI [of _ tm], rule exI [of _ td], rule exI [of _ te])
     (auto simp: writes_by_actor writes_append writes_final split: sum.splits)

lemma run_tier_in_order:
  assumes cpu: "\<And>s r s'. cpu s = Some (r, s') \<Longrightarrow> steps CpuProbe (Suc 0) s s'"
    and mem: "io_steps MemoryProbe (Suc 0) mem"
    and disk: "io_steps DiskProbe (Suc 0) disk"
    and run: "run_tier cpu mem disk s = Some (r, s')"
  shows "in_order s r s'"
proof -
  from run obtain r1 s1 where c: "cpu s = Some (r1, s1)"
    by (auto simp: run_tier_def split: option.splits)
  from cpu [OF c] obtain tc where tc: "trace s1 = trace s @ tc" "list_all (by_actor CpuProbe) tc"
    "tc \<noteq> []" and i1: "current_info s1 = current_info s"
    by (fastforce simp: steps_def)
  show ?thesis
  proof (cases r1)
    case (Inl e)
    with run c have "r = Inl e" "s' = s1" by (simp_all add: run_tier_def)
    with tc i1 show ?thesis
      by - (rule in_orderI [of _ _ tc "[]" "[]" "[]"], simp_all)
  next
    case r1: (Inr d1)
    obtain r2 s2 where m: "mem s1 = (r2, s2)" by (cases "mem s1")
    with mem obtain tm where tm: "trace s2 = trace s1 @ tm" "list_all (by_actor MemoryProbe) tm"
      "tm \<noteq> []" and i2: "current_info s2 = current_info s1"
      by (fastforce simp: io_steps_def steps_def)
    show ?thesis
    proof (cases r2)
      case (Inl e)
      with run c r1 m have "r = Inl e" "s' = s2" by (simp_all add: run_tier_def)
      with tc tm i1 i2 show ?thesis
        by - (rule in_orderI [of _ _ tc tm "[]" "[]"], simp_all)
    next
      case r2: (Inr d2)
      obtain r3 s3 where d: "disk s2 = (r3, s3)" by (cases "disk s2")
      with disk obtain td where td: "trace s3 = trace s2 @ td" "list_all (by_actor DiskProbe) td"
        "td \<noteq> []" and i3: "current_info s3 = current_info s2"
        by (fastforce simp: io_steps_def steps_def)
      show ?thesis
      proof (cases r3)
        case (Inl e)
        with run c r1 m r2 d have "r = Inl e" "s' = s3" by (simp_all add: run_tier_def)
        with tc tm td i1 i2 i3 show ?thesis
          by - (rule in_orderI [of _ _ tc tm td "[]"], simp_all)
      next
        case r3: (Inr d3)
        with run c r1 m r2 d have "r = Inr ()"
          "s' = finish_run (dict_update (dict_update (dict_update [] d1) d2) d3) s3"
          by (simp_all add: run_tier_def)
        with tc tm td show ?thesis
          by - (rule in_orderI [of _ _ tc tm td
                "[SetCurrentInfo (current_info s'), After (current_info s')]"],
              simp_all add: finish_run_def set_current_info_def textbox_after_def)
      qed
    qed
  qed
qed

lemma run_tier_total:
  "\<exists>y. cpu s = Some y \<Longrightarrow> \<exists>y. run_tier cpu mem disk s = Some y"
  by (auto simp: run_tier_def split: option.splits sum.splits prod.splits)

lemma finish_run_merged:
  "finish_run (dict_update (dict_update (dict_update [] d1) d2) d3) s3 =
     s3\<lparr>current_info := merged d1 d2 d3, scheduled := scheduled s3 @ [merged d1 d2 d3],
        trace := trace s3 @ [SetCurrentInfo (merged d1 d2 d3), After (merged d1 d2 d3)]\<rparr>"
  by (simp add: finish_run_def set_current_info_def textbox_after_def merged_def)

lemma run_tier_sequential:
  assumes cpu: "\<And>s r s'. cpu s = Some (r, s') \<Longrightarrow> steps CpuProbe (Suc 0) s s'"
    and mem: "io_steps MemoryProbe (Suc 0) mem"
    and disk: "io_steps DiskProbe (Suc 0) disk"
    and run: "run_tier cpu mem disk s = Some (r, s')"
  shows "sequential_run cpu mem disk s r s'"
proof -
  from run obtain r1 s1 where c: "cpu s = Some (r1, s1)"
    by (auto simp: run_tier_def split: option.splits)
  note c1 = cpu [OF c]
  obtain r2 s2 where m: "mem s1 = (r2, s2)" by (cases "mem s1")
  with mem have m1: "steps MemoryProbe (Suc 0) s1 s2" by (simp add: io_steps_def)
  obtain r3 s3 where d: "disk s2 = (r3, s3)" by (cases "disk s2")
  with disk have d1: "steps DiskProbe (Suc 0) s2 s3" by (simp add: io_steps_def)
  show ?thesis
  proof (cases r1)
    case (Inl e)
    with run c c1 show ?thesis
      by (simp add: run_tier_def sequential_run_def)
  next
    case r1: (Inr x1)
    show ?thesis
    proof (cases r2)
      case (Inl e)
      with run c c1 r1 m m1 show ?thesis
        by (simp add: run_tier_def sequential_run_def)
    next
      case r2: (Inr x2)
      show ?thesis
      proof (cases r3)
        case (Inl e)
        with run c c1 r1 m m1 r2 d d1 show ?thesis
          by (simp add: run_tier_def sequential_run_def)
      next
        case (Inr x3)
        with run c c1 r1 m m1 r2 d d1 show ?thesis
          by (simp add: run_tier_def sequential_run_def finish_run_merged)
      qed
    qed
  qed
qed

text \<open>
  Claim C6. On a platform whose clock passes every bound, a run of either benchmark tier
  returns, and it is the sequence of its three probes: the CPU probe, then the memory
  probe in the state the CPU probe left, then the disk probe in the state the memory
  probe left (so the disk probe's first timing call follows the memory probe's last
  call), each adding only its own calls to the trace. When all three probes have
  returned, the run returns and makes exactly one assignment to \<open>current_info\<close>, of the
  merge of the three results, after the last probe and followed only by the scheduling of
  its display. A run that a probe's exception ends assigns nothing.
\<close>

theorem tier_runs_in_order:
  assumes "clock_advances env"
  shows "(\<exists>r s'. run_benchmarks env s = Some (r, s') \<and>
            sequential_run (cpu_benchmark env 3) (memory_benchmark env) (disk_benchmark env)
              s r s' \<and>
            in_order s r s') \<and>
         (\<exists>r s'. run_extended_benchmarks env s = Some (r, s') \<and>
            sequential_run (extended_cpu_benchmark env 5) (extended_memory_benchmark env)
              (extended_disk_benchmark env) s r s' \<and>
            in_order s r s')"
proof
  from assms obtain r s' where 1: "run_benchmarks env s = Some (r, s')"
    using run_tier_total [OF cpu_benchmark_total] by (fastforce simp: run_benchmarks_tier)
  then have t: "run_tier (cpu_benchmark env 3) (memory_benchmark env) (disk_benchmark env) s
      = Some (r, s')"
    by (simp add: run_benchmarks_tier)
  have c: "\<And>s r s'. cpu_benchmark env 3 s = Some (r, s') \<Longrightarrow> steps CpuProbe (Suc 0) s s'"
    by (rule cpu_benchmark_steps)
  have "in_order s r s'"
    by (rule run_tier_in_order [OF c steps_memory_benchmark steps_disk_benchmark t])
  moreover have "sequential_run (cpu_benchmark env 3) (memory_benchmark env) (disk_benchmark env)
      s r s'"
    by (rule run_tier_sequential [OF c steps_memory_benchmark steps_disk_benchmark t])
  ultimately show "\<exists>r s'. run_benchmarks env s = Some (r, s') \<and>
      sequential_run (cpu_benchmark env 3) (memory_benchmark env) (disk_benchmark env) s r s' \<and>
      in_order s r s'"
    using 1 by (intro exI conjI)
next
  from assms obtain r s' where 1: "run_extended_benchmarks env s = Some (r, s')"
    using run_tier_total [OF extended_cpu_benchmark_total]
    by (fastforce simp: run_extended_benchmarks_tier)
  then have t: "run_tier (extended_cpu_benchmark env 5) (extended_memory_benchmark env)
      (extended_disk_benchmark env) s = Some (r, s')"
    by (simp add: run_extended_benchmarks_tier)
  have c: "\<And>s r s'. extended_cpu_benchmark env 5 s = Some (r, s') \<Longrightarrow>
      steps CpuProbe (Suc 0) s s'"
    by (rule extended_cpu_benchmark_steps)
  have "in_order s r s'"
    by (rule run_tier_in_order
        [OF c steps_extended_memory_benchmark steps_extended_disk_benchmark t])
  moreover have "sequential_run (extended_cpu_benchmark env 5) (extended_memory_benchmark env)
      (extended_disk_benchmark env) s r s'"
    by (rule run_tier_sequential
        [OF c steps_extended_memory_benchmark steps_extended_disk_benchmark t])
  ultimately show "\<exists>r s'. run_extended_benchmarks env s = Some (r, s') \<and>
      sequential_run (extended_cpu_benchmark env 5) (extended_memory_benchmark env)
        (extended_disk_benchmark env) s r s' \<and>
      in_order s r s'"
    using 1 by (intro exI conjI)
qed

lemmas run_eval =
  run_benchmarks_def run_extended_benchmarks_def cpu_benchmark_def extended_cpu_benchmark_def
  time_time_def perform_def io_bind_def io_return_def io_try_def io_finally_def
  quiet_env_def init_state_def Let_def cpu_loop.simps sqrt_work_def memory_benchmark_def
  extended_memory_benchmark_def str_int_def str_nat_digit digit_char_table disk_benchmark_def
  extended_disk_benchmark_def named_temporary_file_def mktemp_def
  close_file_def write_read_def with_open_def open_file_def write_file_def read_file_def
  remove_file_def file_exists_def file_content_def finish_run_def set_current_info_def
  textbox_after_def dict_update_def

lemma clock_advances_quiet: "clock_advances quiet_env"
  unfolding clock_advances_def quiet_env_def
proof (intro allI)
  fix t :: real and n :: nat
  obtain k :: nat where "t \<le> real k" using real_arch_simple by blast
  then have "max n k \<ge> n \<and> t \<le> real (max n k)" by simp
  then show "\<exists>m\<ge>n. t \<le> clock \<lparr>fault = \<lambda>_. None, clock = real, temp_name = \<lambda>n. ''tmp'' @ str_nat n,
      fmt_4f = \<lambda>_. ''0.0000''\<rparr> m"
    by (intro exI [of _ "max n k"]) simp
qed

theorem tier_runs_in_order_witness:
  "clock_advances quiet_env \<and>
   (\<exists>r s'. run_benchmarks quiet_env init_state = Some (r, s') \<and>
      sequential_run (cpu_benchmark quiet_env 3) (memory_benchmark quiet_env)
        (disk_benchmark quiet_env) init_state r s' \<and>
      in_order init_state r s') \<and>
   (\<exists>r s'. run_extended_benchmarks quiet_env init_state = Some (r, s') \<and>
      sequential_run (extended_cpu_benchmark quiet_env 5) (extended_memory_benchmark quiet_env)
        (extended_disk_benchmark quiet_env) init_state r s' \<and>
      in_order init_state r s') \<and>
   map_option fst (run_benchmarks quiet_env init_state) = Some (Inr ()) \<and>
   map_option (current_info \<circ> snd) (run_benchmarks quiet_env init_state) =
     Some (PDict [(''CPU Benchmark (loops in 3s)'', PInt 2),
       (''Memory Benchmark (sum bytes)'', PStr ''0.0000 seconds''),
       (''Disk Benchmark (write/read 10MB)'', PStr ''0.0000 seconds'')]) \<and>
   map_option (map by_whom \<circ> trace \<circ> snd) (run_benchmarks quiet_env init_state) =
     Some
          [Some CpuProbe, Some CpuProbe, Some CpuProbe, Some CpuProbe, Some MemoryProbe,
           Some MemoryProbe, Some MemoryProbe, Some DiskProbe, Some DiskProbe, Some DiskProbe,
           Some DiskProbe, Some DiskProbe, Some DiskProbe, Some DiskProbe, Some DiskProbe,
           Some DiskProbe, Some DiskProbe, Some DiskProbe, Some DiskProbe, None, None] \<and>
   map_option fst (run_extended_benchmarks quiet_env init_state) = Some (Inr ()) \<and>
   map_option (current_info \<circ> snd) (run_extended_benchmarks quiet_env init_state) =
     Some (PDict [(''Extended CPU Benchmark loops'', PInt 4),
       (''Extended Memory Benchmark (sum 10M floats)'', PStr ''0.0000 seconds''),
       (''Extended Disk Benchmark (3x 50MB write/read)'', PStr ''0.0000 seconds'')]) \<and>
   map_option (map by_whom \<circ> trace \<circ> snd) (run_extended_benchmarks quiet_env init_state) =
     Some
          [Some CpuProbe, Some CpuProbe, Some CpuProbe, Some CpuProbe, Some CpuProbe,
           Some CpuProbe, Some MemoryProbe, Some MemoryProbe, Some MemoryProbe,
           Some MemoryProbe, Some DiskProbe, Some DiskProbe, Some DiskProbe, Some DiskProbe,
           Some DiskProbe, Some DiskProbe, Some DiskProbe, Some DiskProbe, Some DiskProbe,
           Some DiskProbe, Some DiskProbe, Some DiskProbe, Some DiskProbe, Some DiskProbe,
           Some DiskProbe, Some DiskProbe, Some DiskProbe, Some DiskProbe, Some DiskProbe,
           Some DiskProbe, Some DiskProbe, Some DiskProbe, Some DiskProbe, None, None]"
proof -
  have e: "map_option fst (run_benchmarks quiet_env init_state) = Some (Inr ())"
    "map_option (current_info \<circ> snd) (run_benchmarks quiet_env init_state) =
     Some (PDict [(''CPU Benchmark (loops in 3s)'', PInt 2),
       (''Memory Benchmark (sum bytes)'', PStr ''0.0000 seconds''),
       (''Disk Benchmark (write/read 10MB)'', PStr ''0.0000 seconds'')])"
    "map_option (map by_whom \<circ> trace \<circ> snd) (run_benchmarks quiet_env init_state) =
     Some
          [Some CpuProbe, Some CpuProbe, Some CpuProbe, Some CpuProbe, Some MemoryProbe,
           Some MemoryProbe, Some MemoryProbe, Some DiskProbe, Some DiskProbe, Some DiskProbe,
           Some DiskProbe, Some DiskProbe, Some DiskProbe, Some DiskProbe, Some DiskProbe,
           Some DiskProbe, Some DiskProbe, Some DiskProbe, Some DiskProbe, None, None]"
    by (simp_all add: run_eval by_whom_def)
  have x: "map_option fst (run_extended_benchmarks quiet_env init_state) = Some (Inr ())"
    "map_option (current_info \<circ> snd) (run_extended_benchmarks quiet_env init_state) =
     Some (PDict [(''Extended CPU Benchmark loops'', PInt 4),
       (''Extended Memory Benchmark (sum 10M floats)'', PStr ''0.0000 seconds''),
       (''Extended Disk Benchmark (3x 50MB write/read)'', PStr ''0.0000 seconds'')])"
    "map_option (map by_whom \<circ> trace \<circ> snd) (run_extended_benchmarks quiet_env init_state) =
     Some
          [Some CpuProbe, Some CpuProbe, Some CpuProbe, Some CpuProbe, Some CpuProbe,
           Some CpuProbe, Some MemoryProbe, Some MemoryProbe, Some MemoryProbe,
           Some MemoryProbe, Some DiskProbe, Some DiskProbe, Some DiskProbe, Some DiskProbe,
           Some DiskProbe, Some DiskProbe, Some DiskProbe, Some DiskProbe, Some DiskProbe,
           Some DiskProbe, Some DiskProbe, Some DiskProbe, Some DiskProbe, Some DiskProbe,
           Some DiskProbe, Some DiskProbe, Some DiskProbe, Some DiskProbe, Some DiskProbe,
           Some DiskProbe, Some DiskProbe, Some DiskProbe, Some DiskProbe, None, None]"
    by (simp_all add: run_eval by_whom_def)
  show ?thesis
    using tier_runs_in_order [OF clock_advances_quiet, of init_state] clock_advances_quiet e x
    by simp
qed

text \<open>
  Claim C2 (the code departs from it). \<open>memory_benchmark\<close> has no \<open>try\<close>: when its
  allocation raises \<open>MemoryError\<close>, the exception leaves \<open>run_benchmarks\<close>; the disk
  probe does not run, nothing is merged and \<open>current_info\<close> keeps its old value.
\<close>

theorem memory_probe_exception_aborts_tier:
  "run_benchmarks oom_env init_state =
     Some (Inl (Exn ''MemoryError'' []),
       init_state\<lparr>trace := [Sys CpuProbe TimeTime, Sys CpuProbe TimeTime, Sys CpuProbe TimeTime,
         Sys CpuProbe TimeTime, Sys MemoryProbe (Alloc 100000000)]\<rparr>)"
  by (simp add: run_eval oom_env_def)

text \<open>
  Claim C3 (the code departs from it). \<open>os.remove\<close> is the last statement of the
  \<open>try\<close> block of both disk probes: when the write fails, the probe returns its error
  field and the temporary file is still there.
\<close>

theorem disk_probe_leaves_temp_file:
  "fst (disk_benchmark (disk_full_env 5) init_state) =
     Inr [(''Disk Benchmark Error'', PStr ''[Errno 28] No space left on device'')] \<and>
   file_exists (snd (disk_benchmark (disk_full_env 5) init_state)) ''tmp0'' \<and>
   fst (extended_disk_benchmark (disk_full_env 4) init_state) =
     Inr [(''Error'', PStr ''Failed extended disk benchmark: [Errno 28] No space left on device'')] \<and>
   file_exists (snd (extended_disk_benchmark (disk_full_env 4) init_state)) ''tmp0''"
  by (simp add: run_eval disk_full_env_def no_space_def)

subsection \<open>What the probes return\<close>

lemma returns_onlyD: "returns_only P m \<Longrightarrow> m s = (Inr r, s') \<Longrightarrow> P r"
  unfolding returns_only_def by blast

lemma returns_return: "P x \<Longrightarrow> returns_only P (io_return x)"
  by (simp add: returns_only_def io_return_def)

lemma returns_bind: "(\<And>x. returns_only P (f x)) \<Longrightarrow> returns_only P (io_bind m f)"
  unfolding returns_only_def io_bind_def
  by (auto split: prod.splits sum.splits)

lemma returns_try:
  "returns_only P m \<Longrightarrow> (\<And>e. returns_only P (h e)) \<Longrightarrow> returns_only P (io_try m h)"
  unfolding returns_only_def io_try_def
  by (auto split: prod.splits sum.splits)

lemma extended_memory_result:
  "returns_only (\<lambda>r.
     (\<exists>v. r = [(''Extended Memory Benchmark (sum 10M floats)'', PStr v)]) \<or>
     (\<exists>e. r = [(''Error'', PStr (''Failed extended memory benchmark: '' @ exn_msg e))]))
     (extended_memory_benchmark env)"
  unfolding extended_memory_benchmark_def
  by (intro returns_bind returns_try returns_return) auto

lemma extended_disk_result:
  "returns_only (\<lambda>r.
     (\<exists>v. r = [(''Extended Disk Benchmark (3x 50MB write/read)'', PStr v)]) \<or>
     (\<exists>e. r = [(''Error'', PStr (''Failed extended disk benchmark: '' @ exn_msg e))]))
     (extended_disk_benchmark env)"
  unfolding extended_disk_benchmark_def
  by (intro returns_bind returns_try returns_return) auto

lemma disk_result:
  "returns_only (\<lambda>r.
     (\<exists>v. r = [(''Disk Benchmark (write/read 10MB)'', PStr v)]) \<or>
     (\<exists>e. r = [(''Disk Benchmark Error'', PStr (exn_msg e))]))
     (disk_benchmark env)"
  unfolding disk_benchmark_def
  by (intro returns_bind returns_try returns_return) auto

lemma memory_result:
  "returns_only (\<lambda>r. \<exists>v. r = [(''Memory Benchmark (sum bytes)'', PStr v)]) (memory_benchmark env)"
  unfolding memory_benchmark_def
  by (intro returns_bind returns_try returns_return) auto

lemma extended_cpu_result:
  "extended_cpu_benchmark env d s = Some (Inr r, s') \<Longrightarrow>
     \<exists>c. r = [(''Extended CPU Benchmark loops'', PInt c)]"
  by (auto simp: extended_cpu_benchmark_def split: prod.splits sum.splits option.splits)

lemma cpu_result:
  "cpu_benchmark env 3 s = Some (Inr r, s') \<Longrightarrow>
     \<exists>c. r = [(''CPU Benchmark (loops in 3s)'', PInt c)]"
  by (auto simp: cpu_benchmark_def str_int_def str_nat_digit digit_char_table
      split: prod.splits sum.splits option.splits)


lemma merge_cpu_error_error:
  "dict_update (dict_update (dict_update [] [(''Extended CPU Benchmark loops'', PInt c)])
     [(''Error'', m)]) [(''Error'', d)]
   = [(''Extended CPU Benchmark loops'', PInt c), (''Error'', d)]"
  by (simp add: dict_update_def)

lemma run_extended_both_fail:
  assumes h1: "extended_cpu_benchmark env 5 s = Some (Inr [(''Extended CPU Benchmark loops'', PInt c)], s1)"
   and h2: "extended_memory_benchmark env s1 = (Inr [(''Error'', m)], s2)"
   and h3: "extended_disk_benchmark env s2 = (Inr [(''Error'', d)], s3)"
  shows "run_extended_benchmarks env s =
     Some (Inr (), finish_run [(''Extended CPU Benchmark loops'', PInt c), (''Error'', d)] s3)"
proof -
  have "run_extended_benchmarks env s =
     Some (Inr (), finish_run (dict_update (dict_update (dict_update []
       [(''Extended CPU Benchmark loops'', PInt c)]) [(''Error'', m)]) [(''Error'', d)]) s3)"
    by (simp only: run_extended_benchmarks_def h1 h2 h3 option.case prod.case sum.case)
  then show ?thesis
    by (simp only: merge_cpu_error_error)
qed

lemma current_info_finish_run: "current_info (finish_run r s) = PDict r"
  by (simp add: finish_run_def set_current_info_def textbox_after_def)

text \<open>
  Claim C10. The extended memory probe and the extended disk probe each return either
  their timing field or a single field named \<open>Error\<close>. When both return an \<open>Error\<close>
  field in one run of the extended tier, the second \<open>update\<close> overwrites the first: the
  merged result assigned to \<open>current_info\<close> has two fields, the CPU count and the disk
  probe's message.
\<close>

theorem extended_failures_share_error_key:
  "(extended_memory_benchmark env s = (Inr r, s') \<longrightarrow>
      (\<exists>v. r = [(''Extended Memory Benchmark (sum 10M floats)'', PStr v)]) \<or>
      (\<exists>e. r = [(''Error'', PStr (''Failed extended memory benchmark: '' @ exn_msg e))])) \<and>
   (extended_disk_benchmark env s = (Inr r, s') \<longrightarrow>
      (\<exists>v. r = [(''Extended Disk Benchmark (3x 50MB write/read)'', PStr v)]) \<or>
      (\<exists>e. r = [(''Error'', PStr (''Failed extended disk benchmark: '' @ exn_msg e))])) \<and>
   (extended_cpu_benchmark env 5 s = Some (Inr r1, s1) \<and>
    extended_memory_benchmark env s1 = (Inr [(''Error'', m)], s2) \<and>
    extended_disk_benchmark env s2 = (Inr [(''Error'', d)], s3) \<longrightarrow>
      (\<exists>c. run_extended_benchmarks env s =
             Some (Inr (), finish_run [(''Extended CPU Benchmark loops'', PInt c), (''Error'', d)] s3) \<and>
           current_info (finish_run [(''Extended CPU Benchmark loops'', PInt c), (''Error'', d)] s3) =
             PDict [(''Extended CPU Benchmark loops'', PInt c), (''Error'', d)] \<and>
           length [(''Extended CPU Benchmark loops'', PInt c), (''Error'', d)] = 2))"
proof (intro conjI impI)
  assume "extended_memory_benchmark env s = (Inr r, s')"
  then show "(\<exists>v. r = [(''Extended Memory Benchmark (sum 10M floats)'', PStr v)]) \<or>
      (\<exists>e. r = [(''Error'', PStr (''Failed extended memory benchmark: '' @ exn_msg e))])"
    by (rule returns_onlyD [OF extended_memory_result])
next
  assume "extended_disk_benchmark env s = (Inr r, s')"
  then show "(\<exists>v. r = [(''Extended Disk Benchmark (3x 50MB write/read)'', PStr v)]) \<or>
      (\<exists>e. r = [(''Error'', PStr (''Failed extended disk benchmark: '' @ exn_msg e))])"
    by (rule returns_onlyD [OF extended_disk_result])
next
  assume h: "extended_cpu_benchmark env 5 s = Some (Inr r1, s1) \<and>
    extended_memory_benchmark env s1 = (Inr [(''Error'', m)], s2) \<and>
    extended_disk_benchmark env s2 = (Inr [(''Error'', d)], s3)"
  then have h1: "extended_cpu_benchmark env 5 s = Some (Inr r1, s1)"
    and h2: "extended_memory_benchmark env s1 = (Inr [(''Error'', m)], s2)"
    and h3: "extended_disk_benchmark env s2 = (Inr [(''Error'', d)], s3)"
    by (rule conjunct1, rule conjunct1 [OF conjunct2], rule conjunct2 [OF conjunct2])
  from extended_cpu_result [OF h1]
  obtain c where c: "r1 = [(''Extended CPU Benchmark loops'', PInt c)]" ..
  have 1: "run_extended_benchmarks env s =
      Some (Inr (), finish_run [(''Extended CPU Benchmark loops'', PInt c), (''Error'', d)] s3)"
    by (rule run_extended_both_fail [OF h1 [unfolded c] h2 h3])
  have 2: "length [(''Extended CPU Benchmark loops'', PInt c), (''Error'', d)] = 2"
    by simp
  show "\<exists>c. run_extended_benchmarks env s =
             Some (Inr (), finish_run [(''Extended CPU Benchmark loops'', PInt c), (''Error'', d)] s3) \<and>
           current_info (finish_run [(''Extended CPU Benchmark loops'', PInt c), (''Error'', d)] s3) =
             PDict [(''Extended CPU Benchmark loops'', PInt c), (''Error'', d)] \<and>
           length [(''Extended CPU Benchmark loops'', PInt c), (''Error'', d)] = 2"
    by (rule exI [of _ c], intro conjI, rule 1, rule current_info_finish_run, rule 2)
qed

theorem extended_failures_share_error_key_witness:
  "fst (extended_memory_benchmark both_fail_env
          (snd (the (extended_cpu_benchmark both_fail_env 5 init_state)))) =
     Inr [(''Error'', PStr ''Failed extended memory benchmark: Unable to allocate array'')] \<and>
   (\<exists>c. map_option (current_info \<circ> snd) (run_extended_benchmarks both_fail_env init_state) =
      Some (PDict [(''Extended CPU Benchmark loops'', PInt c),
        (''Error'', PStr ''Failed extended disk benchmark: [Errno 28] No space left on device'')]))"
proof -
  define S1 where "S1 = snd (the (extended_cpu_benchmark both_fail_env 5 init_state))"
  define S2 where "S2 = snd (extended_memory_benchmark both_fail_env S1)"
  define S3 where "S3 = snd (extended_disk_benchmark both_fail_env S2)"
  have e1: "extended_cpu_benchmark both_fail_env 5 init_state =
      Some (Inr [(''Extended CPU Benchmark loops'', PInt 4)], S1)"
    unfolding S1_def by (simp add: run_eval both_fail_env_def)
  have t1: "trace S1 = replicate 6 (Sys CpuProbe TimeTime)"
    unfolding S1_def by (simp add: run_eval both_fail_env_def eval_nat_numeral)
  have e2: "extended_memory_benchmark both_fail_env S1 =
      (Inr [(''Error'', PStr ''Failed extended memory benchmark: Unable to allocate array'')], S2)"
    unfolding S2_def by (simp add: run_eval both_fail_env_def t1)
  have t2: "length (trace S2) = 8"
    unfolding S2_def by (simp add: run_eval both_fail_env_def t1)
  have e3: "extended_disk_benchmark both_fail_env S2 =
      (Inr [(''Error'', PStr ''Failed extended disk benchmark: [Errno 28] No space left on device'')], S3)"
    unfolding S3_def by (simp add: run_eval both_fail_env_def t2 no_space_def)
  from extended_failures_share_error_key [of both_fail_env init_state "[]" init_state
      "[(''Extended CPU Benchmark loops'', PInt 4)]" S1 _ S2 _ S3] e1 e2 e3
  obtain c where "run_extended_benchmarks both_fail_env init_state =
      Some (Inr (), finish_run [(''Extended CPU Benchmark loops'', PInt c),
        (''Error'', PStr ''Failed extended disk benchmark: [Errno 28] No space left on device'')] S3)"
    by blast
  then have "map_option (current_info \<circ> snd) (run_extended_benchmarks both_fail_env init_state) =
      Some (PDict [(''Extended CPU Benchmark loops'', PInt c),
        (''Error'', PStr ''Failed extended disk benchmark: [Errno 28] No space left on device'')])"
    by (simp add: current_info_finish_run)
  with e2 show ?thesis
    unfolding S1_def by (intro conjI exI [of _ c]) simp_all
qed

lemma baseline_merge_three_fields:
  assumes "run_benchmarks env s = Some (Inr (), s')"
  shows "\<exists>c m k d. current_info s' =
      PDict [(''CPU Benchmark (loops in 3s)'', PInt c), (''Memory Benchmark (sum bytes)'', PStr m),
             (k, PStr d)] \<and>
      (k = ''Disk Benchmark (write/read 10MB)'' \<or> k = ''Disk Benchmark Error'')"
proof -
  from assms obtain r1 s1 where c: "cpu_benchmark env 3 s = Some (Inr r1, s1)"
    by (auto simp: run_benchmarks_def split: option.splits sum.splits prod.splits)
  obtain x2 s2 where m0: "memory_benchmark env s1 = (x2, s2)" by (cases "memory_benchmark env s1")
  with assms c obtain r2 where m: "memory_benchmark env s1 = (Inr r2, s2)"
    by (cases x2) (simp_all add: run_benchmarks_def)
  obtain x3 s3 where d0: "disk_benchmark env s2 = (x3, s3)" by (cases "disk_benchmark env s2")
  with assms c m obtain r3 where d: "disk_benchmark env s2 = (Inr r3, s3)"
    by (cases x3) (simp_all add: run_benchmarks_def)
  from assms c m d have s': "s' = finish_run (dict_update (dict_update (dict_update [] r1) r2) r3) s3"
    by (simp add: run_benchmarks_def)
  from cpu_result [OF c]
  obtain n where r1: "r1 = [(''CPU Benchmark (loops in 3s)'', PInt n)]" ..
  from returns_onlyD [OF memory_result m]
  obtain v where r2: "r2 = [(''Memory Benchmark (sum bytes)'', PStr v)]" ..
  from returns_onlyD [OF disk_result d]
  obtain k w where r3: "r3 = [(k, PStr w)]"
    "k = ''Disk Benchmark (write/read 10MB)'' \<or> k = ''Disk Benchmark Error''"
    by (elim disjE exE) simp_all
  have "current_info s' =
      PDict [(''CPU Benchmark (loops in 3s)'', PInt n), (''Memory Benchmark (sum bytes)'', PStr v),
             (k, PStr w)]"
    using r3(2) unfolding s' r1 r2 r3(1)
    by (auto simp: dict_update_def finish_run_def set_current_info_def textbox_after_def)
  with r3(2) show ?thesis
    by (intro exI conjI)
qed


section \<open>Properties of the category dispatch\<close>

lemma show_info_unknown:
  assumes "cat \<notin> set category_options"
  shows "show_info p cat s =
     (Inr None, display_info unknown_category (set_current_info unknown_category (s\<lparr>textbox := []\<rparr>)))"
  using assms
  by (simp add: category_options_def show_info_def Let_def store_and_display_def)

lemma extended_show_info_unknown:
  assumes "cat \<notin> set extended_category_options"
  shows "extended_show_info p cat s =
     (Inr None, display_info unknown_category (set_current_info unknown_category (s\<lparr>textbox := []\<rparr>)))"
proof -
  from assms have b: "cat \<notin> set category_options"
    by (simp add: extended_category_options_def)
  from assms have "extended_show_info p cat s = show_info p cat (s\<lparr>textbox := []\<rparr>)"
    by (simp add: extended_category_options_def extended_show_info_def Let_def)
  then show ?thesis
    by (simp add: show_info_unknown [OF b])
qed

lemma current_info_display:
  "current_info (display_info v (set_current_info v s)) = v"
  by (simp add: display_info_def set_current_info_def)

text \<open>
  Claim C7. For a category name outside the catalog, \<open>show_info\<close> raises nothing: it
  stores the dictionary \<open>{"Error": "Unknown category"}\<close> in \<open>current_info\<close> and displays
  it, starting no thread. This holds for the baseline application (whose catalog has 13
  names) and for the extended one (21 names), whose \<open>show_info\<close> falls back to the
  baseline's.
\<close>

theorem unknown_category_is_data:
  "(cat \<notin> set category_options \<longrightarrow>
      show_info p cat s =
        (Inr None,
         display_info unknown_category (set_current_info unknown_category (s\<lparr>textbox := []\<rparr>))) \<and>
      current_info (snd (show_info p cat s)) = PDict [(''Error'', PStr ''Unknown category'')]) \<and>
   (cat \<notin> set extended_category_options \<longrightarrow>
      extended_show_info p cat s =
        (Inr None,
         display_info unknown_category (set_current_info unknown_category (s\<lparr>textbox := []\<rparr>))) \<and>
      current_info (snd (extended_show_info p cat s)) =
        PDict [(''Error'', PStr ''Unknown category'')])"
  by (simp add: show_info_unknown extended_show_info_unknown current_info_display
      unknown_category_def [symmetric])

theorem unknown_category_is_data_witness:
  "''nonexistent-category'' \<notin> set category_options \<and>
   ''nonexistent-category'' \<notin> set extended_category_options \<and>
   ''USB Devices'' \<notin> set category_options \<and>
   fst (show_info quiet_platform ''nonexistent-category'' init_state) = Inr None \<and>
   current_info (snd (show_info quiet_platform ''nonexistent-category'' init_state)) =
     PDict [(''Error'', PStr ''Unknown category'')] \<and>
   textbox (snd (show_info quiet_platform ''nonexistent-category'' init_state)) =
     ''Error: Unknown category'' @ [CHR 0x0A] \<and>
   current_info (snd (show_info quiet_platform ''USB Devices'' init_state)) =
     PDict [(''Error'', PStr ''Unknown category'')] \<and>
   fst (extended_show_info quiet_platform ''nonexistent-category'' init_state) = Inr None \<and>
   current_info (snd (extended_show_info quiet_platform ''nonexistent-category'' init_state)) =
     PDict [(''Error'', PStr ''Unknown category'')]"
proof -
  have n: "''nonexistent-category'' \<notin> set category_options"
    "''nonexistent-category'' \<notin> set extended_category_options"
    "''USB Devices'' \<notin> set category_options"
    by (simp_all add: category_options_def extended_category_options_def)
  have t: "textbox (display_info unknown_category (set_current_info unknown_category
      (init_state\<lparr>textbox := []\<rparr>))) = ''Error: Unknown category'' @ [CHR 0x0A]"
    by (simp add: display_info_def set_current_info_def unknown_category_def indent_str_def
        py_str_def)
  show ?thesis
    using unknown_category_is_data [of "''nonexistent-category''" quiet_platform init_state]
      unknown_category_is_data [of "''USB Devices''" quiet_platform init_state] n t
    by (simp add: current_info_display) (simp add: unknown_category_def)
qed


subsection \<open>Every other collector keeps its failures inside the record\<close>

lemma dict_of_shape: "dict_of entries = Inr v \<Longrightarrow> \<exists>d. v = PDict d"
  by (auto simp: dict_of_def bind_res_def split: sum.splits)

lemma try_collector_shape:
  assumes "\<And>v. m = Inr v \<Longrightarrow> \<exists>d. v = PDict d"
  shows "\<exists>d. try_res m (\<lambda>e. Inr (error_dict msg e)) = Inr (PDict d)"
  using assms by (cases m) (auto simp: try_res_def error_dict_def)

lemma list_collector_shape: "\<exists>xs. list_collector q f msg = Inr (PList xs)"
  by (auto simp: list_collector_def split: sum.splits prod.splits option.splits)

lemma keyed_list_collector_shape: "\<exists>d. keyed k (list_collector q f msg) = Inr (PDict d)"
  using list_collector_shape [of q f msg] by (auto simp: keyed_def bind_res_def)

lemma first_object_shape:
  assumes "\<And>x xs. \<exists>entries. g x = dict_of entries"
  shows "bind_res q (\<lambda>objs. case objs of [] \<Rightarrow> Inr (PDict []) | x # xs \<Rightarrow> g x) = Inr v
     \<Longrightarrow> \<exists>d. v = PDict d"
  using assms dict_of_shape
  by (auto simp: bind_res_def split: sum.splits list.splits) metis

lemma get_cpu_info_shape: "\<exists>d. get_cpu_info p = Inr (PDict d)"
  unfolding get_cpu_info_def
  by (rule try_collector_shape, erule first_object_shape [rotated]) blast

lemma get_bios_info_shape: "\<exists>d. get_bios_info p = Inr (PDict d)"
  unfolding get_bios_info_def
  by (rule try_collector_shape, erule first_object_shape [rotated]) blast

lemma get_motherboard_info_shape: "\<exists>d. get_motherboard_info p = Inr (PDict d)"
  unfolding get_motherboard_info_def
  by (rule try_collector_shape, erule first_object_shape [rotated]) blast

lemma bind_dict_shape:
  "bind_res m f = Inr v \<Longrightarrow> (\<And>x w. f x = Inr w \<Longrightarrow> \<exists>d. w = PDict d) \<Longrightarrow> \<exists>d. v = PDict d"
  by (cases m) (auto simp: bind_res_def)

lemma get_ram_info_shape: "\<exists>d. get_ram_info p = Inr (PDict d)"
  unfolding get_ram_info_def
  by (rule try_collector_shape) (erule bind_dict_shape, erule bind_dict_shape, erule dict_of_shape)

lemma get_battery_info_shape: "\<exists>d. get_battery_info p = Inr (PDict d)"
  unfolding get_battery_info_def
  by (rule try_collector_shape, erule bind_dict_shape)
     (auto split: option.splits dest: dict_of_shape)

lemma get_process_count_shape: "\<exists>d. get_process_count p = Inr (PDict d)"
  unfolding get_process_count_def
  by (rule try_collector_shape, erule bind_dict_shape) auto

lemma get_boot_time_shape: "\<exists>d. get_boot_time p = Inr (PDict d)"
  unfolding get_boot_time_def
  by (rule try_collector_shape, erule bind_dict_shape, erule bind_dict_shape) auto

lemma get_power_plan_shape: "\<exists>d. get_power_plan p = Inr (PDict d)"
  unfolding get_power_plan_def
  by (rule try_collector_shape, erule bind_dict_shape) auto

lemma get_system_locale_shape: "\<exists>d. get_system_locale p = Inr (PDict d)"
  unfolding get_system_locale_def
  by (rule try_collector_shape, erule bind_dict_shape) auto

lemma get_system_uptime_shape: "\<exists>d. get_system_uptime p = Inr (PDict d)"
  unfolding get_system_uptime_def
  by (rule try_collector_shape, erule bind_dict_shape) (auto simp: Let_def)

lemma store_and_display_shape:
  "\<exists>d. r = Inr (PDict d) \<Longrightarrow>
     \<exists>d. fst (store_and_display r s) = Inr None \<and>
         current_info (snd (store_and_display r s)) = PDict d"
  by (auto simp: store_and_display_def current_info_display)

lemma extended_dispatch:
  "extended_show_info p ''CPU Info'' s = store_and_display (get_cpu_info p) (s\<lparr>textbox := []\<rparr>)"
  "extended_show_info p ''GPU Info'' s =
     store_and_display (keyed ''GPUs'' (get_gpu_info p)) (s\<lparr>textbox := []\<rparr>)"
  "extended_show_info p ''RAM Info'' s = store_and_display (get_ram_info p) (s\<lparr>textbox := []\<rparr>)"
  "extended_show_info p ''Disk Info'' s =
     store_and_display (keyed ''Disks'' (get_disk_info p)) (s\<lparr>textbox := []\<rparr>)"
  "extended_show_info p ''Network Info'' s =
     store_and_display (keyed ''Network Adapters'' (get_network_info p)) (s\<lparr>textbox := []\<rparr>)"
  "extended_show_info p ''BIOS Info'' s = store_and_display (get_bios_info p) (s\<lparr>textbox := []\<rparr>)"
  "extended_show_info p ''Motherboard Info'' s =
     store_and_display (get_motherboard_info p) (s\<lparr>textbox := []\<rparr>)"
  "extended_show_info p ''Sound Devices'' s =
     store_and_display (keyed ''Sound Devices'' (get_sound_devices p)) (s\<lparr>textbox := []\<rparr>)"
  "extended_show_info p ''Battery Info'' s =
     store_and_display (get_battery_info p) (s\<lparr>textbox := []\<rparr>)"
  "extended_show_info p ''Process Count'' s =
     store_and_display (get_process_count p) (s\<lparr>textbox := []\<rparr>)"
  "extended_show_info p ''Boot Time'' s = store_and_display (get_boot_time p) (s\<lparr>textbox := []\<rparr>)"
  "extended_show_info p ''USB Devices'' s =
     store_and_display (keyed ''USB Devices'' (get_usb_devices p)) (s\<lparr>textbox := []\<rparr>)"
  "extended_show_info p ''Display Monitors'' s =
     store_and_display (keyed ''Display Monitors'' (get_display_monitors p)) (s\<lparr>textbox := []\<rparr>)"
  "extended_show_info p ''Printers'' s =
     store_and_display (keyed ''Printers'' (get_printers p)) (s\<lparr>textbox := []\<rparr>)"
  "extended_show_info p ''Installed Software'' s =
     store_and_display (keyed ''Installed Software'' (get_installed_software p)) (s\<lparr>textbox := []\<rparr>)"
  "extended_show_info p ''Power Plan'' s = store_and_display (get_power_plan p) (s\<lparr>textbox := []\<rparr>)"
  "extended_show_info p ''Locale & Timezone'' s =
     store_and_display (get_system_locale p) (s\<lparr>textbox := []\<rparr>)"
  "extended_show_info p ''System Uptime'' s =
     store_and_display (get_system_uptime p) (s\<lparr>textbox := []\<rparr>)"
  by (simp_all add: extended_show_info_def show_info_def Let_def)

lemma keyed_shapes:
  "\<exists>d. keyed k (get_gpu_info p) = Inr (PDict d)"
  "\<exists>d. keyed k (get_disk_info p) = Inr (PDict d)"
  "\<exists>d. keyed k (get_network_info p) = Inr (PDict d)"
  "\<exists>d. keyed k (get_sound_devices p) = Inr (PDict d)"
  "\<exists>d. keyed k (get_usb_devices p) = Inr (PDict d)"
  "\<exists>d. keyed k (get_display_monitors p) = Inr (PDict d)"
  "\<exists>d. keyed k (get_printers p) = Inr (PDict d)"
  "\<exists>d. keyed k (get_installed_software p) = Inr (PDict d)"
  unfolding get_gpu_info_def get_disk_info_def get_network_info_def get_sound_devices_def
    get_usb_devices_def get_display_monitors_def get_printers_def get_installed_software_def
  by (rule keyed_list_collector_shape)+

lemma guarded_categories_return_object:
  assumes "cat \<in> set extended_category_options"
    and "cat \<noteq> ''System Info''" and "cat \<noteq> ''Benchmarks''" and "cat \<noteq> ''Extended Benchmarks''"
  shows "\<exists>d. fst (extended_show_info p cat s) = Inr None \<and>
             current_info (snd (extended_show_info p cat s)) = PDict d"
proof -
  from assms have "cat = ''CPU Info'' \<or> cat = ''GPU Info'' \<or> cat = ''RAM Info'' \<or>
      cat = ''Disk Info'' \<or> cat = ''Network Info'' \<or> cat = ''BIOS Info'' \<or>
      cat = ''Motherboard Info'' \<or> cat = ''Sound Devices'' \<or> cat = ''Battery Info'' \<or>
      cat = ''Process Count'' \<or> cat = ''Boot Time'' \<or> cat = ''USB Devices'' \<or>
      cat = ''Display Monitors'' \<or> cat = ''Printers'' \<or> cat = ''Installed Software'' \<or>
      cat = ''Power Plan'' \<or> cat = ''Locale & Timezone'' \<or> cat = ''System Uptime''"
    by (simp add: extended_category_options_def category_options_def)
  then show ?thesis
    by (elim disjE)
       (simp_all only: extended_dispatch store_and_display_shape keyed_shapes
         get_cpu_info_shape get_ram_info_shape get_bios_info_shape get_motherboard_info_shape
         get_battery_info_shape get_process_count_shape get_boot_time_shape get_power_plan_shape
         get_system_locale_shape get_system_uptime_shape)
qed



section \<open>The structured export is read back unchanged\<close>

subsection \<open>White space\<close>

lemma skip_ws_replicate: "skip_ws (replicate n CHR '' '' @ rest) = skip_ws rest"
  by (induction n) (simp_all add: skip_ws_def is_ws_def)

lemma skip_ws_newline_indent: "skip_ws (newline_indent lvl @ rest) = skip_ws rest"
  using skip_ws_replicate [of "4 * lvl" rest]
  by (simp add: newline_indent_def skip_ws_def is_ws_def)

lemma skip_ws_stop: "\<not> is_ws c \<Longrightarrow> skip_ws (c # cs) = c # cs"
  by (simp add: skip_ws_def)

subsection \<open>Strings\<close>

lemma of_char_lt_256: "(of_char (c :: char) :: nat) < 256"
proof -
  have "(of_char c :: nat) mod 256 = of_char c" by simp
  then show ?thesis by (metis mod_less_divisor zero_less_numeral)
qed

lemma hex_val_hex_char: "d < 16 \<Longrightarrow> hex_val (hex_char d) = Some d"
  by (simp add: hex_val_def hex_char_def Let_def)

lemma hex_val_zero: "hex_val CHR ''0'' = Some 0"
  by (simp add: hex_val_def)

lemma char_of_div_mod: "char_of ((of_char c :: nat) div 16 * 16 + of_char c mod 16) = c"
  by simp

lemma scan_u_escape:
  "scanstring acc ([CHR 0x5C, CHR ''u'', CHR ''0'', CHR ''0'',
       hex_char (of_char c div 16), hex_char (of_char c mod 16)] @ rest) =
     scanstring (acc @ [c]) rest"
proof -
  have d: "(of_char c :: nat) div 16 < 16" using of_char_lt_256 [of c] by arith
  have m: "(of_char c :: nat) mod 16 < 16" by simp
  have v: "(of_char c :: nat) div 16 * 16 + of_char c mod 16 < 256"
    using of_char_lt_256 [of c] by arith
  show ?thesis
    using v by (simp add: hex_val_zero hex_val_hex_char [OF d] hex_val_hex_char [OF m])
qed

lemma scan_plain:
  "c \<noteq> CHR 0x22 \<Longrightarrow> c \<noteq> CHR 0x5C \<Longrightarrow> 32 \<le> (of_char c :: nat) \<Longrightarrow>
     scanstring acc (c # rest) = scanstring (acc @ [c]) rest"
  by simp

lemma scan_escape: "scanstring acc (json_escape_char c @ rest) = scanstring (acc @ [c]) rest"
proof -
  consider "c = CHR 0x22" | "c = CHR 0x5C" | "c = CHR 0x0A" | "c = CHR 0x0D" | "c = CHR 0x09"
    | "c = CHR 0x0C" | "c = CHR 0x08"
    | "c \<noteq> CHR 0x22" "c \<noteq> CHR 0x5C" "c \<noteq> CHR 0x0A" "c \<noteq> CHR 0x0D" "c \<noteq> CHR 0x09"
      "c \<noteq> CHR 0x0C" "c \<noteq> CHR 0x08"
    by fast
  then show ?thesis
  proof cases
    case 8
    show ?thesis
    proof (cases "32 \<le> (of_char c :: nat) \<and> (of_char c :: nat) \<le> 126")
      case True
      with 8 show ?thesis by (simp add: json_escape_char_def)
    next
      case False
      with 8 have "json_escape_char c = [CHR 0x5C, CHR ''u'', CHR ''0'', CHR ''0'',
          hex_char (of_char c div 16), hex_char (of_char c mod 16)]"
        by (simp add: json_escape_char_def)
      then show ?thesis using scan_u_escape [of acc c rest] by simp
    qed
  qed (simp_all add: json_escape_char_def unescape_def)
qed

lemma scanstring_encoded:
  "scanstring acc (concat (map json_escape_char s) @ CHR 0x22 # rest) = Some (acc @ s, rest)"
proof (induction s arbitrary: acc)
  case Nil
  show ?case by simp
next
  case (Cons c s)
  have "scanstring acc (concat (map json_escape_char (c # s)) @ CHR 0x22 # rest) =
      scanstring acc (json_escape_char c @ (concat (map json_escape_char s) @ CHR 0x22 # rest))"
    by simp
  also have "\<dots> = scanstring (acc @ [c]) (concat (map json_escape_char s) @ CHR 0x22 # rest)"
    by (rule scan_escape)
  also have "\<dots> = Some ((acc @ [c]) @ s, rest)" by (rule Cons.IH)
  finally show ?case by simp
qed

lemma scan_basestring:
  "encode_basestring_ascii s @ rest = CHR 0x22 # concat (map json_escape_char s) @ CHR 0x22 # rest"
  by (simp add: encode_basestring_ascii_def)

subsection \<open>Numbers\<close>

lemma value_end_not_digit: "value_end (c # cs) \<Longrightarrow> \<not> is_digit c"
  by (auto simp add: value_end_def is_digit_def)

lemma take_digits_end: "value_end rest \<Longrightarrow> takeWhile is_digit (xs @ rest) = takeWhile is_digit xs"
proof (induction xs)
  case Nil
  then show ?case by (cases rest) (auto dest: value_end_not_digit)
next
  case (Cons x xs)
  then show ?case by simp
qed

lemma drop_digits_end:
  "value_end rest \<Longrightarrow> dropWhile is_digit (xs @ rest) = dropWhile is_digit xs @ rest"
proof (induction xs)
  case Nil
  then show ?case by (cases rest) (auto dest: value_end_not_digit)
next
  case (Cons x xs)
  then show ?case by simp
qed

lemma value_end_cases:
  assumes "value_end rest"
  obtains "rest = []" | r where "rest = CHR '','' # r" | r where "rest = CHR 0x0A # r"
  using assms by (cases rest) (auto simp add: value_end_def)

lemma scan_int_part_end:
  assumes "value_end rest"
  shows "scan_int_part (cs @ rest) =
    map_option (\<lambda>(ds, r). (ds, r @ rest)) (scan_int_part cs)"
proof (cases cs)
  case Nil
  from assms show ?thesis
    by (cases rule: value_end_cases) (simp_all add: Nil scan_int_part_def is_digit_def)
next
  case (Cons c r)
  have tw: "takeWhile is_digit (c # r @ rest) = takeWhile is_digit (c # r)"
    using take_digits_end [OF assms, of "c # r"] by simp
  have dw: "dropWhile is_digit (c # r @ rest) = dropWhile is_digit (c # r) @ rest"
    using drop_digits_end [OF assms, of "c # r"] by simp
  show ?thesis
    by (simp add: Cons scan_int_part_def tw dw del: takeWhile.simps dropWhile.simps)
qed

lemma scan_frac_end:
  assumes "value_end rest"
  shows "scan_frac (cs @ rest) = (case scan_frac cs of (f, r) \<Rightarrow> (f, r @ rest))"
proof (cases cs)
  case Nil
  from assms show ?thesis
    by (cases rule: value_end_cases) (simp_all add: Nil scan_frac_def split: list.splits)
next
  case c: (Cons c r)
  show ?thesis
  proof (cases r)
    case Nil
    from assms show ?thesis
      by (cases rule: value_end_cases)
        (simp_all add: c Nil scan_frac_def is_digit_def split: list.splits)
  next
    case (Cons d r')
    have tw: "takeWhile is_digit (d # r' @ rest) = takeWhile is_digit (d # r')"
      using take_digits_end [OF assms, of "d # r'"] by simp
    have dw: "dropWhile is_digit (d # r' @ rest) = dropWhile is_digit (d # r') @ rest"
      using drop_digits_end [OF assms, of "d # r'"] by simp
    show ?thesis
      by (simp add: c Cons scan_frac_def tw dw del: takeWhile.simps dropWhile.simps)
  qed
qed

lemma scan_exp_end:
  assumes "value_end rest"
  shows "scan_exp (cs @ rest) = (case scan_exp cs of (e, r) \<Rightarrow> (e, r @ rest))"
proof (cases cs)
  case Nil
  from assms show ?thesis
    by (cases rule: value_end_cases) (simp_all add: Nil scan_exp_def split: list.splits)
next
  case c: (Cons e r)
  show ?thesis
  proof (cases r)
    case Nil
    from assms show ?thesis
      by (cases rule: value_end_cases)
        (simp_all add: c Nil scan_exp_def is_digit_def split: list.splits)
  next
    case g: (Cons g r')
    show ?thesis
    proof (cases r')
      case Nil
      from assms show ?thesis
        by (cases rule: value_end_cases)
          (simp_all add: c g Nil scan_exp_def is_digit_def split: list.splits)
    next
      case (Cons d r'')
      have tw: "takeWhile is_digit (d # r'' @ rest) = takeWhile is_digit (d # r'')"
        using take_digits_end [OF assms, of "d # r''"] by simp
      have dw: "dropWhile is_digit (d # r'' @ rest) = dropWhile is_digit (d # r'') @ rest"
        using drop_digits_end [OF assms, of "d # r''"] by simp
      have tw': "takeWhile is_digit (g # d # r'' @ rest) = takeWhile is_digit (g # d # r'')"
        using take_digits_end [OF assms, of "g # d # r''"] by simp
      have dw': "dropWhile is_digit (g # d # r'' @ rest) = dropWhile is_digit (g # d # r'') @ rest"
        using drop_digits_end [OF assms, of "g # d # r''"] by simp
      show ?thesis
        by (simp add: c g Cons scan_exp_def tw dw tw' dw' del: takeWhile.simps dropWhile.simps)
    qed
  qed
qed

lemma scan_unsigned_end:
  assumes "value_end rest"
  shows "(case scan_int_part (cs1 @ rest) of
           None \<Rightarrow> None
         | Some (ds, r1) \<Rightarrow>
             (case scan_frac r1 of (fpart, r2) \<Rightarrow>
                (case scan_exp r2 of (epart, r3) \<Rightarrow>
                   if fpart = [] \<and> epart = []
                   then Some (PInt (if neg then - int (nat_of_digits ds) else int (nat_of_digits ds)),
                              r3)
                   else Some (PFloat ((if neg then ''-'' else []) @ ds @ fpart @ epart), r3)))) =
         map_option (\<lambda>(v, r). (v, r @ rest))
           (case scan_int_part cs1 of
              None \<Rightarrow> None
            | Some (ds, r1) \<Rightarrow>
                (case scan_frac r1 of (fpart, r2) \<Rightarrow>
                   (case scan_exp r2 of (epart, r3) \<Rightarrow>
                      if fpart = [] \<and> epart = []
                      then Some (PInt (if neg then - int (nat_of_digits ds) else int (nat_of_digits ds)),
                                 r3)
                      else Some (PFloat ((if neg then ''-'' else []) @ ds @ fpart @ epart), r3))))"
proof (cases "scan_int_part cs1")
  case None
  then show ?thesis by (simp add: scan_int_part_end [OF assms])
next
  case (Some a)
  obtain ds r1 where a: "a = (ds, r1)" by (cases a)
  obtain fpart r2 where f: "scan_frac r1 = (fpart, r2)" by (cases "scan_frac r1")
  obtain epart r3 where e: "scan_exp r2 = (epart, r3)" by (cases "scan_exp r2")
  show ?thesis
    by (simp add: Some a f e scan_int_part_end [OF assms] scan_frac_end [OF assms]
        scan_exp_end [OF assms])
qed

lemma scan_number_end:
  assumes "value_end rest"
  shows "scan_number (cs @ rest) = map_option (\<lambda>(v, r). (v, r @ rest)) (scan_number cs)"
proof (cases cs)
  case Nil
  have "scan_int_part rest = None"
    using scan_int_part_end [OF assms, of "[]"] by (simp add: scan_int_part_def)
  moreover have "(case rest of [] \<Rightarrow> False | c # x \<Rightarrow> c = CHR ''-'') = False"
    using assms by (cases rule: value_end_cases) simp_all
  ultimately show ?thesis by (simp add: Nil scan_number_def scan_int_part_def)
next
  case (Cons c r)
  show ?thesis
  proof (cases "c = CHR ''-''")
    case True
    show ?thesis
      using scan_unsigned_end [where ?cs1.0 = r and neg = True, OF assms]
      by (simp add: Cons True scan_number_def)
  next
    case False
    show ?thesis
      using scan_unsigned_end [where ?cs1.0 = "c # r" and neg = False, OF assms]
      by (simp add: Cons False scan_number_def)
  qed
qed

lemma digit_char_digit: "d < 10 \<Longrightarrow> is_digit (digit_char d)"
  by (simp add: is_digit_def digit_char_def)

lemma digit_val_digit_char: "d < 10 \<Longrightarrow> digit_val (digit_char d) = d"
  by (simp add: digit_val_def digit_char_def)

lemma digit_char_zero: "d < 10 \<Longrightarrow> digit_char d = CHR ''0'' \<longleftrightarrow> d = 0"
proof -
  assume "d < 10"
  then have "(of_char (digit_char d) :: nat) = 48 + d" by (simp add: digit_char_def)
  moreover have "(of_char CHR ''0'' :: nat) = 48" by simp
  ultimately show ?thesis by (metis add_cancel_right_right of_char_eq_iff)
qed

lemma str_nat_digits: "\<forall>c \<in> set (str_nat n). is_digit c"
proof (induction n rule: str_nat.induct)
  case (1 n)
  show ?case
  proof (cases "n < 10")
    case True
    then show ?thesis by (simp add: str_nat.simps [of n] digit_char_digit)
  next
    case False
    with 1 show ?thesis by (simp add: str_nat.simps [of n] digit_char_digit)
  qed
qed

lemma str_nat_not_Nil: "str_nat n \<noteq> []"
  by (simp add: str_nat.simps [of n])

lemma nat_of_digits_snoc: "nat_of_digits (ds @ [c]) = 10 * nat_of_digits ds + digit_val c"
  by (simp add: nat_of_digits_def)

lemma nat_of_digits_str_nat: "nat_of_digits (str_nat n) = n"
proof (induction n rule: str_nat.induct)
  case (1 n)
  show ?case
  proof (cases "n < 10")
    case True
    then show ?thesis by (simp add: str_nat.simps [of n] nat_of_digits_def digit_val_digit_char)
  next
    case False
    with 1 show ?thesis
      by (simp add: str_nat.simps [of n] nat_of_digits_snoc digit_val_digit_char)
  qed
qed

lemma str_nat_leading: "0 < n \<Longrightarrow> hd (str_nat n) \<noteq> CHR ''0''"
proof (induction n rule: str_nat.induct)
  case (1 n)
  show ?case
  proof (cases "n < 10")
    case True
    with 1(2) show ?thesis by (simp add: str_nat.simps [of n] digit_char_zero)
  next
    case False
    then have "0 < n div 10" by simp
    with 1(1) False have "hd (str_nat (n div 10)) \<noteq> CHR ''0''" by simp
    with False show ?thesis by (simp add: str_nat.simps [of n] str_nat_not_Nil)
  qed
qed

lemma str_nat_zero: "str_nat 0 = ''0''"
  by code_simp

lemma scan_int_part_str_nat: "scan_int_part (str_nat n) = Some (str_nat n, [])"
proof (cases "n = 0")
  case True
  then show ?thesis by (simp add: str_nat_zero scan_int_part_def)
next
  case False
  obtain c r where cr: "str_nat n = c # r" using str_nat_not_Nil [of n] by (cases "str_nat n") auto
  have all: "\<forall>c \<in> set (c # r). is_digit c" using str_nat_digits [of n] by (simp only: cr)
  have "c \<noteq> CHR ''0''" using str_nat_leading [of n] False by (simp add: cr)
  moreover have "takeWhile is_digit (c # r) = c # r" using all by (simp only: takeWhile_eq_all_conv)
  moreover have "dropWhile is_digit (c # r) = []" using all by (simp only: dropWhile_eq_Nil_conv)
  moreover have "is_digit c" using all by simp
  ultimately show ?thesis
    by (simp add: cr scan_int_part_def del: takeWhile.simps dropWhile.simps)
qed

lemma str_nat_not_minus: "hd (str_nat n) \<noteq> CHR ''-''"
proof -
  obtain c r where cr: "str_nat n = c # r" using str_nat_not_Nil [of n] by (cases "str_nat n") auto
  have "is_digit c" using str_nat_digits [of n] by (simp add: cr)
  then show ?thesis by (auto simp add: cr is_digit_def)
qed

lemma scan_number_str_nat: "scan_number (str_nat n) = Some (PInt (int n), [])"
proof -
  obtain c r where cr: "str_nat n = c # r" using str_nat_not_Nil [of n] by (cases "str_nat n") auto
  have "c \<noteq> CHR ''-''" using str_nat_not_minus [of n] by (simp add: cr)
  then have "scan_number (c # r) = Some (PInt (int (nat_of_digits (c # r))), [])"
    using scan_int_part_str_nat [of n]
    by (simp add: cr scan_number_def scan_frac_def scan_exp_def)
  then show ?thesis using nat_of_digits_str_nat [of n] by (simp add: cr)
qed

lemma scan_number_str_int: "scan_number (str_int i) = Some (PInt i, [])"
proof (cases "i < 0")
  case True
  then show ?thesis
    using scan_int_part_str_nat [of "nat (- i)"] nat_of_digits_str_nat [of "nat (- i)"]
    by (simp add: str_int_def scan_number_def scan_frac_def scan_exp_def)
next
  case False
  then show ?thesis using scan_number_str_nat [of "nat i"] by (simp add: str_int_def)
qed

lemma scan_number_int_end:
  "value_end rest \<Longrightarrow> scan_number (str_int i @ rest) = Some (PInt i, rest)"
  by (simp add: scan_number_end scan_number_str_int)

lemma scan_number_float_end:
  "value_end rest \<Longrightarrow> scan_number r = Some (PFloat r, []) \<Longrightarrow>
     scan_number (r @ rest) = Some (PFloat r, rest)"
  by (simp add: scan_number_end)

lemma scan_number_first:
  assumes "scan_number r = Some res"
  obtains c r' where "r = c # r'" "c = CHR ''-'' \<or> is_digit c"
proof (cases r)
  case Nil
  with assms show ?thesis by (simp add: scan_number_def scan_int_part_def)
next
  case (Cons c r')
  have "c = CHR ''-'' \<or> is_digit c"
  proof (rule ccontr)
    assume "\<not> (c = CHR ''-'' \<or> is_digit c)"
    then have "c \<noteq> CHR ''-''" "\<not> is_digit c" by simp_all
    moreover from this have "c \<noteq> CHR ''0''" by (auto simp add: is_digit_def)
    ultimately have "scan_number (c # r') = None"
      by (simp add: scan_number_def scan_int_part_def)
    with assms Cons show False by simp
  qed
  with Cons show ?thesis by (rule that)
qed

subsection \<open>The first character of an encoding\<close>

lemma value_end_newline_indent: "value_end (newline_indent l @ cs)"
  by (simp add: value_end_def newline_indent_def)

lemma value_end_comma: "value_end (CHR '','' # cs)"
  by (simp add: value_end_def)

lemma value_end_Nil: "value_end []"
  by (simp add: value_end_def)

lemma length_newline_indent: "length (newline_indent l) = Suc (4 * l)"
  by (simp add: newline_indent_def)

lemma digit_opens: "is_digit c \<Longrightarrow> \<not> is_ws c \<and> c \<noteq> CHR '']'' \<and> c \<noteq> CHR ''}''"
  by (auto simp add: is_digit_def is_ws_def)

lemma str_int_first: "\<exists>c r. str_int i = c # r \<and> (c = CHR ''-'' \<or> is_digit c)"
proof -
  have "\<exists>c r. str_nat n = c # r \<and> is_digit c" for n
    using str_nat_not_Nil [of n] str_nat_digits [of n] by (cases "str_nat n") simp_all
  then obtain c r where cr: "str_nat (nat i) = c # r" "is_digit c" by blast
  show ?thesis
  proof (cases "i < 0")
    case True
    then show ?thesis by (simp add: str_int_def)
  next
    case False
    with cr show ?thesis by (simp add: str_int_def)
  qed
qed

lemma number_opens:
  "c = CHR ''-'' \<or> is_digit c \<Longrightarrow> \<not> is_ws c \<and> c \<noteq> CHR '']'' \<and> c \<noteq> CHR ''}''"
  by (auto simp add: is_digit_def is_ws_def)

lemma floatstr_first:
  assumes "float_repr r"
  shows "\<exists>c r'. floatstr r = c # r' \<and> \<not> is_ws c \<and> c \<noteq> CHR '']'' \<and> c \<noteq> CHR ''}''"
proof -
  consider "r = ''nan''" | "r = ''inf''" | "r = ''-inf''"
    | "r \<noteq> ''nan''" "r \<noteq> ''inf''" "r \<noteq> ''-inf''" "scan_number r = Some (PFloat r, [])"
    using assms unfolding float_repr_def by fast
  then show ?thesis
  proof cases
    case 4
    from 4(4) obtain c r' where "r = c # r'" "c = CHR ''-'' \<or> is_digit c"
      by (rule scan_number_first)
    moreover from 4(1-3) have "floatstr r = r" by (simp add: floatstr_def)
    ultimately show ?thesis using number_opens [of c] by simp
  qed (simp_all add: floatstr_def is_ws_def)
qed

lemma iterencode_first:
  assumes "fact_record v"
  shows "\<exists>c r. iterencode lvl v = c # r \<and> \<not> is_ws c \<and> c \<noteq> CHR '']'' \<and> c \<noteq> CHR ''}''"
proof (cases v)
  case (PInt i)
  obtain c r where "str_int i = c # r" "c = CHR ''-'' \<or> is_digit c"
    using str_int_first [of i] by (elim exE conjE)
  with number_opens [of c] show ?thesis by (simp add: PInt)
next
  case (PFloat r)
  with assms floatstr_first [of r] show ?thesis by simp
next
  case (PTuple xs)
  with assms show ?thesis by simp
qed (simp_all add: is_ws_def encode_basestring_ascii_def)

lemma skip_ws_iterencode:
  "fact_record v \<Longrightarrow> skip_ws (iterencode lvl v @ rest) = iterencode lvl v @ rest"
  using iterencode_first [of v lvl] by (auto simp add: skip_ws_def)

lemma iterencode_list_first:
  assumes "fact_records xs" "xs \<noteq> []"
  shows "\<exists>c r. iterencode_list lvl xs = c # r \<and> \<not> is_ws c \<and> c \<noteq> CHR '']'' \<and> c \<noteq> CHR ''}''"
proof -
  from assms obtain x xs' where xs: "xs = x # xs'" "fact_record x" by (cases xs) simp_all
  from iterencode_first [OF xs(2), of lvl] obtain c r where
    c: "iterencode lvl x = c # r" "\<not> is_ws c" "c \<noteq> CHR '']''" "c \<noteq> CHR ''}''"
    by (elim exE conjE)
  then show ?thesis by (cases xs') (simp_all add: xs(1))
qed

lemma iterencode_dict_first:
  assumes "d \<noteq> []"
  shows "\<exists>r. iterencode_dict lvl d = CHR 0x22 # r"
proof -
  from assms obtain k v d' where d: "d = (k, v) # d'" by (cases d) auto
  show ?thesis by (cases d') (simp_all add: d encode_basestring_ascii_def)
qed

subsection \<open>Scalars\<close>

lemma scan_once_number:
  assumes "scan_number cs = Some res"
  shows "scan_once (Suc m) cs = Some res"
proof -
  from assms obtain c r where cr: "cs = c # r" "c = CHR ''-'' \<or> is_digit c"
    by (rule scan_number_first)
  from cr(2) have "c \<noteq> CHR 0x22" "c \<noteq> CHR ''{''" "c \<noteq> CHR ''[''" "c \<noteq> CHR ''n''"
    "c \<noteq> CHR ''t''" "c \<noteq> CHR ''f''"
    by (auto simp add: is_digit_def)
  with assms show ?thesis by (simp add: cr(1) starts_with_def)
qed

lemma scan_once_int:
  "value_end rest \<Longrightarrow> scan_once (Suc m) (str_int i @ rest) = Some (PInt i, rest)"
  by (rule scan_once_number) (rule scan_number_int_end)

lemma scan_once_float:
  assumes "float_repr r" "value_end rest"
  shows "scan_once (Suc m) (floatstr r @ rest) = Some (PFloat r, rest)"
proof -
  consider "r = ''nan''" | "r = ''inf''" | "r = ''-inf''"
    | "r \<noteq> ''nan''" "r \<noteq> ''inf''" "r \<noteq> ''-inf''" "scan_number r = Some (PFloat r, [])"
    using assms(1) unfolding float_repr_def by fast
  then show ?thesis
  proof cases
    case 1
    then show ?thesis
      by (simp add: floatstr_def starts_with_def scan_number_def scan_int_part_def is_digit_def)
  next
    case 2
    then show ?thesis
      by (simp add: floatstr_def starts_with_def scan_number_def scan_int_part_def is_digit_def)
  next
    case 3
    then show ?thesis
      by (simp add: floatstr_def starts_with_def scan_number_def scan_int_part_def is_digit_def)
  next
    case 4
    have "scan_once (Suc m) (r @ rest) = Some (PFloat r, rest)"
      using assms(2) 4(4) by (intro scan_once_number scan_number_float_end)
    with 4(1-3) show ?thesis by (simp add: floatstr_def)
  qed
qed

lemma scan_once_str:
  "scan_once (Suc m) (encode_basestring_ascii s @ rest) = Some (PStr s, rest)"
  using scanstring_encoded [of "[]" s rest] by (simp add: encode_basestring_ascii_def)

subsection \<open>Dictionaries with distinct keys\<close>

lemma dict_setitem_fresh: "k \<notin> fst ` set d \<Longrightarrow> dict_setitem k v d = d @ [(k, v)]"
  by (induction d) auto

lemma foldl_setitem_distinct:
  "distinct (map fst (acc @ d)) \<Longrightarrow>
     foldl (\<lambda>d (k, v). dict_setitem k v d) acc d = acc @ d"
proof (induction d arbitrary: acc)
  case Nil
  show ?case by simp
next
  case (Cons kv d)
  obtain k v where kv: "kv = (k, v)" by (cases kv)
  from Cons.prems have fresh: "k \<notin> fst ` set acc" by (auto simp add: kv)
  from Cons.prems have "distinct (map fst ((acc @ [(k, v)]) @ d))" by (simp add: kv)
  then have "foldl (\<lambda>d (k, v). dict_setitem k v d) (acc @ [(k, v)]) d = (acc @ [(k, v)]) @ d"
    by (rule Cons.IH)
  then show ?case by (simp add: kv dict_setitem_fresh [OF fresh])
qed

lemma dict_of_pairs_distinct: "distinct (map fst d) \<Longrightarrow> dict_of_pairs d = d"
  using foldl_setitem_distinct [of "[]" d] by (simp add: dict_of_pairs_def)

subsection \<open>Lists and objects\<close>

lemma skip_ws_closing: "skip_ws (newline_indent l @ CHR '']'' # rest) = CHR '']'' # rest"
  by (simp add: skip_ws_newline_indent) (simp add: skip_ws_def is_ws_def)

lemma skip_ws_closing_brace: "skip_ws (newline_indent l @ CHR ''}'' # rest) = CHR ''}'' # rest"
  by (simp add: skip_ws_newline_indent) (simp add: skip_ws_def is_ws_def)

lemma skip_ws_comma: "skip_ws (CHR '','' # cs) = CHR '','' # cs"
  by (simp add: skip_ws_def is_ws_def)

lemma skip_ws_colon: "skip_ws (CHR '':'' # cs) = CHR '':'' # cs"
  by (simp add: skip_ws_def is_ws_def)

lemma skip_ws_space: "skip_ws (CHR '' '' # cs) = skip_ws cs"
  by (simp add: skip_ws_def is_ws_def)

lemma skip_ws_list_text:
  assumes "fact_records xs" "xs \<noteq> []"
  shows "skip_ws (newline_indent l @ iterencode_list lvl xs @ rest) = iterencode_list lvl xs @ rest"
proof -
  from iterencode_list_first [OF assms, of lvl] obtain c r where
    "iterencode_list lvl xs = c # r" "\<not> is_ws c" by (elim exE conjE)
  then show ?thesis by (simp add: skip_ws_newline_indent) (simp add: skip_ws_def)
qed

lemma skip_ws_dict_text:
  assumes "d \<noteq> []"
  shows "skip_ws (newline_indent l @ iterencode_dict lvl d @ rest) = iterencode_dict lvl d @ rest"
proof -
  from iterencode_dict_first [OF assms, of lvl] obtain r where
    "iterencode_dict lvl d = CHR 0x22 # r" ..
  then show ?thesis by (simp add: skip_ws_newline_indent) (simp add: skip_ws_def is_ws_def)
qed

lemma json_array_iterencode_list:
  assumes "\<And>x lvl n rest. x \<in> set xs \<Longrightarrow> fact_record x \<Longrightarrow> length (iterencode lvl x) \<le> n \<Longrightarrow>
      value_end rest \<Longrightarrow> scan_once n (iterencode lvl x @ rest) = Some (x, rest)"
    and "xs \<noteq> []" and "fact_records xs" and "length (iterencode_list lvl xs) < n"
  shows "json_array n acc (iterencode_list lvl xs @ newline_indent l @ CHR '']'' # rest) =
    Some (acc @ xs, rest)"
  using assms
proof (induction xs arbitrary: n acc)
  case Nil
  then show ?case by simp
next
  case (Cons x xs)
  from Cons.prems(4) obtain m where n: "n = Suc m" by (cases n) simp_all
  from Cons.prems(3) have x: "fact_record x" and xs: "fact_records xs" by simp_all
  have elem: "scan_once k (iterencode lvl' x @ rest') = Some (x, rest')"
    if "length (iterencode lvl' x) \<le> k" "value_end rest'" for k lvl' rest'
    using Cons.prems(1) [of x lvl' k rest'] x that by simp
  show ?case
  proof (cases xs)
    case Nil
    from Cons.prems(4) have len: "length (iterencode lvl x) \<le> m" by (simp add: n Nil)
    have "scan_once m (iterencode lvl x @ newline_indent l @ CHR '']'' # rest) =
        Some (x, newline_indent l @ CHR '']'' # rest)"
      using len value_end_newline_indent by (rule elem)
    then show ?thesis by (simp add: n Nil skip_ws_closing)
  next
    case more: (Cons y ys)
    let ?tail = "iterencode_list lvl (y # ys) @ newline_indent l @ CHR '']'' # rest"
    from Cons.prems(4) have len: "length (iterencode lvl x) \<le> m"
      and len': "length (iterencode_list lvl (y # ys)) < m"
      by (simp_all add: n more length_newline_indent)
    have first: "scan_once m (iterencode lvl x @ CHR '','' # newline_indent lvl @ ?tail) =
        Some (x, CHR '','' # newline_indent lvl @ ?tail)"
      using len value_end_comma by (rule elem)
    have skip: "skip_ws (newline_indent lvl @ ?tail) = ?tail"
      using xs by (intro skip_ws_list_text) (simp_all add: more)
    have rest: "json_array m (acc @ [x]) ?tail = Some ((acc @ [x]) @ y # ys, rest)"
      using Cons.prems(1) xs len' unfolding more [symmetric]
      by (intro Cons.IH) (simp_all add: more)
    show ?thesis
      by (simp add: n more first skip_ws_comma skip rest)
  qed
qed

lemma json_object_iterencode_dict:
  assumes "\<And>k x lvl n rest. (k, x) \<in> set d \<Longrightarrow> fact_record x \<Longrightarrow>
      length (iterencode lvl x) \<le> n \<Longrightarrow> value_end rest \<Longrightarrow>
      scan_once n (iterencode lvl x @ rest) = Some (x, rest)"
    and "d \<noteq> []" and "fact_fields d" and "length (iterencode_dict lvl d) < n"
  shows "json_object n acc (iterencode_dict lvl d @ newline_indent l @ CHR ''}'' # rest) =
    Some (acc @ d, rest)"
  using assms
proof (induction d arbitrary: n acc)
  case Nil
  then show ?case by simp
next
  case (Cons kv d)
  obtain k v where kv: "kv = (k, v)" by (cases kv)
  from Cons.prems(4) obtain m where n: "n = Suc m" by (cases n) simp_all
  from Cons.prems(3) have v: "fact_record v" and d: "fact_fields d" by (simp_all add: kv)
  have elem: "scan_once j (iterencode lvl' v @ rest') = Some (v, rest')"
    if "length (iterencode lvl' v) \<le> j" "value_end rest'" for j lvl' rest'
    using Cons.prems(1) [of k v lvl' j rest'] v that by (simp add: kv)
  have key: "scanstring [] (concat (map json_escape_char k) @ CHR 0x22 # cs) = Some (k, cs)" for cs
    using scanstring_encoded [of "[]" k cs] by simp
  show ?case
  proof (cases d)
    case Nil
    from Cons.prems(4) have len: "length (iterencode lvl v) \<le> m"
      by (simp add: n kv Nil)
    have val: "scan_once m (iterencode lvl v @ newline_indent l @ CHR ''}'' # rest) =
        Some (v, newline_indent l @ CHR ''}'' # rest)"
      using len value_end_newline_indent by (rule elem)
    have skip: "skip_ws (iterencode lvl v @ cs) = iterencode lvl v @ cs" for cs
      using v by (rule skip_ws_iterencode)
    show ?thesis
      by (simp add: n kv Nil encode_basestring_ascii_def key skip_ws_colon skip_ws_space skip val
          skip_ws_closing_brace)
  next
    case more: (Cons kv' d')
    let ?tail = "iterencode_dict lvl (kv' # d') @ newline_indent l @ CHR ''}'' # rest"
    from Cons.prems(4) have len: "length (iterencode lvl v) \<le> m"
      and len': "length (iterencode_dict lvl (kv' # d')) < m"
      by (simp_all add: n kv more length_newline_indent)
    have val: "scan_once m (iterencode lvl v @ CHR '','' # newline_indent lvl @ ?tail) =
        Some (v, CHR '','' # newline_indent lvl @ ?tail)"
      using len value_end_comma by (rule elem)
    have skip: "skip_ws (iterencode lvl v @ cs) = iterencode lvl v @ cs" for cs
      using v by (rule skip_ws_iterencode)
    have skip': "skip_ws (newline_indent lvl @ ?tail) = ?tail"
      by (intro skip_ws_dict_text) simp
    have fields: "scan_once j (iterencode lvl' x @ rest') = Some (x, rest')"
      if "(k', x) \<in> set d" "fact_record x" "length (iterencode lvl' x) \<le> j" "value_end rest'"
      for k' x lvl' j rest'
      using that Cons.prems(1) [of k' x lvl' j rest'] by simp
    have "json_object m (acc @ [(k, v)])
        (iterencode_dict lvl d @ newline_indent l @ CHR ''}'' # rest) =
        Some ((acc @ [(k, v)]) @ d, rest)"
    proof (rule Cons.IH)
      show "d \<noteq> []" by (simp add: more)
      show "fact_fields d" by (rule d)
      show "length (iterencode_dict lvl d) < m" using len' by (simp add: more)
    qed (rule fields)
    then have rest: "json_object m (acc @ [(k, v)]) ?tail =
        Some ((acc @ [(k, v)]) @ kv' # d', rest)"
      by (simp add: more)
    show ?thesis
      by (simp add: n kv more encode_basestring_ascii_def key skip_ws_colon skip_ws_space skip
          val skip_ws_comma skip' rest)
  qed
qed

subsection \<open>The round trip\<close>

lemma scan_once_iterencode:
  "fact_record v \<Longrightarrow> length (iterencode lvl v) \<le> n \<Longrightarrow> value_end rest \<Longrightarrow>
     scan_once n (iterencode lvl v @ rest) = Some (v, rest)"
proof (induction v arbitrary: lvl n rest)
  case PNone
  then obtain m where "n = Suc m" by (cases n) simp_all
  then show ?case by (simp add: starts_with_def)
next
  case (PBool b)
  then obtain m where "n = Suc m" by (cases n) (simp_all split: if_splits)
  then show ?case by (simp add: starts_with_def)
next
  case (PInt i)
  from str_int_first [of i] PInt(2) obtain m where "n = Suc m" by (cases n) auto
  with PInt(3) show ?case by (simp add: scan_once_int)
next
  case (PFloat r)
  from floatstr_first [of r] PFloat(1,2) obtain m where "n = Suc m" by (cases n) auto
  with PFloat(1,3) show ?case by (simp add: scan_once_float)
next
  case (PStr s)
  then obtain m where "n = Suc m" by (cases n) (simp_all add: encode_basestring_ascii_def)
  then show ?case by (simp add: scan_once_str)
next
  case (PList xs)
  show ?case
  proof (cases "xs = []")
    case True
    with PList.prems(2) obtain m where "n = Suc m" by (cases n) simp_all
    with True show ?thesis by (simp add: skip_ws_def is_ws_def)
  next
    case False
    from PList.prems(2) False obtain m where n: "n = Suc m" by (cases n) simp_all
    from PList.prems(1) have xs: "fact_records xs" by simp
    from PList.prems(2) False have len: "length (iterencode_list (Suc lvl) xs) < m"
      by (simp add: n length_newline_indent)
    let ?text = "iterencode_list (Suc lvl) xs @ newline_indent lvl @ CHR '']'' # rest"
    from iterencode_list_first [OF xs False, of "Suc lvl"] obtain c r where
      c: "iterencode_list (Suc lvl) xs = c # r" "c \<noteq> CHR '']''" by (elim exE conjE)
    have skip: "skip_ws (newline_indent (Suc lvl) @ ?text) = ?text"
      using xs False by (rule skip_ws_list_text)
    have "json_array m [] ?text = Some ([] @ xs, rest)"
      using PList.IH False xs len by (intro json_array_iterencode_list)
    then have arr: "json_array m [] (c # r @ newline_indent lvl @ CHR '']'' # rest) =
        Some (xs, rest)" by (simp add: c)
    have "skip_ws (newline_indent (Suc lvl) @ c # r @ newline_indent lvl @ CHR '']'' # rest) =
        c # r @ newline_indent lvl @ CHR '']'' # rest"
      using skip by (simp add: c)
    then have "scan_once (Suc m) (CHR ''['' # newline_indent (Suc lvl) @ c # r @
        newline_indent lvl @ CHR '']'' # rest) = Some (PList xs, rest)"
      by (simp add: arr c(2))
    with False show ?thesis by (simp add: n c)
  qed
next
  case (PTuple xs)
  then show ?case by simp
next
  case (PDict d)
  show ?case
  proof (cases "d = []")
    case True
    with PDict.prems(2) obtain m where "n = Suc m" by (cases n) simp_all
    with True show ?thesis by (simp add: skip_ws_def is_ws_def)
  next
    case False
    from PDict.prems(2) False obtain m where n: "n = Suc m" by (cases n) simp_all
    from PDict.prems(1) have d: "fact_fields d" and keys: "distinct (map fst d)" by simp_all
    from PDict.prems(2) False have len: "length (iterencode_dict (Suc lvl) d) < m"
      by (simp add: n length_newline_indent)
    let ?text = "iterencode_dict (Suc lvl) d @ newline_indent lvl @ CHR ''}'' # rest"
    from iterencode_dict_first [OF False, of "Suc lvl"] obtain r where
      c: "iterencode_dict (Suc lvl) d = CHR 0x22 # r" ..
    have skip: "skip_ws (newline_indent (Suc lvl) @ ?text) = ?text"
      using False by (rule skip_ws_dict_text)
    have field: "scan_once j (iterencode lvl' x @ rest') = Some (x, rest')"
      if "(k, x) \<in> set d" "fact_record x" "length (iterencode lvl' x) \<le> j" "value_end rest'"
      for k x lvl' j rest'
      using that(1) by (intro PDict.IH [of "(k, x)" x] that(2-4)) simp_all
    have "json_object m [] ?text = Some ([] @ d, rest)"
      using field False d len by (intro json_object_iterencode_dict)
    then have obj: "json_object m [] (CHR 0x22 # r @ newline_indent lvl @ CHR ''}'' # rest) =
        Some (d, rest)" by (simp add: c)
    have "skip_ws (newline_indent (Suc lvl) @ CHR 0x22 # r @ newline_indent lvl @ CHR ''}'' # rest) =
        CHR 0x22 # r @ newline_indent lvl @ CHR ''}'' # rest"
      using skip by (simp add: c)
    then have "scan_once (Suc m) (CHR ''{'' # newline_indent (Suc lvl) @ CHR 0x22 # r @
        newline_indent lvl @ CHR ''}'' # rest) = Some (PDict d, rest)"
      by (simp add: obj dict_of_pairs_distinct [OF keys])
    with False show ?thesis by (simp add: n c)
  qed
qed

lemma json_loads_dumps: "fact_record v \<Longrightarrow> json_loads (json_dumps v) = Some v"
  using scan_once_iterencode [of v 0 "Suc (length (iterencode 0 v))" "[]"]
    skip_ws_iterencode [of v 0 "[]"]
  by (simp add: json_loads_def json_dumps_def value_end_Nil skip_ws_def)

text \<open>
  Claim C5. A fact record (objects with distinct field names, lists and scalars, nested to
  any depth, the empty object and the empty list included) is read back from the text of
  the structured exporter as the same record, with the same nesting and the same order of
  fields; and without a platform fault \<open>export_json\<close> returns \<open>True\<close> and the file it has
  written decodes to the record.
\<close>

theorem structured_export_round_trip:
  "fact_record v \<Longrightarrow>
     json_loads (json_dumps v) = Some v \<and>
     json_loads (json_dumps (PDict [])) = Some (PDict []) \<and>
     json_loads (json_dumps (PList [])) = Some (PList []) \<and>
     (no_faults env \<longrightarrow>
        fst (export_json env v f s) = Inr (PBool True) \<and>
        json_load (snd (export_json env v f s)) f = Some v)"
proof -
  assume v: "fact_record v"
  have "json_loads (json_dumps (PDict [])) = Some (PDict [])"
    by (rule json_loads_dumps) simp
  moreover have "json_loads (json_dumps (PList [])) = Some (PList [])"
    by (rule json_loads_dumps) simp
  moreover have "json_loads (json_dumps v) = Some v"
    using v by (rule json_loads_dumps)
  ultimately show ?thesis
    using export_json_ok [of env v f s] by (simp add: json_load_def)
qed

theorem structured_export_round_trip_witness:
  "fact_record
     (PDict [(''CPU'', PDict [(''Cores'', PInt 8), (''Load'', PFloat ''12.5''),
                (''Name'', PStr [CHR ''a'', CHR 0x22, CHR 0x0A])]),
             (''GPUs'', PList [PDict [], PList [], PNone, PBool True, PInt (- 30)])]) \<and>
   no_faults quiet_env \<and>
   json_load (snd (export_json quiet_env
     (PDict [(''CPU'', PDict [(''Cores'', PInt 8), (''Load'', PFloat ''12.5''),
                (''Name'', PStr [CHR ''a'', CHR 0x22, CHR 0x0A])]),
             (''GPUs'', PList [PDict [], PList [], PNone, PBool True, PInt (- 30)])])
     ''hardware_report.json'' init_state)) ''hardware_report.json'' =
     Some (PDict [(''CPU'', PDict [(''Cores'', PInt 8), (''Load'', PFloat ''12.5''),
                (''Name'', PStr [CHR ''a'', CHR 0x22, CHR 0x0A])]),
             (''GPUs'', PList [PDict [], PList [], PNone, PBool True, PInt (- 30)])])"
proof -
  have r: "fact_record
     (PDict [(''CPU'', PDict [(''Cores'', PInt 8), (''Load'', PFloat ''12.5''),
                (''Name'', PStr [CHR ''a'', CHR 0x22, CHR 0x0A])]),
             (''GPUs'', PList [PDict [], PList [], PNone, PBool True, PInt (- 30)])])"
    by code_simp
  have q: "no_faults quiet_env"
    by (simp add: no_faults_def quiet_env_def)
  show ?thesis
    using structured_export_round_trip [OF r, of quiet_env "''hardware_report.json''" init_state]
      r q
    by simp
qed

end
